theory Spec2Isabelle
  imports Complex_Main "HOL-Library.Code_Target_Numeral"
begin

section \<open>Basic domains (types.ts)\<close>

text \<open>
  The string-literal union types of \<^verbatim>\<open>types.ts\<close> are closed enumerations and become
  datatypes. Constructors are the pinyin readings of the source's literals, in the
  source's order; the stems carry the prefix \<open>G_\<close>, the branches the prefix \<open>Z_\<close>, the
  five strength tiers the prefix \<open>P_\<close> and the twelve life stages the prefix \<open>S_\<close>.
  Free text that a claim reads (hexagram names) is kept as the list of its UTF-16 code
  units, which is what a JavaScript string is; ASCII text is a \<open>string\<close>.
\<close>

type_synonym jsstring = "nat list"

datatype TianGan = G_Jia | G_Yi | G_Bing | G_Ding | G_Wu | G_Ji | G_Geng | G_Xin | G_Ren | G_Gui

datatype DiZhi = Z_Zi | Z_Chou | Z_Yin | Z_Mao | Z_Chen | Z_Si | Z_Wu | Z_Wei | Z_Shen | Z_You
  | Z_Xu | Z_Hai

datatype WuXing = Jin | Mu | Shui | Huo | Tu

datatype YinYang = Yin | Yang

datatype BaGua = Qian | Dui | Li | Zhen | Xun | Kan | Gen | Kun

datatype YaoType = old_yin | young_yin | young_yang | old_yang

datatype LiuQin = FuMu | XiongDi | ZiSun | QiCai | GuanGui

datatype YongShenTarget = T_LiuQin LiuQin | T_ShiYao | T_YingYao | T_YongShen

datatype LiuShen = QingLong | ZhuQue | GouChen | TengShe | BaiHu | XuanWu

datatype ProsperityState = P_Wang | P_Xiang | P_Xiu | P_Qiu | P_Si

datatype TwelveStage = S_ChangSheng | S_MuYu | S_GuanDai | S_LinGuan | S_DiWang | S_Shuai
  | S_Bing | S_Si | S_Mu | S_Jue | S_Tai | S_Yang

datatype ChangeType = advance | retreat | return_birth | return_clash | to_void | to_tomb
  | to_bindingend | normal

datatype DiZhiRelation = six_clash | six_harmony | three_harmony | three_penalty | six_harm
  | destruction | no_relation

datatype Impact = positive | negative | neutral

datatype DayStatus = day_support | day_restrain | day_neutral

datatype QuestionCategory = career | love | wealth | health | study | lawsuit | travel | lost
  | other

datatype TrendJudgment = very_favorable | favorable | trend_neutral | unfavorable
  | very_unfavorable | uncertain

datatype ItemType = item_trend | item_obstacle | item_support | item_timing | item_advice
  | item_risk

datatype CastingMethod = coin | by_time | manual

datatype GenderOption = male | female | same_sex

text \<open>
  \<^verbatim>\<open>YaoState\<close>. The optional \<^verbatim>\<open>coinResult\<close> is \<open>None\<close> when the field is absent
  (and, after decoding a share code, when \<^verbatim>\<open>parseInt\<close> gave \<^verbatim>\<open>NaN\<close>).
\<close>

record YaoState =
  yinYang :: YinYang
  isMoving :: bool
  ytype :: YaoType
  coinResult :: "int option"

record ChangedYaoInfo =
  c_yinYang :: YinYang
  c_diZhi :: DiZhi
  c_wuXing :: WuXing
  c_liuQin :: LiuQin
  changeType :: ChangeType

text \<open>
  \<^verbatim>\<open>YaoInfo extends YaoState\<close>. The optional transformation descriptor
  \<^verbatim>\<open>changedYao\<close> and the optional \<^verbatim>\<open>prosperity\<close> are options; \<^verbatim>\<open>tianGan\<close> is
  always set by the installer.
\<close>

record YaoInfo = YaoState +
  position :: int
  diZhi :: DiZhi
  tianGan :: TianGan
  wuXing :: WuXing
  liuQin :: LiuQin
  liuShen :: LiuShen
  isWorld :: bool
  isResponse :: bool
  changedYao :: "ChangedYaoInfo option"
  prosperity :: "ProsperityState option"
  isVoid :: bool
  isDayBroken :: bool
  isMonthBroken :: bool

text \<open>
  A row of the hexagram table is \<^verbatim>\<open>Omit<GuaInfo, 'binary'>\<close>; \<^verbatim>\<open>GuaInfo\<close> adds the
  binary key.
\<close>

record GuaData =
  name :: jsstring
  sequence :: int
  upperGua :: BaGua
  lowerGua :: BaGua
  palace :: BaGua
  worldPosition :: int
  responsePosition :: int
  g_wuXing :: WuXing

record GuaInfo = GuaData +
  binary :: string

record GanZhi =
  gan :: TianGan
  zhi :: DiZhi

record GanZhiTime =
  year :: GanZhi
  month :: GanZhi
  day :: GanZhi
  hour :: GanZhi
  voidBranches :: "DiZhi \<times> DiZhi"
  monthWuXing :: WuXing
  dayWuXing :: WuXing

text \<open>
  Everything the source signals with \<^verbatim>\<open>throw\<close>, and the \<^verbatim>\<open>TypeError\<close> that reading
  a property of \<^verbatim>\<open>undefined\<close> raises.
\<close>

datatype error =
    UnknownHexagram string
  | UnknownChangedHexagram string
  | MissingWorldLine
  | MissingResponseLine
  | TypeError
  | InvalidCharacterError
  | SyntaxError

section \<open>JavaScript arithmetic and arrays\<close>

text \<open>
  \<^verbatim>\<open>a % b\<close> on integers truncates towards zero: the result has the sign of \<open>a\<close>.
\<close>

definition js_rem :: "int \<Rightarrow> int \<Rightarrow> int" where
  "js_rem a b = (if a < 0 then - ((- a) mod \<bar>b\<bar>) else a mod \<bar>b\<bar>)"

text \<open>\<^verbatim>\<open>Array.prototype.indexOf\<close>: the first index of the element, or \<open>-1\<close>.\<close>

fun indexOf :: "'a list \<Rightarrow> 'a \<Rightarrow> int" where
  "indexOf [] x = -1"
| "indexOf (y # ys) x = (if y = x then 0 else (let i = indexOf ys x in if i < 0 then -1 else i + 1))"

text \<open>
  \<^verbatim>\<open>xs[i]\<close>: reading outside the array gives \<^verbatim>\<open>undefined\<close>, here \<open>None\<close>.
\<close>

definition js_nth :: "'a list \<Rightarrow> int \<Rightarrow> 'a option" where
  "js_nth xs i = (if 0 \<le> i \<and> i < int (length xs) then Some (xs ! nat i) else None)"

text \<open>\<^verbatim>\<open>xs.map((x, index) => ...)\<close> passes the index along.\<close>

definition enumerate0 :: "'a list \<Rightarrow> (int \<times> 'a) list" where
  "enumerate0 xs = zip (map int [0..<length xs]) xs"

text \<open>\<^verbatim>\<open>Array.prototype.find\<close>.\<close>

fun js_find :: "('a \<Rightarrow> bool) \<Rightarrow> 'a list \<Rightarrow> 'a option" where
  "js_find P [] = None"
| "js_find P (x # xs) = (if P x then Some x else js_find P xs)"

text \<open>Sequencing of computations that may throw.\<close>

definition bindE :: "error + 'a \<Rightarrow> ('a \<Rightarrow> error + 'b) \<Rightarrow> error + 'b" where
  "bindE m f = (case m of Inl e \<Rightarrow> Inl e | Inr x \<Rightarrow> f x)"

fun mapE :: "('a \<Rightarrow> error + 'b) \<Rightarrow> 'a list \<Rightarrow> error + 'b list" where
  "mapE f [] = Inr []"
| "mapE f (x # xs) = bindE (f x) (\<lambda>y. bindE (mapE f xs) (\<lambda>ys. Inr (y # ys)))"

section \<open>Constants (constants.ts)\<close>

definition TIAN_GAN :: "TianGan list" where
  "TIAN_GAN = [G_Jia, G_Yi, G_Bing, G_Ding, G_Wu, G_Ji, G_Geng, G_Xin, G_Ren, G_Gui]"

definition DI_ZHI :: "DiZhi list" where
  "DI_ZHI = [Z_Zi, Z_Chou, Z_Yin, Z_Mao, Z_Chen, Z_Si, Z_Wu, Z_Wei, Z_Shen, Z_You, Z_Xu, Z_Hai]"

text \<open>
  A \<^verbatim>\<open>Record<K, V>\<close> whose keys are all the values of an enumeration is a total
  function on the datatype.
\<close>

fun DI_ZHI_WU_XING :: "DiZhi \<Rightarrow> WuXing" where
  "DI_ZHI_WU_XING Z_Zi = Shui" | "DI_ZHI_WU_XING Z_Chou = Tu"
| "DI_ZHI_WU_XING Z_Yin = Mu" | "DI_ZHI_WU_XING Z_Mao = Mu"
| "DI_ZHI_WU_XING Z_Chen = Tu" | "DI_ZHI_WU_XING Z_Si = Huo"
| "DI_ZHI_WU_XING Z_Wu = Huo" | "DI_ZHI_WU_XING Z_Wei = Tu"
| "DI_ZHI_WU_XING Z_Shen = Jin" | "DI_ZHI_WU_XING Z_You = Jin"
| "DI_ZHI_WU_XING Z_Xu = Tu" | "DI_ZHI_WU_XING Z_Hai = Shui"

fun WU_XING_SHENG :: "WuXing \<Rightarrow> WuXing" where
  "WU_XING_SHENG Mu = Huo" | "WU_XING_SHENG Huo = Tu" | "WU_XING_SHENG Tu = Jin"
| "WU_XING_SHENG Jin = Shui" | "WU_XING_SHENG Shui = Mu"

fun WU_XING_KE :: "WuXing \<Rightarrow> WuXing" where
  "WU_XING_KE Mu = Tu" | "WU_XING_KE Tu = Shui" | "WU_XING_KE Shui = Huo"
| "WU_XING_KE Huo = Jin" | "WU_XING_KE Jin = Mu"

fun WU_XING_BEI_SHENG :: "WuXing \<Rightarrow> WuXing" where
  "WU_XING_BEI_SHENG Mu = Shui" | "WU_XING_BEI_SHENG Huo = Mu" | "WU_XING_BEI_SHENG Tu = Huo"
| "WU_XING_BEI_SHENG Jin = Tu" | "WU_XING_BEI_SHENG Shui = Jin"

fun WU_XING_BEI_KE :: "WuXing \<Rightarrow> WuXing" where
  "WU_XING_BEI_KE Mu = Jin" | "WU_XING_BEI_KE Huo = Shui" | "WU_XING_BEI_KE Tu = Mu"
| "WU_XING_BEI_KE Jin = Huo" | "WU_XING_BEI_KE Shui = Tu"

fun DI_ZHI_CHONG :: "DiZhi \<Rightarrow> DiZhi" where
  "DI_ZHI_CHONG Z_Zi = Z_Wu" | "DI_ZHI_CHONG Z_Chou = Z_Wei"
| "DI_ZHI_CHONG Z_Yin = Z_Shen" | "DI_ZHI_CHONG Z_Mao = Z_You"
| "DI_ZHI_CHONG Z_Chen = Z_Xu" | "DI_ZHI_CHONG Z_Si = Z_Hai"
| "DI_ZHI_CHONG Z_Wu = Z_Zi" | "DI_ZHI_CHONG Z_Wei = Z_Chou"
| "DI_ZHI_CHONG Z_Shen = Z_Yin" | "DI_ZHI_CHONG Z_You = Z_Mao"
| "DI_ZHI_CHONG Z_Xu = Z_Chen" | "DI_ZHI_CHONG Z_Hai = Z_Si"

fun DI_ZHI_HE :: "DiZhi \<Rightarrow> DiZhi" where
  "DI_ZHI_HE Z_Zi = Z_Chou" | "DI_ZHI_HE Z_Chou = Z_Zi"
| "DI_ZHI_HE Z_Yin = Z_Hai" | "DI_ZHI_HE Z_Mao = Z_Xu"
| "DI_ZHI_HE Z_Chen = Z_You" | "DI_ZHI_HE Z_Si = Z_Shen"
| "DI_ZHI_HE Z_Wu = Z_Wei" | "DI_ZHI_HE Z_Wei = Z_Wu"
| "DI_ZHI_HE Z_Shen = Z_Si" | "DI_ZHI_HE Z_You = Z_Chen"
| "DI_ZHI_HE Z_Xu = Z_Mao" | "DI_ZHI_HE Z_Hai = Z_Yin"

text \<open>
  \<^verbatim>\<open>DI_ZHI_SAN_HE\<close> is keyed by three-character strings; \<^verbatim>\<open>Object.entries\<close> lists
  them in the order written. Each key is kept as the list of its three branches.
\<close>

definition DI_ZHI_SAN_HE :: "(DiZhi list \<times> WuXing) list" where
  "DI_ZHI_SAN_HE = [([Z_Shen, Z_Zi, Z_Chen], Shui), ([Z_Yin, Z_Wu, Z_Xu], Huo),
                    ([Z_Si, Z_You, Z_Chou], Jin), ([Z_Hai, Z_Mao, Z_Wei], Mu)]"

fun DI_ZHI_HAI :: "DiZhi \<Rightarrow> DiZhi" where
  "DI_ZHI_HAI Z_Zi = Z_Wei" | "DI_ZHI_HAI Z_Chou = Z_Wu"
| "DI_ZHI_HAI Z_Yin = Z_Si" | "DI_ZHI_HAI Z_Mao = Z_Chen"
| "DI_ZHI_HAI Z_Chen = Z_Mao" | "DI_ZHI_HAI Z_Si = Z_Yin"
| "DI_ZHI_HAI Z_Wu = Z_Chou" | "DI_ZHI_HAI Z_Wei = Z_Zi"
| "DI_ZHI_HAI Z_Shen = Z_Hai" | "DI_ZHI_HAI Z_You = Z_Xu"
| "DI_ZHI_HAI Z_Xu = Z_You" | "DI_ZHI_HAI Z_Hai = Z_Shen"

fun DI_ZHI_XING :: "DiZhi \<Rightarrow> DiZhi list" where
  "DI_ZHI_XING Z_Zi = [Z_Mao]" | "DI_ZHI_XING Z_Mao = [Z_Zi]"
| "DI_ZHI_XING Z_Yin = [Z_Si, Z_Shen]" | "DI_ZHI_XING Z_Si = [Z_Yin, Z_Shen]"
| "DI_ZHI_XING Z_Shen = [Z_Yin, Z_Si]"
| "DI_ZHI_XING Z_Chou = [Z_Xu, Z_Wei]" | "DI_ZHI_XING Z_Xu = [Z_Chou, Z_Wei]"
| "DI_ZHI_XING Z_Wei = [Z_Chou, Z_Xu]"
| "DI_ZHI_XING Z_Chen = [Z_Chen]" | "DI_ZHI_XING Z_Wu = [Z_Wu]"
| "DI_ZHI_XING Z_You = [Z_You]" | "DI_ZHI_XING Z_Hai = [Z_Hai]"

text \<open>
  \<^verbatim>\<open>BA_GUA_DATA\<close>: the fields the engine reads (\<^verbatim>\<open>binary\<close> and the inner stem
  \<^verbatim>\<open>naJiaTianGan.yang\<close>).
\<close>

fun BA_GUA_binary :: "BaGua \<Rightarrow> string" where
  "BA_GUA_binary Qian = ''111''" | "BA_GUA_binary Dui = ''011''"
| "BA_GUA_binary Li = ''101''" | "BA_GUA_binary Zhen = ''001''"
| "BA_GUA_binary Xun = ''110''" | "BA_GUA_binary Kan = ''010''"
| "BA_GUA_binary Gen = ''100''" | "BA_GUA_binary Kun = ''000''"

fun BA_GUA_naJiaTianGan_yang :: "BaGua \<Rightarrow> TianGan" where
  "BA_GUA_naJiaTianGan_yang Qian = G_Jia" | "BA_GUA_naJiaTianGan_yang Dui = G_Ding"
| "BA_GUA_naJiaTianGan_yang Li = G_Ji" | "BA_GUA_naJiaTianGan_yang Zhen = G_Geng"
| "BA_GUA_naJiaTianGan_yang Xun = G_Xin" | "BA_GUA_naJiaTianGan_yang Kan = G_Wu"
| "BA_GUA_naJiaTianGan_yang Gen = G_Bing" | "BA_GUA_naJiaTianGan_yang Kun = G_Yi"

fun NA_JIA_DI_ZHI :: "BaGua \<Rightarrow> DiZhi list" where
  "NA_JIA_DI_ZHI Qian = [Z_Zi, Z_Yin, Z_Chen, Z_Wu, Z_Shen, Z_Xu]"
| "NA_JIA_DI_ZHI Kun = [Z_Wei, Z_Si, Z_Mao, Z_Chou, Z_Hai, Z_You]"
| "NA_JIA_DI_ZHI Zhen = [Z_Zi, Z_Yin, Z_Chen, Z_Wu, Z_Shen, Z_Xu]"
| "NA_JIA_DI_ZHI Xun = [Z_Chou, Z_Hai, Z_You, Z_Wei, Z_Si, Z_Mao]"
| "NA_JIA_DI_ZHI Kan = [Z_Yin, Z_Chen, Z_Wu, Z_Shen, Z_Xu, Z_Zi]"
| "NA_JIA_DI_ZHI Li = [Z_Mao, Z_Chou, Z_Hai, Z_You, Z_Wei, Z_Si]"
| "NA_JIA_DI_ZHI Gen = [Z_Chen, Z_Wu, Z_Shen, Z_Xu, Z_Zi, Z_Yin]"
| "NA_JIA_DI_ZHI Dui = [Z_Si, Z_Mao, Z_Chou, Z_Hai, Z_You, Z_Wei]"

fun LIU_SHEN_START :: "TianGan \<Rightarrow> LiuShen" where
  "LIU_SHEN_START G_Jia = QingLong" | "LIU_SHEN_START G_Yi = QingLong"
| "LIU_SHEN_START G_Bing = ZhuQue" | "LIU_SHEN_START G_Ding = ZhuQue"
| "LIU_SHEN_START G_Wu = GouChen"
| "LIU_SHEN_START G_Ji = TengShe"
| "LIU_SHEN_START G_Geng = BaiHu" | "LIU_SHEN_START G_Xin = BaiHu"
| "LIU_SHEN_START G_Ren = XuanWu" | "LIU_SHEN_START G_Gui = XuanWu"

definition LIU_SHEN_ORDER :: "LiuShen list" where
  "LIU_SHEN_ORDER = [QingLong, ZhuQue, GouChen, TengShe, BaiHu, XuanWu]"

definition getLiuQin :: "WuXing \<Rightarrow> WuXing \<Rightarrow> LiuQin" where
  "getLiuQin myWuXing targetWuXing =
     (if WU_XING_BEI_SHENG myWuXing = targetWuXing then FuMu
      else if WU_XING_SHENG myWuXing = targetWuXing then ZiSun
      else if WU_XING_BEI_KE myWuXing = targetWuXing then GuanGui
      else if WU_XING_KE myWuXing = targetWuXing then QiCai
      else XiongDi)"

definition getProsperityByMonth :: "WuXing \<Rightarrow> WuXing \<Rightarrow> ProsperityState" where
  "getProsperityByMonth targetWuXing monthWuXing' =
     (if targetWuXing = monthWuXing' then P_Wang
      else if WU_XING_BEI_SHENG monthWuXing' = targetWuXing then P_Xiang
      else if WU_XING_SHENG targetWuXing = monthWuXing' then P_Xiu
      else if WU_XING_KE targetWuXing = monthWuXing' then P_Qiu
      else if WU_XING_BEI_KE targetWuXing = monthWuXing' then P_Si
      else P_Xiu)"

text \<open>
  \<^verbatim>\<open>GUA_64_DATA\<close>, in the order written. A name is the list of its UTF-16 code units
  (the fourth row, for instance, is U+5929 U+5730 U+5426). An object literal keeps the
  last of two equal keys and \<open>map_of\<close> the first; the keys are distinct (lemma
  \<open>GUA_64_DATA_keys_distinct\<close>), so the two agree.
\<close>

definition mkGua ::
  "jsstring \<Rightarrow> int \<Rightarrow> BaGua \<Rightarrow> BaGua \<Rightarrow> BaGua \<Rightarrow> int \<Rightarrow> int \<Rightarrow> WuXing \<Rightarrow> GuaData" where
  "mkGua n s u l p w r x =
     \<lparr>name = n, sequence = s, upperGua = u, lowerGua = l, palace = p, worldPosition = w,
      responsePosition = r, g_wuXing = x\<rparr>"

definition GUA_64_DATA :: "(string \<times> GuaData) list" where
  "GUA_64_DATA = [
    (''111111'', mkGua [0x4E7E, 0x4E3A, 0x5929] 1 Qian Qian Qian 6 3 Jin),
    (''111110'', mkGua [0x5929, 0x98CE, 0x59E4] 2 Qian Xun Qian 1 4 Jin),
    (''111001'', mkGua [0x5929, 0x5C71, 0x9041] 3 Qian Gen Qian 2 5 Jin),
    (''111000'', mkGua [0x5929, 0x5730, 0x5426] 4 Qian Kun Qian 3 6 Jin),
    (''110000'', mkGua [0x98CE, 0x5730, 0x89C2] 5 Xun Kun Qian 4 1 Jin),
    (''100000'', mkGua [0x5C71, 0x5730, 0x5265] 6 Gen Kun Qian 5 2 Jin),
    (''101000'', mkGua [0x706B, 0x5730, 0x664B] 7 Li Kun Qian 4 1 Jin),
    (''101111'', mkGua [0x706B, 0x5929, 0x5927, 0x6709] 8 Li Qian Qian 3 6 Jin),
    (''011011'', mkGua [0x5151, 0x4E3A, 0x6CFD] 9 Dui Dui Dui 6 3 Jin),
    (''011010'', mkGua [0x6CFD, 0x6C34, 0x56F0] 10 Dui Kan Dui 1 4 Jin),
    (''011000'', mkGua [0x6CFD, 0x5730, 0x8403] 11 Dui Kun Dui 2 5 Jin),
    (''011100'', mkGua [0x6CFD, 0x5C71, 0x54B8] 12 Dui Gen Dui 3 6 Jin),
    (''010100'', mkGua [0x6C34, 0x5C71, 0x8E47] 13 Kan Gen Dui 4 1 Jin),
    (''000100'', mkGua [0x5730, 0x5C71, 0x8C26] 14 Kun Gen Dui 5 2 Jin),
    (''001100'', mkGua [0x96F7, 0x5C71, 0x5C0F, 0x8FC7] 15 Zhen Gen Dui 4 1 Jin),
    (''001011'', mkGua [0x96F7, 0x6CFD, 0x5F52, 0x59B9] 16 Zhen Dui Dui 3 6 Jin),
    (''101101'', mkGua [0x79BB, 0x4E3A, 0x706B] 17 Li Li Li 6 3 Huo),
    (''101001'', mkGua [0x706B, 0x5C71, 0x65C5] 18 Li Gen Li 1 4 Huo),
    (''101110'', mkGua [0x706B, 0x98CE, 0x9F0E] 19 Li Xun Li 2 5 Huo),
    (''101011'', mkGua [0x706B, 0x6C34, 0x672A, 0x6D4E] 20 Li Kan Li 3 6 Huo),
    (''100011'', mkGua [0x5C71, 0x6C34, 0x8499] 21 Gen Kan Li 4 1 Huo),
    (''110011'', mkGua [0x98CE, 0x6C34, 0x6DA3] 22 Xun Kan Li 5 2 Huo),
    (''111011'', mkGua [0x5929, 0x6C34, 0x8BBC] 23 Qian Kan Li 4 1 Huo),
    (''111101'', mkGua [0x5929, 0x706B, 0x540C, 0x4EBA] 24 Qian Li Li 3 6 Huo),
    (''001001'', mkGua [0x9707, 0x4E3A, 0x96F7] 25 Zhen Zhen Zhen 6 3 Mu),
    (''001000'', mkGua [0x96F7, 0x5730, 0x8C6B] 26 Zhen Kun Zhen 1 4 Mu),
    (''001010'', mkGua [0x96F7, 0x6C34, 0x89E3] 27 Zhen Kan Zhen 2 5 Mu),
    (''001110'', mkGua [0x96F7, 0x98CE, 0x6052] 28 Zhen Xun Zhen 3 6 Mu),
    (''000110'', mkGua [0x5730, 0x98CE, 0x5347] 29 Kun Xun Zhen 4 1 Mu),
    (''010110'', mkGua [0x6C34, 0x98CE, 0x4E95] 30 Kan Xun Zhen 5 2 Mu),
    (''011110'', mkGua [0x6CFD, 0x98CE, 0x5927, 0x8FC7] 31 Dui Xun Zhen 4 1 Mu),
    (''011001'', mkGua [0x6CFD, 0x96F7, 0x968F] 32 Dui Zhen Zhen 3 6 Mu),
    (''110110'', mkGua [0x5DFD, 0x4E3A, 0x98CE] 33 Xun Xun Xun 6 3 Mu),
    (''110111'', mkGua [0x98CE, 0x5929, 0x5C0F, 0x755C] 34 Xun Qian Xun 1 4 Mu),
    (''110101'', mkGua [0x98CE, 0x706B, 0x5BB6, 0x4EBA] 35 Xun Li Xun 2 5 Mu),
    (''110100'', mkGua [0x98CE, 0x96F7, 0x76CA] 36 Xun Zhen Xun 3 6 Mu),
    (''111100'', mkGua [0x5929, 0x96F7, 0x65E0, 0x5984] 37 Qian Zhen Xun 4 1 Mu),
    (''101100'', mkGua [0x706B, 0x96F7, 0x566C, 0x55D1] 38 Li Zhen Xun 5 2 Mu),
    (''100001'', mkGua [0x5C71, 0x96F7, 0x9890] 39 Gen Zhen Xun 4 1 Mu),
    (''100110'', mkGua [0x5C71, 0x98CE, 0x86CA] 40 Gen Xun Xun 3 6 Mu),
    (''010010'', mkGua [0x574E, 0x4E3A, 0x6C34] 41 Kan Kan Kan 6 3 Shui),
    (''010011'', mkGua [0x6C34, 0x6CFD, 0x8282] 42 Kan Dui Kan 1 4 Shui),
    (''010001'', mkGua [0x6C34, 0x96F7, 0x5C6F] 43 Kan Zhen Kan 2 5 Shui),
    (''010101'', mkGua [0x6C34, 0x706B, 0x65E2, 0x6D4E] 44 Kan Li Kan 3 6 Shui),
    (''011101'', mkGua [0x6CFD, 0x706B, 0x9769] 45 Dui Li Kan 4 1 Shui),
    (''001101'', mkGua [0x96F7, 0x706B, 0x4E30] 46 Zhen Li Kan 5 2 Shui),
    (''000101'', mkGua [0x5730, 0x706B, 0x660E, 0x5937] 47 Kun Li Kan 4 1 Shui),
    (''000010'', mkGua [0x5730, 0x6C34, 0x5E08] 48 Kun Kan Kan 3 6 Shui),
    (''100100'', mkGua [0x826E, 0x4E3A, 0x5C71] 49 Gen Gen Gen 6 3 Tu),
    (''100101'', mkGua [0x5C71, 0x706B, 0x8D32] 50 Gen Li Gen 1 4 Tu),
    (''100111'', mkGua [0x5C71, 0x5929, 0x5927, 0x755C] 51 Gen Qian Gen 2 5 Tu),
    (''100010'', mkGua [0x5C71, 0x6CFD, 0x635F] 52 Gen Dui Gen 3 6 Tu),
    (''101010'', mkGua [0x706B, 0x6CFD, 0x777D] 53 Li Dui Gen 4 1 Tu),
    (''111010'', mkGua [0x5929, 0x6CFD, 0x5C65] 54 Qian Dui Gen 5 2 Tu),
    (''110010'', mkGua [0x98CE, 0x6CFD, 0x4E2D, 0x5B5A] 55 Xun Dui Gen 4 1 Tu),
    (''110001'', mkGua [0x98CE, 0x5C71, 0x6E10] 56 Xun Gen Gen 3 6 Tu),
    (''000000'', mkGua [0x5764, 0x4E3A, 0x5730] 57 Kun Kun Kun 6 3 Tu),
    (''000001'', mkGua [0x5730, 0x96F7, 0x590D] 58 Kun Zhen Kun 1 4 Tu),
    (''000011'', mkGua [0x5730, 0x6CFD, 0x4E34] 59 Kun Dui Kun 2 5 Tu),
    (''000111'', mkGua [0x5730, 0x5929, 0x6CF0] 60 Kun Qian Kun 3 6 Tu),
    (''001111'', mkGua [0x96F7, 0x5929, 0x5927, 0x58EE] 61 Zhen Qian Kun 4 1 Tu),
    (''011111'', mkGua [0x6CFD, 0x5929, 0x592C] 62 Dui Qian Kun 5 2 Tu),
    (''010111'', mkGua [0x6C34, 0x5929, 0x9700] 63 Kan Qian Kun 4 1 Tu),
    (''010000'', mkGua [0x6C34, 0x5730, 0x6BD4] 64 Kan Kun Kun 3 6 Tu)]"

section \<open>The built-in Date\<close>

text \<open>
  A \<^verbatim>\<open>Date\<close> is its time value, the milliseconds since the epoch; an Invalid Date
  (time value \<^verbatim>\<open>NaN\<close>) is not a \<open>jsdate\<close>. The getters the engine calls read local
  time. Local time is taken to be UTC plus a fixed offset of \<open>tz\<close> minutes, which every
  function that reads a local field receives as its first argument; a zone that changes
  its offset during the year is outside the model. The day count and the civil date are
  converted by the usual era-based arithmetic on the proleptic Gregorian calendar.
\<close>

type_synonym jsdate = int

definition msPerDay :: int where
  "msPerDay = 86400000"

definition days_from_civil :: "int \<Rightarrow> int \<Rightarrow> int \<Rightarrow> int" where
  "days_from_civil y m d =
     (let y1 = (if m \<le> 2 then y - 1 else y);
          era = y1 div 400;
          yoe = y1 - era * 400;
          doy = (153 * (if m > 2 then m - 3 else m + 9) + 2) div 5 + d - 1;
          doe = yoe * 365 + yoe div 4 - yoe div 100 + doy
      in era * 146097 + doe - 719468)"

definition civil_from_days :: "int \<Rightarrow> int \<times> int \<times> int" where
  "civil_from_days z =
     (let z1 = z + 719468;
          era = z1 div 146097;
          doe = z1 - era * 146097;
          yoe = (doe - doe div 1460 + doe div 36524 - doe div 146096) div 365;
          y = yoe + era * 400;
          doy = doe - (365 * yoe + yoe div 4 - yoe div 100);
          mp = (5 * doy + 2) div 153;
          d = doy - (153 * mp + 2) div 5 + 1;
          m = (if mp < 10 then mp + 3 else mp - 9)
      in (if m \<le> 2 then y + 1 else y, m, d))"

text \<open>
  \<^verbatim>\<open>Date.UTC(year, month, date)\<close> and \<^verbatim>\<open>new Date(year, month, date)\<close>: the month
  counts from 0 and may overflow into the next years; a year from 0 to 99 means
  1900 plus that year.
\<close>

definition Date_UTC :: "int \<Rightarrow> int \<Rightarrow> int \<Rightarrow> int" where
  "Date_UTC y m0 d =
     (let yr = (if 0 \<le> y \<and> y \<le> 99 then 1900 + y else y);
          ym = yr + m0 div 12;
          mn = m0 mod 12
      in (days_from_civil ym (mn + 1) 1 + d - 1) * msPerDay)"

definition newDate :: "int \<Rightarrow> int \<Rightarrow> int \<Rightarrow> int \<Rightarrow> jsdate" where
  "newDate tz y m0 d = Date_UTC y m0 d - tz * 60000"

definition localDay :: "int \<Rightarrow> jsdate \<Rightarrow> int" where
  "localDay tz t = (t + tz * 60000) div msPerDay"

definition getFullYear :: "int \<Rightarrow> jsdate \<Rightarrow> int" where
  "getFullYear tz t = (case civil_from_days (localDay tz t) of (y, m, d) \<Rightarrow> y)"

definition getMonth :: "int \<Rightarrow> jsdate \<Rightarrow> int" where
  "getMonth tz t = (case civil_from_days (localDay tz t) of (y, m, d) \<Rightarrow> m - 1)"

definition getDate :: "int \<Rightarrow> jsdate \<Rightarrow> int" where
  "getDate tz t = (case civil_from_days (localDay tz t) of (y, m, d) \<Rightarrow> d)"

definition getHours :: "int \<Rightarrow> jsdate \<Rightarrow> int" where
  "getHours tz t = ((t + tz * 60000) mod msPerDay) div 3600000"

section \<open>Calendar (ganzhi.ts)\<close>

text \<open>
  Stems and branches are read from \<^verbatim>\<open>TIAN_GAN\<close> and \<^verbatim>\<open>DI_ZHI\<close> at an index that the
  source first brings into range with \<^verbatim>\<open>((x % n) + n) % n\<close>, or that is a sum of such
  indices reduced by \<^verbatim>\<open>% n\<close>; lemma \<open>js_rem_normalise\<close> gives the range.
\<close>

definition BASE_DATE :: "int \<Rightarrow> jsdate" where
  "BASE_DATE tz = newDate tz 2000 0 7"

definition BASE_DAY_GAN_INDEX :: int where
  "BASE_DAY_GAN_INDEX = 0"

definition BASE_DAY_ZHI_INDEX :: int where
  "BASE_DAY_ZHI_INDEX = 0"

definition LI_CHUN_DATES :: "(int \<times> (int \<times> int)) list" where
  "LI_CHUN_DATES =
     [(2000, (2, 4)), (2001, (2, 4)), (2002, (2, 4)), (2003, (2, 4)), (2004, (2, 4)),
      (2005, (2, 4)), (2006, (2, 4)), (2007, (2, 4)), (2008, (2, 4)), (2009, (2, 4)),
      (2010, (2, 4)), (2011, (2, 4)), (2012, (2, 4)), (2013, (2, 4)), (2014, (2, 4)),
      (2015, (2, 4)), (2016, (2, 4)), (2017, (2, 3)), (2018, (2, 4)), (2019, (2, 4)),
      (2020, (2, 4)), (2021, (2, 3)), (2022, (2, 4)), (2023, (2, 4)), (2024, (2, 4)),
      (2025, (2, 3)), (2026, (2, 4)), (2027, (2, 4)), (2028, (2, 4)), (2029, (2, 3)),
      (2030, (2, 4)), (2031, (2, 4)), (2032, (2, 4)), (2033, (2, 3)), (2034, (2, 4)),
      (2035, (2, 4)), (2036, (2, 4)), (2037, (2, 4)), (2038, (2, 4)), (2039, (2, 4)),
      (2040, (2, 4)), (2041, (2, 3)), (2042, (2, 4)), (2043, (2, 4)), (2044, (2, 4)),
      (2045, (2, 3)), (2046, (2, 4)), (2047, (2, 4)), (2048, (2, 4)), (2049, (2, 3)),
      (2050, (2, 4))]"

text \<open>\<^verbatim>\<open>JIE_QI_APPROX\<close>: the month and day of each entry (the names are not read).\<close>

definition JIE_QI_APPROX :: "(int \<times> int) list" where
  "JIE_QI_APPROX = [(2, 4), (3, 6), (4, 5), (5, 6), (6, 6), (7, 7), (8, 8), (9, 8), (10, 8),
                    (11, 7), (12, 7), (1, 6)]"

definition daysBetween :: "int \<Rightarrow> jsdate \<Rightarrow> jsdate \<Rightarrow> int" where
  "daysBetween tz date1 date2 =
     (let utc1 = Date_UTC (getFullYear tz date1) (getMonth tz date1) (getDate tz date1);
          utc2 = Date_UTC (getFullYear tz date2) (getMonth tz date2) (getDate tz date2)
      in (utc2 - utc1) div (1000 * 60 * 60 * 24))"

definition getDayGanZhi :: "int \<Rightarrow> jsdate \<Rightarrow> GanZhi" where
  "getDayGanZhi tz date =
     (let days = daysBetween tz (BASE_DATE tz) date;
          ganIndex = js_rem (js_rem (BASE_DAY_GAN_INDEX + days) 10 + 10) 10;
          zhiIndex = js_rem (js_rem (BASE_DAY_ZHI_INDEX + days) 12 + 12) 12
      in \<lparr>gan = TIAN_GAN ! nat ganIndex, zhi = DI_ZHI ! nat zhiIndex\<rparr>)"

definition getYearGanZhi :: "int \<Rightarrow> jsdate \<Rightarrow> GanZhi" where
  "getYearGanZhi tz date =
     (let year0 = getFullYear tz date;
          year1 =
            (case map_of LI_CHUN_DATES year0 of
               Some (lcMonth, lcDay) \<Rightarrow>
                 (let liChunDate = newDate tz year0 (lcMonth - 1) lcDay
                  in if date < liChunDate then year0 - 1 else year0)
             | None \<Rightarrow>
                 (let approxLiChun = newDate tz year0 1 4
                  in if date < approxLiChun then year0 - 1 else year0));
          ganIndex = js_rem (js_rem (year1 - 4) 10 + 10) 10;
          zhiIndex = js_rem (js_rem (year1 - 4) 12 + 12) 12
      in \<lparr>gan = TIAN_GAN ! nat ganIndex, zhi = DI_ZHI ! nat zhiIndex\<rparr>)"

text \<open>
  \<^verbatim>\<open>getMonthZhiIndex\<close>: the loop runs from the last entry of \<^verbatim>\<open>JIE_QI_APPROX\<close> down
  to the first and returns at the first entry the date has reached.
\<close>

definition getMonthZhiIndex :: "int \<Rightarrow> int \<Rightarrow> int" where
  "getMonthZhiIndex month' day' =
     (case js_find (\<lambda>(i, jqMonth, jqDay). month' > jqMonth \<or> (month' = jqMonth \<and> day' \<ge> jqDay))
             (rev (enumerate0 JIE_QI_APPROX)) of
        Some (i, jq) \<Rightarrow> js_rem (i + 2) 12
      | None \<Rightarrow> 1)"

definition getMonthGanZhi :: "int \<Rightarrow> jsdate \<Rightarrow> GanZhi" where
  "getMonthGanZhi tz date =
     (let month' = getMonth tz date + 1;
          day' = getDate tz date;
          monthZhiIndex = getMonthZhiIndex month' day';
          yearGanZhi = getYearGanZhi tz date;
          yearGanIndex = indexOf TIAN_GAN (gan yearGanZhi);
          yearGanGroup = js_rem yearGanIndex 5;
          firstMonthGanIndex = js_rem (yearGanGroup * 2 + 2) 10;
          monthOffset = js_rem (monthZhiIndex - 2 + 12) 12;
          monthGanIndex = js_rem (firstMonthGanIndex + monthOffset) 10
      in \<lparr>gan = TIAN_GAN ! nat monthGanIndex, zhi = DI_ZHI ! nat monthZhiIndex\<rparr>)"

definition getHourGanZhi :: "int \<Rightarrow> jsdate \<Rightarrow> GanZhi" where
  "getHourGanZhi tz date =
     (let hour' = getHours tz date;
          hourZhiIndex = (if hour' \<ge> 23 \<or> hour' < 1 then 0 else (hour' + 1) div 2);
          dayDate = (if hour' \<ge> 23 then date + 24 * 60 * 60 * 1000 else date);
          dayGanZhi = getDayGanZhi tz dayDate;
          dayGanIndex = indexOf TIAN_GAN (gan dayGanZhi);
          dayGanGroup = js_rem dayGanIndex 5;
          ziHourGanIndex = js_rem (dayGanGroup * 2) 10;
          hourGanIndex = js_rem (ziHourGanIndex + hourZhiIndex) 10
      in \<lparr>gan = TIAN_GAN ! nat hourGanIndex, zhi = DI_ZHI ! nat hourZhiIndex\<rparr>)"

definition getVoidBranches :: "TianGan \<Rightarrow> DiZhi \<Rightarrow> DiZhi \<times> DiZhi" where
  "getVoidBranches dayGan dayZhi =
     (let ganIndex = indexOf TIAN_GAN dayGan;
          zhiIndex = indexOf DI_ZHI dayZhi;
          xunStartZhiIndex = js_rem (js_rem (zhiIndex - ganIndex) 12 + 12) 12;
          void1Index = js_rem (xunStartZhiIndex + 10) 12;
          void2Index = js_rem (xunStartZhiIndex + 11) 12
      in (DI_ZHI ! nat void1Index, DI_ZHI ! nat void2Index))"

definition getGanZhiTime :: "int \<Rightarrow> jsdate \<Rightarrow> GanZhiTime" where
  "getGanZhiTime tz date =
     (let year' = getYearGanZhi tz date;
          month' = getMonthGanZhi tz date;
          day' = getDayGanZhi tz date;
          hour' = getHourGanZhi tz date;
          voidBranches' = getVoidBranches (gan day') (zhi day')
      in \<lparr>year = year', month = month', day = day', hour = hour',
          voidBranches = voidBranches',
          monthWuXing = DI_ZHI_WU_XING (zhi month'),
          dayWuXing = DI_ZHI_WU_XING (zhi day')\<rparr>)"

text \<open>\<^verbatim>\<open>isVoid\<close> is named \<open>isVoidBranch\<close> here: \<open>isVoid\<close> is the field of a line.\<close>

definition isVoidBranch :: "DiZhi \<Rightarrow> DiZhi \<times> DiZhi \<Rightarrow> bool" where
  "isVoidBranch z vb \<longleftrightarrow> z = fst vb \<or> z = snd vb"

definition isDayBrokenBranch :: "DiZhi \<Rightarrow> DiZhi \<Rightarrow> bool" where
  "isDayBrokenBranch z dayZhi \<longleftrightarrow>
     (let zhiIndex = indexOf DI_ZHI z; dayZhiIndex = indexOf DI_ZHI dayZhi
      in js_rem (zhiIndex + 6) 12 = dayZhiIndex)"

definition isMonthBrokenBranch :: "DiZhi \<Rightarrow> DiZhi \<Rightarrow> bool" where
  "isMonthBrokenBranch z monthZhi \<longleftrightarrow>
     (let zhiIndex = indexOf DI_ZHI z; monthZhiIndex = indexOf DI_ZHI monthZhi
      in js_rem (zhiIndex + 6) 12 = monthZhiIndex)"

definition getDiZhiIndex :: "DiZhi \<Rightarrow> int" where
  "getDiZhiIndex z = indexOf DI_ZHI z"

definition getTianGanIndex :: "TianGan \<Rightarrow> int" where
  "getTianGanIndex g = indexOf TIAN_GAN g"

text \<open>
  \<^verbatim>\<open>findFutureDatesWithZhi\<close>: the loop over \<open>i\<close> from 1 to \<^verbatim>\<open>maxDays\<close>.
\<close>

definition findFutureDatesWithZhi :: "int \<Rightarrow> jsdate \<Rightarrow> DiZhi \<Rightarrow> int \<Rightarrow> jsdate list" where
  "findFutureDatesWithZhi tz startDate targetZhi maxDays =
     (let targetZhiIndex = indexOf DI_ZHI targetZhi
      in filter (\<lambda>checkDate. indexOf DI_ZHI (zhi (getDayGanZhi tz checkDate)) = targetZhiIndex)
           (map (\<lambda>i. startDate + i * 24 * 60 * 60 * 1000) [1..maxDays]))"

record FutureMonth =
  fm_year :: int
  fm_month :: int
  fm_startDate :: jsdate
  fm_endDate :: jsdate

text \<open>
  \<^verbatim>\<open>findFutureMonthsWithZhi\<close>: the loop body runs \<^verbatim>\<open>maxMonths\<close> times and carries
  \<^verbatim>\<open>checkDate\<close> from one round to the next.
\<close>

fun findFutureMonths_loop :: "int \<Rightarrow> int \<Rightarrow> nat \<Rightarrow> jsdate \<Rightarrow> FutureMonth list" where
  "findFutureMonths_loop tz targetZhiIndex 0 checkDate0 = []"
| "findFutureMonths_loop tz targetZhiIndex (Suc n) checkDate0 =
     (let checkDate = newDate tz (getFullYear tz checkDate0) (getMonth tz checkDate0 + 1) 15;
          monthGanZhi = getMonthGanZhi tz checkDate;
          monthZhiIndex = indexOf DI_ZHI (zhi monthGanZhi);
          found =
            (if monthZhiIndex = targetZhiIndex then
               (let jqIndex = js_rem (targetZhiIndex - 2 + 12) 12;
                    jqMonth = fst (JIE_QI_APPROX ! nat jqIndex);
                    jqDay = snd (JIE_QI_APPROX ! nat jqIndex);
                    startYear =
                      (if jqMonth = 1 \<and> getMonth tz checkDate > 6 then getFullYear tz checkDate + 1
                       else if jqMonth = 12 \<and> getMonth tz checkDate < 6
                       then getFullYear tz checkDate - 1
                       else getFullYear tz checkDate);
                    monthStart = newDate tz startYear (jqMonth - 1) jqDay;
                    nextJqIndex = js_rem (jqIndex + 1) 12;
                    nextJqMonth = fst (JIE_QI_APPROX ! nat nextJqIndex);
                    nextJqDay = snd (JIE_QI_APPROX ! nat nextJqIndex);
                    nextStartYear = (if nextJqMonth < jqMonth then startYear + 1 else startYear);
                    monthEnd = newDate tz nextStartYear (nextJqMonth - 1) (nextJqDay - 1)
                in [\<lparr>fm_year = startYear, fm_month = jqMonth, fm_startDate = monthStart,
                      fm_endDate = monthEnd\<rparr>])
             else [])
      in found @ findFutureMonths_loop tz targetZhiIndex n checkDate)"

definition findFutureMonthsWithZhi :: "int \<Rightarrow> jsdate \<Rightarrow> DiZhi \<Rightarrow> nat \<Rightarrow> FutureMonth list" where
  "findFutureMonthsWithZhi tz startDate targetZhi maxMonths =
     findFutureMonths_loop tz (indexOf DI_ZHI targetZhi) maxMonths startDate"

section \<open>Hexagram resolution (hexagram.ts)\<close>

definition coinSumToYaoState :: "int \<Rightarrow> YaoState" where
  "coinSumToYaoState coinSum =
     (if coinSum = 6 then \<lparr>yinYang = Yin, isMoving = True, ytype = old_yin, coinResult = Some 6\<rparr>
      else if coinSum = 7 then
        \<lparr>yinYang = Yang, isMoving = False, ytype = young_yang, coinResult = Some 7\<rparr>
      else if coinSum = 8 then
        \<lparr>yinYang = Yin, isMoving = False, ytype = young_yin, coinResult = Some 8\<rparr>
      else \<lparr>yinYang = Yang, isMoving = True, ytype = old_yang, coinResult = Some 9\<rparr>)"


text \<open>\<^verbatim>\<open>{ ...guaData, binary }\<close>: the table row with the key added.\<close>

definition withBinary :: "GuaData \<Rightarrow> string \<Rightarrow> GuaInfo" where
  "withBinary guaData b = GuaData.extend guaData (GuaInfo.fields b)"

text \<open>
  The key is built from bottom to top, \<open>1\<close> for yang and \<open>0\<close> for yin. The source types
  its argument as a six-tuple; the model takes any list, and a list of another length
  spells a key that is not in the table.
\<close>

definition yaoBinary :: "'a YaoState_scheme list \<Rightarrow> string" where
  "yaoBinary yaoStates = map (\<lambda>y. if yinYang y = Yang then CHR ''1'' else CHR ''0'') yaoStates"

definition getGuaFromYaoStates :: "'a YaoState_scheme list \<Rightarrow> error + GuaInfo" where
  "getGuaFromYaoStates yaoStates =
     (let binary' = yaoBinary yaoStates
      in case map_of GUA_64_DATA binary' of
           None \<Rightarrow> Inl (UnknownHexagram binary')
         | Some guaData \<Rightarrow> Inr (withBinary guaData binary'))"

definition getChangedGua :: "'a YaoState_scheme list \<Rightarrow> error + GuaInfo option" where
  "getChangedGua yaoStates =
     (let hasMoving = list_ex isMoving yaoStates
      in if \<not> hasMoving then Inr None
         else
           let changedBinary =
                 map (\<lambda>y. if isMoving y then (if yinYang y = Yang then CHR ''0'' else CHR ''1'')
                           else (if yinYang y = Yang then CHR ''1'' else CHR ''0'')) yaoStates
           in case map_of GUA_64_DATA changedBinary of
                None \<Rightarrow> Inl (UnknownChangedHexagram changedBinary)
              | Some guaData \<Rightarrow> Inr (Some (withBinary guaData changedBinary)))"

text \<open>
  The three derived hexagrams do not check the lookup: a missing row leaves
  \<^verbatim>\<open>{ binary }\<close> alone, here a pair whose first component is \<open>None\<close>. Reading
  \<^verbatim>\<open>yaoStates[i].yinYang\<close> past the end of the array raises a \<^verbatim>\<open>TypeError\<close>.
\<close>

definition getMutualGua :: "'a YaoState_scheme list \<Rightarrow> error + (GuaData option \<times> string)" where
  "getMutualGua yaoStates =
     (if length yaoStates < 5 then Inl TypeError
      else
        let bit = (\<lambda>i. if yinYang (yaoStates ! i) = Yang then CHR ''1'' else CHR ''0'');
            lowerBinary = [bit 1, bit 2, bit 3];
            upperBinary = [bit 2, bit 3, bit 4];
            binary' = lowerBinary @ upperBinary
        in Inr (map_of GUA_64_DATA binary', binary'))"

definition getOppositeGua :: "'a YaoState_scheme list \<Rightarrow> GuaData option \<times> string" where
  "getOppositeGua yaoStates =
     (let binary' = map (\<lambda>y. if yinYang y = Yang then CHR ''0'' else CHR ''1'') yaoStates
      in (map_of GUA_64_DATA binary', binary'))"

definition getReverseGua :: "'a YaoState_scheme list \<Rightarrow> GuaData option \<times> string" where
  "getReverseGua yaoStates =
     (let binary' = map (\<lambda>y. if yinYang y = Yang then CHR ''1'' else CHR ''0'') (rev yaoStates)
      in (map_of GUA_64_DATA binary', binary'))"

definition getMovingPositions :: "'a YaoState_scheme list \<Rightarrow> int list" where
  "getMovingPositions yaoStates =
     filter (\<lambda>pos. pos > 0) (map (\<lambda>(i, y). if isMoving y then i + 1 else 0) (enumerate0 yaoStates))"

text \<open>
  The line states of the repository's test case 3 (\<^verbatim>\<open>engine.test.ts\<close>): the bottom
  line old yin, two young yin, three young yang, written from bottom to top.
\<close>

definition testCase3_yaoStates :: "YaoState list" where
  "testCase3_yaoStates =
     [\<lparr>yinYang = Yin, isMoving = True, ytype = old_yin, coinResult = Some 6\<rparr>,
      \<lparr>yinYang = Yin, isMoving = False, ytype = young_yin, coinResult = Some 8\<rparr>,
      \<lparr>yinYang = Yin, isMoving = False, ytype = young_yin, coinResult = Some 8\<rparr>,
      \<lparr>yinYang = Yang, isMoving = False, ytype = young_yang, coinResult = Some 7\<rparr>,
      \<lparr>yinYang = Yang, isMoving = False, ytype = young_yang, coinResult = Some 7\<rparr>,
      \<lparr>yinYang = Yang, isMoving = False, ytype = young_yang, coinResult = Some 7\<rparr>]"

text \<open>
  \<^verbatim>\<open>castByTime\<close>. \<^verbatim>\<open>numToBaGua\<close> is a local table with the keys 1 to 8; with any other
  number \<^verbatim>\<open>BA_GUA_DATA[undefined].binary\<close> raises a \<^verbatim>\<open>TypeError\<close>. The lines it
  builds carry no \<^verbatim>\<open>coinResult\<close>.
\<close>

definition numToBaGua :: "int \<Rightarrow> BaGua option" where
  "numToBaGua n =
     map_of [(1, Qian), (2, Dui), (3, Li), (4, Zhen), (5, Xun), (6, Kan), (7, Gen), (8, Kun)] n"

definition timeYao :: "string \<Rightarrow> int \<Rightarrow> int \<Rightarrow> YaoState" where
  "timeYao fullBinary movingPosition i =
     (let isYang = (js_nth fullBinary i = Some CHR ''1'');
          isMoving' = (i + 1 = movingPosition);
          type' = (if isYang \<and> isMoving' then old_yang
                   else if isYang \<and> \<not> isMoving' then young_yang
                   else if \<not> isYang \<and> isMoving' then old_yin
                   else young_yin)
      in \<lparr>yinYang = (if isYang then Yang else Yin), isMoving = isMoving', ytype = type',
          coinResult = None\<rparr>)"

definition castByTime :: "int \<Rightarrow> jsdate \<Rightarrow> error + YaoState list" where
  "castByTime tz date =
     (let ganZhi = getGanZhiTime tz date;
          yearNum = getDiZhiIndex (zhi (year ganZhi)) + 1;
          monthNum = getDiZhiIndex (zhi (month ganZhi)) + 1;
          dayNum = getDate tz date;
          hourNum = getDiZhiIndex (zhi (hour ganZhi)) + 1;
          upperSum = yearNum + monthNum + dayNum;
          lowerSum = upperSum + hourNum;
          upperGuaNum = js_rem (upperSum - 1) 8 + 1;
          lowerGuaNum = js_rem (lowerSum - 1) 8 + 1;
          movingPosition = js_rem (lowerSum - 1) 6 + 1
      in case (numToBaGua upperGuaNum, numToBaGua lowerGuaNum) of
           (Some upperGua', Some lowerGua') \<Rightarrow>
             (let upperBinary = BA_GUA_binary upperGua';
                  lowerBinary = BA_GUA_binary lowerGua';
                  fullBinary = lowerBinary @ upperBinary
              in Inr (map (timeYao fullBinary movingPosition) [0, 1, 2, 3, 4, 5]))
         | _ \<Rightarrow> Inl TypeError)"

section \<open>Line installation (najia.ts)\<close>

definition getNaJiaDiZhi :: "BaGua \<Rightarrow> int \<Rightarrow> DiZhi" where
  "getNaJiaDiZhi gua position' = (let diZhiArray = NA_JIA_DI_ZHI gua in diZhiArray ! nat (position' - 1))"

definition getFullNaJiaDiZhi :: "BaGua \<Rightarrow> BaGua \<Rightarrow> DiZhi list" where
  "getFullNaJiaDiZhi lowerGua' upperGua' =
     (let lower = take 3 (NA_JIA_DI_ZHI lowerGua');
          upper = drop 3 (take 6 (NA_JIA_DI_ZHI upperGua'))
      in lower @ upper)"

definition getNaJiaTianGan :: "BaGua \<Rightarrow> bool \<Rightarrow> TianGan" where
  "getNaJiaTianGan gua isUpper =
     (if gua = Qian then (if isUpper then G_Ren else G_Jia)
      else if gua = Kun then (if isUpper then G_Gui else G_Yi)
      else BA_GUA_naJiaTianGan_yang gua)"

definition calculateLiuQin :: "WuXing \<Rightarrow> WuXing \<Rightarrow> LiuQin" where
  "calculateLiuQin palaceWuXing yaoWuXing = getLiuQin palaceWuXing yaoWuXing"

text \<open>
  \<^verbatim>\<open>binaryToGua\<close> reads a local table; a string that is not one of the eight keys gives
  \<^verbatim>\<open>undefined\<close>.
\<close>

definition binaryToGua :: "string \<Rightarrow> BaGua option" where
  "binaryToGua b =
     map_of [(''111'', Qian), (''011'', Dui), (''101'', Li), (''001'', Zhen),
             (''110'', Xun), (''010'', Kan), (''100'', Gen), (''000'', Kun)] b"

definition determineChangeType :: "DiZhi \<Rightarrow> DiZhi \<Rightarrow> WuXing \<Rightarrow> ChangeType" where
  "determineChangeType originalDiZhi changedDiZhi palaceWuXing =
     (let originalIdx = indexOf DI_ZHI originalDiZhi;
          changedIdx = indexOf DI_ZHI changedDiZhi
      in if js_rem (changedIdx - originalIdx + 12) 12 = 1 then advance
         else if js_rem (originalIdx - changedIdx + 12) 12 = 1 then retreat
         else
           let originalWuXing = DI_ZHI_WU_XING originalDiZhi;
               changedWuXing = DI_ZHI_WU_XING changedDiZhi;
               originalLiuQin = getLiuQin originalWuXing changedWuXing
           in if originalLiuQin = FuMu then return_birth
              else if originalLiuQin = GuanGui then return_clash
              else normal)"

text \<open>
  \<^verbatim>\<open>calculateChangedYao\<close>. When \<^verbatim>\<open>binaryToGua\<close> gives \<^verbatim>\<open>undefined\<close> for the
  half that holds the line, \<^verbatim>\<open>NA_JIA_DI_ZHI[undefined]\<close> is \<^verbatim>\<open>undefined\<close> and indexing
  it raises a \<^verbatim>\<open>TypeError\<close>.
\<close>

definition calculateChangedYao :: "'a YaoState_scheme \<Rightarrow> int \<Rightarrow> GuaInfo \<Rightarrow> error + ChangedYaoInfo" where
  "calculateChangedYao yaoState position' guaInfo =
     (let changedYinYang = (if yinYang yaoState = Yang then Yin else Yang);
          changedBinary =
            map (\<lambda>(idx, c). if idx = position' - 1 then (if c = CHR ''1'' then CHR ''0'' else CHR ''1'')
                              else c)
              (enumerate0 (binary guaInfo));
          changedLowerBinary = take 3 changedBinary;
          changedUpperBinary = drop 3 (take 6 changedBinary);
          changedLowerGua = binaryToGua changedLowerBinary;
          changedUpperGua = binaryToGua changedUpperBinary;
          isUpper = position' > 3;
          changedGua = (if isUpper then changedUpperGua else changedLowerGua)
      in case changedGua of
           None \<Rightarrow> Inl TypeError
         | Some g \<Rightarrow>
             (let changedDiZhi = getNaJiaDiZhi g position';
                  changedWuXing = DI_ZHI_WU_XING changedDiZhi;
                  changedLiuQin = calculateLiuQin (g_wuXing guaInfo) changedWuXing;
                  originalDiZhi =
                    getFullNaJiaDiZhi (lowerGua guaInfo) (upperGua guaInfo) ! nat (position' - 1);
                  changeType' = determineChangeType originalDiZhi changedDiZhi (g_wuXing guaInfo)
              in Inr \<lparr>c_yinYang = changedYinYang, c_diZhi = changedDiZhi,
                      c_wuXing = changedWuXing, c_liuQin = changedLiuQin,
                      changeType = changeType'\<rparr>))"

text \<open>
  \<^verbatim>\<open>installHexagram\<close>. The source types \<^verbatim>\<open>yaoStates\<close> as a six-tuple, and the engine
  calls it only after \<^verbatim>\<open>getGuaFromYaoStates\<close> has accepted the lines, which it does for
  six lines only; the reads \<^verbatim>\<open>naJiaDiZhi[index]\<close> are then within the six branches.
  The guardian is the placeholder the source writes, replaced by \<^verbatim>\<open>installLiuShen\<close>.
\<close>

definition installYao :: "GuaInfo \<Rightarrow> DiZhi list \<Rightarrow> int \<times> YaoState \<Rightarrow> error + YaoInfo" where
  "installYao guaInfo naJiaDiZhi iy =
     (case iy of (index, yaoState) \<Rightarrow>
        let position' = index + 1;
            diZhi' = naJiaDiZhi ! nat index;
            yaoWuXing = DI_ZHI_WU_XING diZhi';
            liuQin' = calculateLiuQin (g_wuXing guaInfo) yaoWuXing;
            isWorld' = (position' = worldPosition guaInfo);
            isResponse' = (position' = responsePosition guaInfo);
            isUpper = position' > 3;
            currentGua = (if isUpper then upperGua guaInfo else lowerGua guaInfo);
            tianGan' = getNaJiaTianGan currentGua isUpper
        in bindE (if isMoving yaoState
                  then bindE (calculateChangedYao yaoState position' guaInfo) (\<lambda>c. Inr (Some c))
                  else Inr None)
             (\<lambda>changedYao'.
                Inr (YaoState.extend yaoState
                       (YaoInfo.fields position' diZhi' tianGan' yaoWuXing liuQin' QingLong
                          isWorld' isResponse' changedYao' None False False False))))"

definition installHexagram :: "YaoState list \<Rightarrow> GuaInfo \<Rightarrow> error + YaoInfo list" where
  "installHexagram yaoStates guaInfo =
     (let naJiaDiZhi = getFullNaJiaDiZhi (lowerGua guaInfo) (upperGua guaInfo)
      in mapE (installYao guaInfo naJiaDiZhi) (enumerate0 yaoStates))"

definition getChangedYaoInfos :: "YaoInfo list \<Rightarrow> GuaInfo \<Rightarrow> YaoInfo list" where
  "getChangedYaoInfos originalYaoInfos changedGuaInfo =
     (let naJiaDiZhi = getFullNaJiaDiZhi (lowerGua changedGuaInfo) (upperGua changedGuaInfo)
      in map (\<lambda>(index, originalYao).
               let position' = index + 1;
                   yinYang' = (if isMoving originalYao
                               then (if yinYang originalYao = Yang then Yin else Yang)
                               else yinYang originalYao);
                   diZhi' = naJiaDiZhi ! nat index;
                   yaoWuXing = DI_ZHI_WU_XING diZhi';
                   liuQin' = calculateLiuQin (g_wuXing changedGuaInfo) yaoWuXing;
                   isUpper = position' > 3;
                   currentGua = (if isUpper then upperGua changedGuaInfo else lowerGua changedGuaInfo);
                   tianGan' = getNaJiaTianGan currentGua isUpper
               in originalYao\<lparr>yinYang := yinYang', position := position', diZhi := diZhi',
                    tianGan := tianGan', wuXing := yaoWuXing, liuQin := liuQin',
                    isWorld := (position' = worldPosition changedGuaInfo),
                    isResponse := (position' = responsePosition changedGuaInfo),
                    changedYao := None\<rparr>)
           (enumerate0 originalYaoInfos))"

definition findYaoByLiuQin :: "YaoInfo list \<Rightarrow> LiuQin \<Rightarrow> YaoInfo list" where
  "findYaoByLiuQin yaoInfos lq = filter (\<lambda>yao. liuQin yao = lq) yaoInfos"

definition getWorldYao :: "YaoInfo list \<Rightarrow> error + YaoInfo" where
  "getWorldYao yaoInfos =
     (case js_find isWorld yaoInfos of None \<Rightarrow> Inl MissingWorldLine | Some worldYao \<Rightarrow> Inr worldYao)"

definition getResponseYao :: "YaoInfo list \<Rightarrow> error + YaoInfo" where
  "getResponseYao yaoInfos =
     (case js_find isResponse yaoInfos of
        None \<Rightarrow> Inl MissingResponseLine
      | Some responseYao \<Rightarrow> Inr responseYao)"

section \<open>Guardians (liushen.ts)\<close>

definition getStartLiuShen :: "TianGan \<Rightarrow> LiuShen" where
  "getStartLiuShen dayGan = LIU_SHEN_START dayGan"

definition getLiuShenArray :: "TianGan \<Rightarrow> LiuShen list" where
  "getLiuShenArray dayGan =
     (let startShen = getStartLiuShen dayGan;
          startIndex = indexOf LIU_SHEN_ORDER startShen
      in map (\<lambda>i. LIU_SHEN_ORDER ! nat (js_rem (startIndex + i) 6)) [0, 1, 2, 3, 4, 5])"

text \<open>As for the branches, \<^verbatim>\<open>liuShenArray[index]\<close> is read for six lines.\<close>

definition installLiuShen :: "YaoInfo list \<Rightarrow> TianGan \<Rightarrow> YaoInfo list" where
  "installLiuShen yaoInfos dayGan =
     (let liuShenArray = getLiuShenArray dayGan
      in map (\<lambda>(index, yao). yao\<lparr>liuShen := liuShenArray ! nat index\<rparr>) (enumerate0 yaoInfos))"

section \<open>Strength (prosperity.ts)\<close>

text \<open>
  The score is a JavaScript number; every value it takes here is a multiple of one half
  between \<open>-20\<close> and \<open>20\<close>, which a binary float holds exactly, so it is a rational. The
  lists of justifying texts that the analysis also returns are not modelled.
\<close>

record ProsperityAnalysis =
  monthProsperity :: ProsperityState
  dayStatus :: DayStatus
  monthStage :: "TwelveStage option"
  dayStage :: "TwelveStage option"
  score :: rat

definition TWELVE_STAGES :: "TwelveStage list" where
  "TWELVE_STAGES = [S_ChangSheng, S_MuYu, S_GuanDai, S_LinGuan, S_DiWang, S_Shuai, S_Bing, S_Si,
                    S_Mu, S_Jue, S_Tai, S_Yang]"

text \<open>\<^verbatim>\<open>WU_XING_CHANG_SHENG_START[wuXing].yang\<close>, the only field read.\<close>

fun WU_XING_CHANG_SHENG_START_yang :: "WuXing \<Rightarrow> DiZhi" where
  "WU_XING_CHANG_SHENG_START_yang Mu = Z_Hai"
| "WU_XING_CHANG_SHENG_START_yang Huo = Z_Yin"
| "WU_XING_CHANG_SHENG_START_yang Tu = Z_Yin"
| "WU_XING_CHANG_SHENG_START_yang Jin = Z_Si"
| "WU_XING_CHANG_SHENG_START_yang Shui = Z_Shen"

fun getMonthProsperityScore :: "ProsperityState \<Rightarrow> rat" where
  "getMonthProsperityScore P_Wang = 5"
| "getMonthProsperityScore P_Xiang = 3"
| "getMonthProsperityScore P_Xiu = 0"
| "getMonthProsperityScore P_Qiu = -2"
| "getMonthProsperityScore P_Si = -4"

definition getDayStatus :: "WuXing \<Rightarrow> WuXing \<Rightarrow> DayStatus" where
  "getDayStatus yaoWuXing dayWuXing' =
     (if WU_XING_SHENG dayWuXing' = yaoWuXing \<or> dayWuXing' = yaoWuXing then day_support
      else if WU_XING_KE dayWuXing' = yaoWuXing then day_restrain
      else day_neutral)"

fun getDayStatusScore :: "DayStatus \<Rightarrow> rat" where
  "getDayStatusScore day_support = 2"
| "getDayStatusScore day_restrain = -2"
| "getDayStatusScore day_neutral = 0"

definition getTwelveStage :: "WuXing \<Rightarrow> DiZhi \<Rightarrow> TwelveStage option" where
  "getTwelveStage wx dz =
     (let startZhi = WU_XING_CHANG_SHENG_START_yang wx;
          startIdx = indexOf DI_ZHI startZhi;
          currentIdx = indexOf DI_ZHI dz;
          offset = js_rem (currentIdx - startIdx + 12) 12
      in js_nth TWELVE_STAGES offset)"

fun getTwelveStageScore :: "TwelveStage \<Rightarrow> rat" where
  "getTwelveStageScore S_ChangSheng = 3"
| "getTwelveStageScore S_MuYu = 1"
| "getTwelveStageScore S_GuanDai = 2"
| "getTwelveStageScore S_LinGuan = 3"
| "getTwelveStageScore S_DiWang = 4"
| "getTwelveStageScore S_Shuai = -1"
| "getTwelveStageScore S_Bing = -2"
| "getTwelveStageScore S_Si = -3"
| "getTwelveStageScore S_Mu = -2"
| "getTwelveStageScore S_Jue = -4"
| "getTwelveStageScore S_Tai = 0"
| "getTwelveStageScore S_Yang = 1"

definition analyzeProsperity :: "YaoInfo \<Rightarrow> GanZhiTime \<Rightarrow> ProsperityAnalysis" where
  "analyzeProsperity yaoInfo ganZhiTime =
     (let yaoWuXing = wuXing yaoInfo;
          monthZhi = zhi (month ganZhiTime);
          dayZhi = zhi (day ganZhiTime);
          monthProsperity' = getProsperityByMonth yaoWuXing (monthWuXing ganZhiTime);
          score1 = 0 + getMonthProsperityScore monthProsperity';
          dayStatus' = getDayStatus yaoWuXing (dayWuXing ganZhiTime);
          score2 = score1 + getDayStatusScore dayStatus';
          isYaoVoid = isVoidBranch (diZhi yaoInfo) (voidBranches ganZhiTime);
          score3 = (if isYaoVoid then score2 - 3 else score2);
          isYaoDayBroken = isDayBrokenBranch (diZhi yaoInfo) dayZhi;
          score4 = (if isYaoDayBroken then score3 - 4 else score3);
          isYaoMonthBroken = isMonthBrokenBranch (diZhi yaoInfo) monthZhi;
          score5 = (if isYaoMonthBroken then score4 - 5 else score4);
          monthStage' = getTwelveStage yaoWuXing monthZhi;
          dayStage' = getTwelveStage yaoWuXing dayZhi;
          score6 =
            (case monthStage' of
               None \<Rightarrow> score5
             | Some st \<Rightarrow>
                 (let stageScore = getTwelveStageScore st
                  in if stageScore \<noteq> 0 then score5 + stageScore * (1 / 2) else score5));
          score7 = max (-10) (min 10 score6)
      in \<lparr>monthProsperity = monthProsperity', dayStatus = dayStatus', monthStage = monthStage',
          dayStage = dayStage', score = score7\<rparr>)"

definition analyzeAllProsperity :: "YaoInfo list \<Rightarrow> GanZhiTime \<Rightarrow> YaoInfo list" where
  "analyzeAllProsperity yaoInfos ganZhiTime =
     map (\<lambda>yao.
            let prosperity' = analyzeProsperity yao ganZhiTime
            in yao\<lparr>prosperity := Some (monthProsperity prosperity'),
                   isVoid := isVoidBranch (diZhi yao) (voidBranches ganZhiTime),
                   isDayBroken := isDayBrokenBranch (diZhi yao) (zhi (day ganZhiTime)),
                   isMonthBroken := isMonthBrokenBranch (diZhi yao) (zhi (month ganZhiTime))\<rparr>)
         yaoInfos"

definition getProsperityLevel :: "rat \<Rightarrow> string" where
  "getProsperityLevel sc =
     (if sc \<ge> 5 then ''strong'' else if sc \<ge> 2 then ''medium''
      else if sc \<ge> -2 then ''weak'' else ''very_weak'')"

section \<open>Branch relations (relations.ts)\<close>

definition checkSixClash :: "DiZhi \<Rightarrow> DiZhi \<Rightarrow> bool" where
  "checkSixClash zhi1 zhi2 \<longleftrightarrow> DI_ZHI_CHONG zhi1 = zhi2"

definition checkSixHarmony :: "DiZhi \<Rightarrow> DiZhi \<Rightarrow> bool" where
  "checkSixHarmony zhi1 zhi2 \<longleftrightarrow> DI_ZHI_HE zhi1 = zhi2"

definition checkSixHarm :: "DiZhi \<Rightarrow> DiZhi \<Rightarrow> bool" where
  "checkSixHarm zhi1 zhi2 \<longleftrightarrow> DI_ZHI_HAI zhi1 = zhi2"

definition checkThreePenalty :: "DiZhi \<Rightarrow> DiZhi \<Rightarrow> bool" where
  "checkThreePenalty zhi1 zhi2 \<longleftrightarrow> List.member (DI_ZHI_XING zhi1) zhi2"

record ThreeHarmonyResult =
  isComplete :: bool
  th_wuXing :: "WuXing option"

text \<open>
  \<^verbatim>\<open>checkThreeHarmony\<close>: the loop over \<^verbatim>\<open>Object.entries(DI_ZHI_SAN_HE)\<close>, returning
  at the first entry that matches. A \<^verbatim>\<open>Set\<close> is the list without duplicates; its
  \<^verbatim>\<open>size\<close> is the length of that list. The sorted copy and the joined key of the
  source are never read.
\<close>

fun checkThreeHarmony_loop :: "(DiZhi list \<times> WuXing) list \<Rightarrow> DiZhi list \<Rightarrow> ThreeHarmonyResult" where
  "checkThreeHarmony_loop [] zhis = \<lparr>isComplete = False, th_wuXing = None\<rparr>"
| "checkThreeHarmony_loop ((sanHeKey, wx) # rest) zhis =
     (let sanHeSet = remdups sanHeKey;
          inputSet = remdups zhis
      in if length zhis = 3
            \<and> (list_all (\<lambda>z. List.member sanHeSet z) zhis \<and> length sanHeSet = length inputSet)
         then \<lparr>isComplete = True, th_wuXing = Some wx\<rparr>
         else
           let matchCount = length (filter (\<lambda>z. List.member sanHeSet z) zhis)
           in if matchCount \<ge> 2 then \<lparr>isComplete = False, th_wuXing = Some wx\<rparr>
              else checkThreeHarmony_loop rest zhis)"

definition checkThreeHarmony :: "DiZhi list \<Rightarrow> ThreeHarmonyResult" where
  "checkThreeHarmony zhis = checkThreeHarmony_loop DI_ZHI_SAN_HE zhis"

text \<open>
  A finding names its parties in formatted strings (\<^verbatim>\<open>`${position}\<close>...\<^verbatim>\<open>${diZhi}`\<close>
  with a fixed label); the model keeps what each string is formatted from. The
  \<^verbatim>\<open>description\<close> text is not modelled.
\<close>

datatype Party =
    YaoParty int DiZhi
  | DayParty DiZhi
  | MonthParty DiZhi
  | ChangedParty DiZhi
  | BranchParty DiZhi

record RelationAnalysis =
  r_type :: DiZhiRelation
  parties :: "Party list"
  impact :: Impact

definition yaoParty :: "YaoInfo \<Rightarrow> Party" where
  "yaoParty yao = YaoParty (position yao) (diZhi yao)"

text \<open>The findings of one pair of lines, in the order the source tests them.\<close>

definition pairRelations :: "YaoInfo \<Rightarrow> YaoInfo \<Rightarrow> RelationAnalysis list" where
  "pairRelations yao1 yao2 =
     (if checkSixClash (diZhi yao1) (diZhi yao2)
      then [\<lparr>r_type = six_clash, parties = [yaoParty yao1, yaoParty yao2], impact = negative\<rparr>]
      else [])
     @ (if checkSixHarmony (diZhi yao1) (diZhi yao2)
        then [\<lparr>r_type = six_harmony, parties = [yaoParty yao1, yaoParty yao2], impact = positive\<rparr>]
        else [])
     @ (if checkSixHarm (diZhi yao1) (diZhi yao2)
        then [\<lparr>r_type = six_harm, parties = [yaoParty yao1, yaoParty yao2], impact = negative\<rparr>]
        else [])
     @ (if checkThreePenalty (diZhi yao1) (diZhi yao2)
        then [\<lparr>r_type = three_penalty, parties = [yaoParty yao1, yaoParty yao2],
               impact = negative\<rparr>]
        else [])"

text \<open>The double loop \<^verbatim>\<open>for i\<close>, \<^verbatim>\<open>for j = i + 1\<close>.\<close>

fun allPairRelations :: "YaoInfo list \<Rightarrow> RelationAnalysis list" where
  "allPairRelations [] = []"
| "allPairRelations (yao1 # rest) =
     concat (map (pairRelations yao1) rest) @ allPairRelations rest"

definition dayRelations :: "DiZhi \<Rightarrow> YaoInfo \<Rightarrow> RelationAnalysis list" where
  "dayRelations dayZhi yao =
     (if checkSixClash (diZhi yao) dayZhi
      then (let isWangXiang = (prosperity yao = Some P_Wang \<or> prosperity yao = Some P_Xiang)
            in if isWangXiang \<and> \<not> isMoving yao
               then [\<lparr>r_type = six_clash, parties = [yaoParty yao, DayParty dayZhi],
                      impact = neutral\<rparr>]
               else [])
      else [])
     @ (if checkSixHarmony (diZhi yao) dayZhi
        then [\<lparr>r_type = six_harmony, parties = [yaoParty yao, DayParty dayZhi],
               impact = positive\<rparr>]
        else [])"

definition monthRelations :: "DiZhi \<Rightarrow> YaoInfo \<Rightarrow> RelationAnalysis list" where
  "monthRelations monthZhi yao =
     (if checkSixClash (diZhi yao) monthZhi
      then [\<lparr>r_type = six_clash, parties = [yaoParty yao, MonthParty monthZhi],
             impact = negative\<rparr>]
      else [])
     @ (if checkSixHarmony (diZhi yao) monthZhi
        then [\<lparr>r_type = six_harmony, parties = [yaoParty yao, MonthParty monthZhi],
               impact = positive\<rparr>]
        else [])"

definition movingRelations :: "YaoInfo \<Rightarrow> RelationAnalysis list" where
  "movingRelations yao =
     (case (isMoving yao, changedYao yao) of
        (True, Some c) \<Rightarrow>
          (let originalZhi = diZhi yao; changedZhi = c_diZhi c
           in (if checkSixClash originalZhi changedZhi
               then [\<lparr>r_type = six_clash,
                      parties = [YaoParty (position yao) originalZhi, ChangedParty changedZhi],
                      impact = negative\<rparr>]
               else [])
              @ (if checkSixHarmony originalZhi changedZhi
                 then [\<lparr>r_type = six_harmony,
                        parties = [YaoParty (position yao) originalZhi, ChangedParty changedZhi],
                        impact = neutral\<rparr>]
                 else []))
      | _ \<Rightarrow> [])"

definition analyzeRelations :: "YaoInfo list \<Rightarrow> GanZhiTime \<Rightarrow> RelationAnalysis list" where
  "analyzeRelations yaoInfos ganZhiTime =
     (let monthZhi = zhi (month ganZhiTime);
          dayZhi = zhi (day ganZhiTime);
          allZhis = map diZhi yaoInfos;
          threeHarmonyResult = checkThreeHarmony allZhis
      in allPairRelations yaoInfos
         @ concat (map (dayRelations dayZhi) yaoInfos)
         @ concat (map (monthRelations monthZhi) yaoInfos)
         @ concat (map movingRelations yaoInfos)
         @ (if isComplete threeHarmonyResult \<and> th_wuXing threeHarmonyResult \<noteq> None
            then [\<lparr>r_type = three_harmony, parties = map BranchParty allZhis, impact = positive\<rparr>]
            else []))"

section \<open>Focus element (yongshen.ts)\<close>

text \<open>
  \<^verbatim>\<open>YongShenInfo\<close> without its \<^verbatim>\<open>reason\<close> text; \<^verbatim>\<open>alternatives\<close> keeps the
  role of each alternative.
\<close>

record YongShenInfo =
  ys_liuQin :: LiuQin
  positions :: "int list"
  isAutoSelected :: bool
  alternatives :: "LiuQin list option"

text \<open>\<^verbatim>\<open>QUESTION_SUBTYPES\<close>: the \<^verbatim>\<open>subType\<close> keys of each category, in order.\<close>

fun QUESTION_SUBTYPES :: "QuestionCategory \<Rightarrow> string list" where
  "QUESTION_SUBTYPES career =
     [''career_job'', ''career_business'', ''career_promotion'', ''career_interview'']"
| "QUESTION_SUBTYPES love = [''love_male'', ''love_female'', ''love_samesex'', ''love_relationship'']"
| "QUESTION_SUBTYPES wealth = [''wealth_general'', ''wealth_investment'', ''wealth_business'']"
| "QUESTION_SUBTYPES health = [''health_self'', ''health_other'']"
| "QUESTION_SUBTYPES study = [''study_exam'', ''study_learning'']"
| "QUESTION_SUBTYPES lawsuit = [''lawsuit_plaintiff'', ''lawsuit_defendant'']"
| "QUESTION_SUBTYPES travel = [''travel_self'', ''travel_safety'']"
| "QUESTION_SUBTYPES lost = [''lost_item'', ''lost_person'']"
| "QUESTION_SUBTYPES other = [''other_general'']"

text \<open>\<^verbatim>\<open>YONG_SHEN_RULES\<close> (constants.ts): primary and secondary target of each key.\<close>

definition YONG_SHEN_RULES :: "(string \<times> YongShenTarget \<times> YongShenTarget option) list" where
  "YONG_SHEN_RULES =
     [(''career_job'', T_LiuQin GuanGui, None),
      (''career_business'', T_LiuQin QiCai, None),
      (''career_promotion'', T_LiuQin GuanGui, None),
      (''career_interview'', T_LiuQin GuanGui, None),
      (''love_male'', T_LiuQin QiCai, None),
      (''love_female'', T_LiuQin GuanGui, None),
      (''love_relationship'', T_YingYao, Some T_ShiYao),
      (''wealth_general'', T_LiuQin QiCai, None),
      (''wealth_investment'', T_LiuQin QiCai, None),
      (''wealth_business'', T_LiuQin QiCai, None),
      (''health_self'', T_ShiYao, Some (T_LiuQin GuanGui)),
      (''health_other'', T_YongShen, Some (T_LiuQin GuanGui)),
      (''study_exam'', T_LiuQin FuMu, Some (T_LiuQin GuanGui)),
      (''study_learning'', T_LiuQin FuMu, None),
      (''lawsuit_plaintiff'', T_ShiYao, Some (T_LiuQin GuanGui)),
      (''lawsuit_defendant'', T_ShiYao, Some (T_LiuQin ZiSun)),
      (''travel_self'', T_ShiYao, None),
      (''travel_safety'', T_ShiYao, Some (T_LiuQin GuanGui)),
      (''lost_item'', T_LiuQin QiCai, None),
      (''lost_person'', T_YongShen, None),
      (''other_general'', T_ShiYao, None)]"

definition createWorldYongShen :: "YaoInfo list \<Rightarrow> error + YongShenInfo" where
  "createWorldYongShen yaoInfos =
     bindE (getWorldYao yaoInfos) (\<lambda>worldYao.
       Inr \<lparr>ys_liuQin = liuQin worldYao, positions = [position worldYao],
            isAutoSelected = True, alternatives = None\<rparr>)"

definition selectYongShen :: "YaoInfo list \<Rightarrow> string \<Rightarrow> error + YongShenInfo" where
  "selectYongShen yaoInfos questionSubType =
     (case map_of YONG_SHEN_RULES questionSubType of
        None \<Rightarrow> createWorldYongShen yaoInfos
      | Some (primaryTarget, secondary) \<Rightarrow>
          (case primaryTarget of
             T_ShiYao \<Rightarrow> createWorldYongShen yaoInfos
           | T_YingYao \<Rightarrow>
               bindE (getResponseYao yaoInfos) (\<lambda>responseYao.
                 Inr \<lparr>ys_liuQin = liuQin responseYao, positions = [position responseYao],
                      isAutoSelected = True, alternatives = None\<rparr>)
           | T_YongShen \<Rightarrow> createWorldYongShen yaoInfos
           | T_LiuQin primaryLiuQin \<Rightarrow>
               (let secondaryLiuQin =
                      (case secondary of Some (T_LiuQin lq) \<Rightarrow> Some lq | _ \<Rightarrow> None);
                    yongShenYaos = findYaoByLiuQin yaoInfos primaryLiuQin;
                    alts = (case secondaryLiuQin of Some lq \<Rightarrow> Some [lq] | None \<Rightarrow> None)
                in if length yongShenYaos = 0
                   then Inr \<lparr>ys_liuQin = primaryLiuQin, positions = [],
                             isAutoSelected = True, alternatives = alts\<rparr>
                   else Inr \<lparr>ys_liuQin = primaryLiuQin, positions = map position yongShenYaos,
                             isAutoSelected = True, alternatives = alts\<rparr>)))"

section \<open>Interpretation (interpretation.ts)\<close>

text \<open>
  An interpretation item carries two texts and a reasoning chain, all assembled from fixed
  templates. The model keeps the item's \<^verbatim>\<open>type\<close>, its \<^verbatim>\<open>relatedYao\<close> and, in
  \<open>i_text\<close>, which template the texts come from: \<open>Text_TooManyMoving n\<close> stands for the
  item whose technical text says that too many lines move (\<open>n\<close> of them) and the
  situation is chaotic, and whose plain text says that no clear direction can be seen.
  An uncertainty note is likewise kept as the place that logged it. Summaries, advice
  and the causal tree are texts derived from the trend and are not modelled.
\<close>

datatype ItemText =
    Text_YongShenHidden
  | Text_YongShenStatus
  | Text_WorldResponse
  | Text_TooManyMoving nat
  | Text_MovingYao
  | Text_Relation DiZhiRelation
  | Text_YongShenVoid
  | Text_YongShenBroken

record InterpretationItem =
  i_type :: ItemType
  i_text :: ItemText
  relatedYao :: "int list option"

datatype Uncertainty = U_YongShenHidden | U_YongShenVoid | U_TooManyMoving

datatype TimingKind = Timing_Void | Timing_Branch | Timing_Changed

record TimingPrediction =
  tp_kind :: TimingKind
  nearestDates :: "jsdate list"
  nearestMonths :: "FutureMonth list"

record InterpretationResult =
  trend :: TrendJudgment
  items :: "InterpretationItem list"
  timingPredictions :: "TimingPrediction list"
  uncertainties :: "Uncertainty list"

text \<open>
  \<^verbatim>\<open>analyzeYongShenStatus\<close>. The source asserts that a line at one of the focus
  positions exists (\<^verbatim>\<open>find(...)!\<close>); were there none, \<^verbatim>\<open>analyzeProsperity\<close> would read a
  field of \<^verbatim>\<open>undefined\<close>.
\<close>

definition analyzeYongShenStatus ::
  "YaoInfo list \<Rightarrow> YongShenInfo \<Rightarrow> GanZhiTime \<Rightarrow> error + (InterpretationItem \<times> Uncertainty option)" where
  "analyzeYongShenStatus yaoInfos yongShen ganZhiTime =
     (if length (positions yongShen) = 0
      then Inr (\<lparr>i_type = item_obstacle, i_text = Text_YongShenHidden, relatedYao = Some []\<rparr>,
                Some U_YongShenHidden)
      else
        case js_find (\<lambda>y. List.member (positions yongShen) (position y)) yaoInfos of
          None \<Rightarrow> Inl TypeError
        | Some yongShenYao \<Rightarrow>
            (let prosperity' = analyzeProsperity yongShenYao ganZhiTime;
                 isStrong = (monthProsperity prosperity' = P_Wang
                             \<or> monthProsperity prosperity' = P_Xiang);
                 isVoid' = isVoid yongShenYao;
                 isBroken = (isDayBroken yongShenYao \<or> isMonthBroken yongShenYao);
                 uncertainty = (if isVoid' then Some U_YongShenVoid else None)
             in Inr (\<lparr>i_type = (if isStrong \<and> \<not> isVoid' \<and> \<not> isBroken then item_support
                                  else item_obstacle),
                       i_text = Text_YongShenStatus,
                       relatedYao = Some [position yongShenYao]\<rparr>,
                     uncertainty)))"

definition analyzeWorldResponse ::
  "YaoInfo list \<Rightarrow> GanZhiTime \<Rightarrow> QuestionCategory \<Rightarrow> error + InterpretationItem" where
  "analyzeWorldResponse yaoInfos ganZhiTime cat =
     bindE (getWorldYao yaoInfos) (\<lambda>worldYao.
     bindE (getResponseYao yaoInfos) (\<lambda>responseYao.
       let worldProsperity = analyzeProsperity worldYao ganZhiTime;
           responseProsperity = analyzeProsperity responseYao ganZhiTime;
           worldStrong = (score worldProsperity > 0);
           responseStrong = (score responseProsperity > 0)
       in Inr \<lparr>i_type = (if worldStrong then item_support else item_obstacle),
                i_text = Text_WorldResponse,
                relatedYao = Some [position worldYao, position responseYao]\<rparr>))"

definition analyzeMovingYao ::
  "YaoInfo list \<Rightarrow> YaoInfo list option \<Rightarrow> YongShenInfo
   \<Rightarrow> (InterpretationItem \<times> Uncertainty option) option" where
  "analyzeMovingYao yaoInfos changedYaoInfos yongShen =
     (let movingYaos = filter isMoving yaoInfos
      in if length movingYaos = 0 then None
         else if length movingYaos \<ge> 4
         then Some (\<lparr>i_type = item_risk, i_text = Text_TooManyMoving (length movingYaos),
                     relatedYao = Some (map position movingYaos)\<rparr>,
                    Some U_TooManyMoving)
         else Some (\<lparr>i_type = item_trend, i_text = Text_MovingYao,
                     relatedYao = Some (map position movingYaos)\<rparr>,
                    None))"

definition analyzeRelationsImpact ::
  "RelationAnalysis list \<Rightarrow> YongShenInfo \<Rightarrow> YaoInfo list \<Rightarrow> InterpretationItem list" where
  "analyzeRelationsImpact relations yongShen yaoInfos =
     (let importantRelations =
            filter (\<lambda>r. r_type r = six_clash \<or> r_type r = six_harmony
                        \<or> r_type r = three_penalty \<or> r_type r = six_harm) relations
      in map (\<lambda>relation.
                \<lparr>i_type = (if impact relation = positive then item_support
                            else if impact relation = negative then item_obstacle
                            else item_trend),
                 i_text = Text_Relation (r_type relation),
                 relatedYao = None\<rparr>)
           (take 3 importantRelations))"

definition analyzeVoidAndBroken ::
  "YaoInfo list \<Rightarrow> YongShenInfo \<Rightarrow> GanZhiTime \<Rightarrow> InterpretationItem option" where
  "analyzeVoidAndBroken yaoInfos yongShen ganZhiTime =
     (case js_find (\<lambda>y. List.member (positions yongShen) (position y)) yaoInfos of
        None \<Rightarrow> None
      | Some yongShenYao \<Rightarrow>
          if isVoid yongShenYao
          then Some \<lparr>i_type = item_obstacle, i_text = Text_YongShenVoid,
                     relatedYao = Some [position yongShenYao]\<rparr>
          else if isDayBroken yongShenYao \<or> isMonthBroken yongShenYao
          then Some \<lparr>i_type = item_obstacle, i_text = Text_YongShenBroken,
                     relatedYao = Some [position yongShenYao]\<rparr>
          else None)"

text \<open>
  \<^verbatim>\<open>predictTiming\<close> reads the clock: \<open>today\<close> is the value of \<^verbatim>\<open>new Date()\<close> at the
  time of the call. Of each prediction the model keeps the dates and months found.
\<close>

definition predictTiming ::
  "int \<Rightarrow> jsdate \<Rightarrow> YaoInfo list \<Rightarrow> YongShenInfo \<Rightarrow> GanZhiTime \<Rightarrow> YaoInfo list option
   \<Rightarrow> TimingPrediction list" where
  "predictTiming tz today yaoInfos yongShen ganZhiTime changedYaoInfos =
     (case js_find (\<lambda>y. List.member (positions yongShen) (position y)) yaoInfos of
        None \<Rightarrow> []
      | Some yongShenYao \<Rightarrow>
          (if isVoid yongShenYao
           then (let voidZhi = diZhi yongShenYao;
                     clashZhi = DI_ZHI_CHONG voidZhi;
                     fillDates = take 3 (findFutureDatesWithZhi tz today voidZhi 90);
                     clashDates = take 3 (findFutureDatesWithZhi tz today clashZhi 90);
                     allDates = take 4 (sort (fillDates @ clashDates))
                 in [\<lparr>tp_kind = Timing_Void, nearestDates = allDates, nearestMonths = []\<rparr>])
           else [])
          @ (if \<not> isVoid yongShenYao \<and> \<not> isDayBroken yongShenYao
             then (let targetZhi = diZhi yongShenYao;
                       futureDates = take 4 (findFutureDatesWithZhi tz today targetZhi 90);
                       futureMonths = take 2 (findFutureMonthsWithZhi tz today targetZhi 12)
                   in [\<lparr>tp_kind = Timing_Branch, nearestDates = futureDates,
                         nearestMonths = futureMonths\<rparr>])
             else [])
          @ (case (isMoving yongShenYao, changedYao yongShenYao) of
               (True, Some c) \<Rightarrow>
                 (let changedZhi = c_diZhi c;
                      futureDates = take 3 (findFutureDatesWithZhi tz today changedZhi 90)
                  in [\<lparr>tp_kind = Timing_Changed, nearestDates = futureDates,
                        nearestMonths = []\<rparr>])
             | _ \<Rightarrow> []))"

text \<open>\<^verbatim>\<open>judgeTrend\<close>: the tally loop over the items, then the extra weight of the focus item.\<close>

fun tally :: "InterpretationItem list \<Rightarrow> int \<times> int \<Rightarrow> int \<times> int" where
  "tally [] acc = acc"
| "tally (item # rest) (supportCount, obstacleCount) =
     tally rest
       (if i_type item = item_support then supportCount + 1 else supportCount,
        (if i_type item = item_risk then 2 else 0)
        + (if i_type item = item_obstacle then obstacleCount + 1 else obstacleCount))"

definition judgeTrend :: "InterpretationItem list \<Rightarrow> InterpretationItem \<Rightarrow> nat \<Rightarrow> TrendJudgment" where
  "judgeTrend items' yongShenItem uncertaintyCount =
     (if uncertaintyCount \<ge> 2 then uncertain
      else
        case tally items' (0, 0) of (supportCount0, obstacleCount0) \<Rightarrow>
          let supportCount =
                (if i_type yongShenItem = item_support then supportCount0 + 2 else supportCount0);
              obstacleCount =
                (if i_type yongShenItem = item_support then obstacleCount0
                 else if i_type yongShenItem = item_obstacle then obstacleCount0 + 2
                 else obstacleCount0);
              diff = supportCount - obstacleCount
          in if diff \<ge> 4 then very_favorable
             else if diff \<ge> 2 then favorable
             else if diff \<le> -4 then very_unfavorable
             else if diff \<le> -2 then unfavorable
             else trend_neutral)"

definition generateInterpretation ::
  "int \<Rightarrow> jsdate \<Rightarrow> YaoInfo list \<Rightarrow> YaoInfo list option \<Rightarrow> GuaInfo \<Rightarrow> GuaInfo option
   \<Rightarrow> GanZhiTime \<Rightarrow> YongShenInfo \<Rightarrow> RelationAnalysis list \<Rightarrow> QuestionCategory
   \<Rightarrow> error + InterpretationResult" where
  "generateInterpretation tz today primaryYaoInfos changedYaoInfos primaryGua changedGua
       ganZhiTime yongShen relations cat =
     bindE (analyzeYongShenStatus primaryYaoInfos yongShen ganZhiTime) (\<lambda>yongShenAnalysis.
     bindE (analyzeWorldResponse primaryYaoInfos ganZhiTime cat) (\<lambda>worldResponseAnalysis.
       let movingYaoAnalysis = analyzeMovingYao primaryYaoInfos changedYaoInfos yongShen;
           relationAnalysis = analyzeRelationsImpact relations yongShen primaryYaoInfos;
           voidAnalysis = analyzeVoidAndBroken primaryYaoInfos yongShen ganZhiTime;
           items' =
             [fst yongShenAnalysis, worldResponseAnalysis]
             @ (case movingYaoAnalysis of None \<Rightarrow> [] | Some m \<Rightarrow> [fst m])
             @ relationAnalysis
             @ (case voidAnalysis of None \<Rightarrow> [] | Some v \<Rightarrow> [v]);
           uncertainties' =
             (case snd yongShenAnalysis of None \<Rightarrow> [] | Some u \<Rightarrow> [u])
             @ (case movingYaoAnalysis of Some (m, Some u) \<Rightarrow> [u] | _ \<Rightarrow> []);
           timings = predictTiming tz today primaryYaoInfos yongShen ganZhiTime changedYaoInfos;
           trend' = judgeTrend items' (fst yongShenAnalysis) (length uncertainties')
       in Inr \<lparr>trend = trend', items = items', timingPredictions = timings,
                uncertainties = uncertainties'\<rparr>))"

section \<open>The casting pipeline (engine.ts)\<close>

record CastingTime =
  gregorian :: jsdate
  timezone :: string
  ct_ganZhi :: GanZhiTime

text \<open>
  \<^verbatim>\<open>CastingInput\<close>, with the optional \<^verbatim>\<open>subType\<close> that the engine reads; the question
  text is never read. The field \<^verbatim>\<open>method\<close> is written \<open>method'\<close>.
\<close>

record CastingInput =
  method' :: CastingMethod
  yaoStates :: "YaoState list"
  time :: CastingTime
  questionCategory :: QuestionCategory
  subType :: "string option"
  gender :: "GenderOption option"

text \<open>
  What a call takes from outside its arguments: the clock (\<^verbatim>\<open>new Date()\<close>), the
  identifier that \<^verbatim>\<open>nanoid(12)\<close> draws, and the name of the host's time zone.
\<close>

record Env =
  now :: jsdate
  newId :: string
  zoneName :: string

text \<open>
  \<^verbatim>\<open>DivinationResult\<close> without \<^verbatim>\<open>fullReasoningChain\<close>, which is text.
\<close>

record DivinationResult =
  r_id :: string
  createdAt :: jsdate
  input :: CastingInput
  primaryGua :: GuaInfo
  primaryYao :: "YaoInfo list"
  changedGua :: "GuaInfo option"
  changedYaoList :: "YaoInfo list option"
  mutualGua :: "GuaData option \<times> string"
  oppositeGua :: "GuaData option \<times> string"
  reverseGua :: "GuaData option \<times> string"
  movingYaoPositions :: "int list"
  ganZhiTime :: GanZhiTime
  yongShen :: YongShenInfo
  relations :: "RelationAnalysis list"
  r_interpretation :: InterpretationResult

definition getQuestionSubType ::
  "QuestionCategory \<Rightarrow> string option \<Rightarrow> GenderOption option \<Rightarrow> string" where
  "getQuestionSubType category userSubType gender' =
     (if category = love then
        (if userSubType = Some ''same_sex'' \<or> gender' = Some same_sex then ''love_samesex''
         else if userSubType = Some ''female'' \<or> gender' = Some female then ''love_female''
         else if userSubType = Some ''male'' \<or> gender' = Some male then ''love_male''
         else ''love_male'')
      else if category = career then
        (if userSubType = Some ''business'' then ''career_business'' else ''career_job'')
      else if category = health then
        (if userSubType = Some ''other'' then ''health_other'' else ''health_self'')
      else if category = lost then
        (if userSubType = Some ''person'' then ''lost_person'' else ''lost_item'')
      else
        (case QUESTION_SUBTYPES category of
           [] \<Rightarrow> ''other_general''
         | s # rest \<Rightarrow> s))"

definition createCastingTime :: "int \<Rightarrow> Env \<Rightarrow> jsdate \<Rightarrow> CastingTime" where
  "createCastingTime tz env date =
     \<lparr>gregorian = date, timezone = zoneName env, ct_ganZhi = getGanZhiTime tz date\<rparr>"

definition castHexagram :: "int \<Rightarrow> Env \<Rightarrow> CastingInput \<Rightarrow> error + DivinationResult" where
  "castHexagram tz env input' =
     (let ganZhiTime' = getGanZhiTime tz (gregorian (time input'))
      in bindE (getGuaFromYaoStates (yaoStates input')) (\<lambda>primaryGua'.
         bindE (installHexagram (yaoStates input') primaryGua') (\<lambda>installed.
           let withLiuShen = installLiuShen installed (gan (day ganZhiTime'));
               primaryYaoInfos = analyzeAllProsperity withLiuShen ganZhiTime';
               movingPositions = getMovingPositions (yaoStates input')
           in bindE (if length movingPositions > 0 then getChangedGua (yaoStates input')
                     else Inr None) (\<lambda>changedGua'.
              let changedYaoInfos =
                    (case changedGua' of
                       None \<Rightarrow> None
                     | Some cg \<Rightarrow>
                         Some (analyzeAllProsperity (getChangedYaoInfos primaryYaoInfos cg)
                                 ganZhiTime'))
              in bindE (getMutualGua (yaoStates input')) (\<lambda>mutualGua'.
                 let oppositeGua' = getOppositeGua (yaoStates input');
                     reverseGua' = getReverseGua (yaoStates input');
                     relations' = analyzeRelations primaryYaoInfos ganZhiTime';
                     questionSubType =
                       getQuestionSubType (questionCategory input') (subType input')
                         (gender input')
                 in bindE (selectYongShen primaryYaoInfos questionSubType) (\<lambda>yongShen'.
                    bindE (generateInterpretation tz (now env) primaryYaoInfos changedYaoInfos
                             primaryGua' changedGua' ganZhiTime' yongShen' relations'
                             (questionCategory input')) (\<lambda>interpretation'.
                      Inr \<lparr>r_id = newId env, createdAt = now env, input = input',
                           primaryGua = primaryGua', primaryYao = primaryYaoInfos,
                           changedGua = changedGua', changedYaoList = changedYaoInfos,
                           mutualGua = mutualGua', oppositeGua = oppositeGua',
                           reverseGua = reverseGua', movingYaoPositions = movingPositions,
                           ganZhiTime = ganZhiTime', yongShen = yongShen',
                           relations = relations', r_interpretation = interpretation'\<rparr>)))))))"

text \<open>
  Test case 3 of \<^verbatim>\<open>engine.test.ts\<close>: the coin casting with the bottom line active, at
  \<^verbatim>\<open>new Date('2024-06-21T14:00:00')\<close> (a local time), asked about love. It is read
  here on a host eight hours east of UTC; \<open>testEnv\<close> fixes a clock and an identifier.
\<close>

definition testEnv :: Env where
  "testEnv = \<lparr>now = newDate 480 2026 10 3 + 12 * 3600000, newId = ''V1StGXR8_Z5j'',
              zoneName = ''Asia/Shanghai''\<rparr>"

definition testCase3 :: CastingInput where
  "testCase3 =
     \<lparr>method' = coin, yaoStates = testCase3_yaoStates,
      time = createCastingTime 480 testEnv (newDate 480 2024 5 21 + 14 * 3600000),
      questionCategory = love, subType = None, gender = None\<rparr>"

text \<open>
  A coin casting in which every line is old yang, so that all six lines are active, asked
  about career at the time of test case 3.
\<close>

definition sixOldYang :: CastingInput where
  "sixOldYang =
     \<lparr>method' = coin, yaoStates = replicate 6 (coinSumToYaoState 9),
      time = createCastingTime 480 testEnv (newDate 480 2024 5 21 + 14 * 3600000),
      questionCategory = career, subType = None, gender = None\<rparr>"


text \<open>
  The same casting at 2024-06-04T12:00:00Z, which is 20:00 on the 4th of June on a host
  eight hours east of UTC and 02:00 on the 5th on a host fourteen hours east.
\<close>

definition sixOldYangNoon :: CastingInput where
  "sixOldYangNoon =
     \<lparr>method' = coin, yaoStates = replicate 6 (coinSumToYaoState 9),
      time = createCastingTime 480 testEnv (Date_UTC 2024 5 4 + 12 * 3600000),
      questionCategory = career, subType = None, gender = None\<rparr>"

section \<open>Share codes (engine.ts, serializeResult and deserializeResult)\<close>

subsection \<open>Base64: btoa and atob\<close>

text \<open>
  The text of the code units of an ASCII literal.
\<close>

definition ascii :: "string \<Rightarrow> jsstring" where
  "ascii s = map of_char s"

definition B64 :: jsstring where
  "B64 = ascii ''ABCDEFGHIJKLMNOPQRSTUVWXYZabcdefghijklmnopqrstuvwxyz0123456789+/''"

text \<open>
  The six-bit groups of a byte string, three bytes to four groups; a last group of one
  or two bytes gives two or three.
\<close>

fun sextets :: "nat list \<Rightarrow> nat list" where
  "sextets (a # b # c # rest) =
     [a div 4, (a mod 4) * 16 + b div 16, (b mod 16) * 4 + c div 64, c mod 64] @ sextets rest"
| "sextets [a, b] = [a div 4, (a mod 4) * 16 + b div 16, (b mod 16) * 4]"
| "sextets [a] = [a div 4, (a mod 4) * 16]"
| "sextets [] = []"

text \<open>
  \<^verbatim>\<open>btoa\<close>: a code unit above 255 raises \<^verbatim>\<open>InvalidCharacterError\<close>; otherwise the groups
  are written in the alphabet and the output is padded with \<^verbatim>\<open>=\<close> (61) to a multiple of
  four.
\<close>

definition btoa :: "jsstring \<Rightarrow> error + jsstring" where
  "btoa s =
     (if list_ex (\<lambda>c. c > 255) s then Inl InvalidCharacterError
      else Inr (map (\<lambda>i. B64 ! i) (sextets s) @ replicate ((3 - length s mod 3) mod 3) 61))"

definition isAsciiWhitespace :: "nat \<Rightarrow> bool" where
  "isAsciiWhitespace c \<longleftrightarrow> c = 9 \<or> c = 10 \<or> c = 12 \<or> c = 13 \<or> c = 32"

fun unsextets :: "nat list \<Rightarrow> nat list" where
  "unsextets (p # q # r # s # rest) =
     [p * 4 + q div 16, (q mod 16) * 16 + r div 4, (r mod 4) * 64 + s] @ unsextets rest"
| "unsextets [p, q, r] = [p * 4 + q div 16, (q mod 16) * 16 + r div 4]"
| "unsextets [p, q] = [p * 4 + q div 16]"
| "unsextets [p] = []"
| "unsextets [] = []"

text \<open>
  \<^verbatim>\<open>atob\<close>, the forgiving base64 decoding: ASCII whitespace is dropped; when the length is
  then a multiple of four, one or two \<^verbatim>\<open>=\<close> at the end are dropped; a length that leaves
  remainder one, or a code unit outside the alphabet, raises \<^verbatim>\<open>InvalidCharacterError\<close>;
  the bits left over by a last group of two or three are discarded.
\<close>

definition atob :: "jsstring \<Rightarrow> error + jsstring" where
  "atob encoded =
     (let d1 = filter (\<lambda>c. \<not> isAsciiWhitespace c) encoded;
          d2 = (if length d1 mod 4 = 0 then
                  (if length d1 \<ge> 2 \<and> last d1 = 61 \<and> last (butlast d1) = 61
                   then butlast (butlast d1)
                   else if length d1 \<ge> 1 \<and> last d1 = 61 then butlast d1
                   else d1)
                else d1)
      in if length d2 mod 4 = 1 \<or> list_ex (\<lambda>c. indexOf B64 c < 0) d2
         then Inl InvalidCharacterError
         else Inr (unsextets (map (\<lambda>c. nat (indexOf B64 c)) d2)))"

subsection \<open>JSON values and JSON.parse\<close>

text \<open>
  A JSON value. The number \<open>JNum m e\<close> is the one written with the digits of \<open>m\<close> and the
  decimal exponent \<open>e\<close>, that is the double nearest to \<open>m * 10 ^ e\<close>; a number written
  without fraction and exponent is \<open>JNum m 0\<close>. An object keeps its members as they are
  written.
\<close>

datatype json =
    JNull
  | JBool bool
  | JNum int int
  | JStr jsstring
  | JArr "json list"
  | JObj "(jsstring \<times> json) list"

datatype token =
    TLBrace | TRBrace | TLBracket | TRBracket | TComma | TColon
  | TStr jsstring
  | TVal json

text \<open>
  The scanner reads one code unit at a time. Its state is the token in progress: none,
  a string (the code units so far, last first), an escape in a string, a \<^verbatim>\<open>\u\<close> escape
  with the number of hexadecimal digits read and their value, a number, or a word.
\<close>

datatype lexstate =
    LStart
  | LStr jsstring
  | LEsc jsstring
  | LUni jsstring nat nat
  | LNum jsstring
  | LWord jsstring

definition isDigit :: "nat \<Rightarrow> bool" where
  "isDigit c \<longleftrightarrow> 48 \<le> c \<and> c \<le> 57"

definition isNumChar :: "nat \<Rightarrow> bool" where
  "isNumChar c \<longleftrightarrow> isDigit c \<or> c = 43 \<or> c = 45 \<or> c = 46 \<or> c = 69 \<or> c = 101"

definition isLower :: "nat \<Rightarrow> bool" where
  "isLower c \<longleftrightarrow> 97 \<le> c \<and> c \<le> 122"

definition hexval :: "nat \<Rightarrow> nat option" where
  "hexval c =
     (if 48 \<le> c \<and> c \<le> 57 then Some (c - 48)
      else if 97 \<le> c \<and> c \<le> 102 then Some (c - 87)
      else if 65 \<le> c \<and> c \<le> 70 then Some (c - 55)
      else None)"

definition digitsValue :: "jsstring \<Rightarrow> nat" where
  "digitsValue ds = foldl (\<lambda>a d. a * 10 + (d - 48)) 0 ds"

text \<open>
  A number: an optional \<^verbatim>\<open>-\<close>, an integer part without a leading zero, an optional
  fraction of at least one digit, an optional exponent of at least one digit.
\<close>

definition number_token :: "jsstring \<Rightarrow> error + token" where
  "number_token raw =
     (let (neg, r1) = (case raw of [] \<Rightarrow> (False, []) | c # r \<Rightarrow> if c = 45 then (True, r) else (False, raw));
          ip = takeWhile isDigit r1;
          r2 = dropWhile isDigit r1;
          (fp, r3) = (case r2 of [] \<Rightarrow> (None, [])
                      | c # r \<Rightarrow> if c = 46 then (Some (takeWhile isDigit r), dropWhile isDigit r)
                                 else (None, r2));
          (ex, r4) = (case r3 of [] \<Rightarrow> (None, [])
                      | c # r \<Rightarrow>
                          if c = 101 \<or> c = 69 then
                            (case r of [] \<Rightarrow> (Some (1, []), [])
                             | s # r' \<Rightarrow>
                                 if s = 43 then (Some (1, takeWhile isDigit r'), dropWhile isDigit r')
                                 else if s = 45 then (Some (-1, takeWhile isDigit r'), dropWhile isDigit r')
                                 else (Some (1, takeWhile isDigit r), dropWhile isDigit r))
                          else (None, r3))
      in if ip = [] \<or> (length ip > 1 \<and> hd ip = 48) \<or> fp = Some []
            \<or> (case ex of None \<Rightarrow> False | Some (sg, ds) \<Rightarrow> ds = []) \<or> r4 \<noteq> []
         then Inl SyntaxError
         else
           let fr = (case fp of None \<Rightarrow> [] | Some ds \<Rightarrow> ds);
               mant = int (digitsValue (ip @ fr));
               expo = (case ex of None \<Rightarrow> 0 | Some (sg, ds) \<Rightarrow> sg * int (digitsValue ds))
           in Inr (TVal (JNum (if neg then - mant else mant) (expo - int (length fr)))))"

definition word_token :: "jsstring \<Rightarrow> error + token" where
  "word_token raw =
     (if raw = ascii ''true'' then Inr (TVal (JBool True))
      else if raw = ascii ''false'' then Inr (TVal (JBool False))
      else if raw = ascii ''null'' then Inr (TVal JNull)
      else Inl SyntaxError)"

definition lex_start :: "nat \<Rightarrow> error + (token list \<times> lexstate)" where
  "lex_start c =
     (if c = 9 \<or> c = 10 \<or> c = 13 \<or> c = 32 then Inr ([], LStart)
      else if c = 123 then Inr ([TLBrace], LStart)
      else if c = 125 then Inr ([TRBrace], LStart)
      else if c = 91 then Inr ([TLBracket], LStart)
      else if c = 93 then Inr ([TRBracket], LStart)
      else if c = 44 then Inr ([TComma], LStart)
      else if c = 58 then Inr ([TColon], LStart)
      else if c = 34 then Inr ([], LStr [])
      else if c = 45 \<or> isDigit c then Inr ([], LNum [c])
      else if isLower c then Inr ([], LWord [c])
      else Inl SyntaxError)"

definition lex_escape :: "jsstring \<Rightarrow> nat \<Rightarrow> error + (token list \<times> lexstate)" where
  "lex_escape acc c =
     (if c = 34 \<or> c = 92 \<or> c = 47 then Inr ([], LStr (c # acc))
      else if c = 98 then Inr ([], LStr (8 # acc))
      else if c = 102 then Inr ([], LStr (12 # acc))
      else if c = 110 then Inr ([], LStr (10 # acc))
      else if c = 114 then Inr ([], LStr (13 # acc))
      else if c = 116 then Inr ([], LStr (9 # acc))
      else if c = 117 then Inr ([], LUni acc 0 0)
      else Inl SyntaxError)"

fun lex_step :: "lexstate \<Rightarrow> nat \<Rightarrow> error + (token list \<times> lexstate)" where
  "lex_step LStart c = lex_start c"
| "lex_step (LStr acc) c =
     (if c = 34 then Inr ([TStr (rev acc)], LStart)
      else if c = 92 then Inr ([], LEsc acc)
      else if c < 32 then Inl SyntaxError
      else Inr ([], LStr (c # acc)))"
| "lex_step (LEsc acc) c = lex_escape acc c"
| "lex_step (LUni acc k v) c =
     (case hexval c of
        None \<Rightarrow> Inl SyntaxError
      | Some h \<Rightarrow> if k = 3 then Inr ([], LStr ((v * 16 + h) # acc))
                  else Inr ([], LUni acc (k + 1) (v * 16 + h)))"
| "lex_step (LNum raw) c =
     (if isNumChar c then Inr ([], LNum (c # raw))
      else bindE (number_token (rev raw)) (\<lambda>t.
           bindE (lex_start c) (\<lambda>(toks, st). Inr (t # toks, st))))"
| "lex_step (LWord raw) c =
     (if isLower c then Inr ([], LWord (c # raw))
      else bindE (word_token (rev raw)) (\<lambda>t.
           bindE (lex_start c) (\<lambda>(toks, st). Inr (t # toks, st))))"

fun lex_end :: "lexstate \<Rightarrow> error + token list" where
  "lex_end LStart = Inr []"
| "lex_end (LNum raw) = bindE (number_token (rev raw)) (\<lambda>t. Inr [t])"
| "lex_end (LWord raw) = bindE (word_token (rev raw)) (\<lambda>t. Inr [t])"
| "lex_end (LStr acc) = Inl SyntaxError"
| "lex_end (LEsc acc) = Inl SyntaxError"
| "lex_end (LUni acc k v) = Inl SyntaxError"

fun lex_run :: "lexstate \<Rightarrow> jsstring \<Rightarrow> error + token list" where
  "lex_run st [] = lex_end st"
| "lex_run st (c # cs) =
     bindE (lex_step st c) (\<lambda>(toks, st').
     bindE (lex_run st' cs) (\<lambda>rest. Inr (toks @ rest)))"

text \<open>
  The parser reads one token at a time and keeps the open arrays and objects on a stack:
  an array with its elements so far (last first), an object with its members so far, an
  object with a key whose value is awaited.
\<close>

datatype frame =
    FArr "json list"
  | FObj "(jsstring \<times> json) list"
  | FKey "(jsstring \<times> json) list" jsstring

datatype pstate =
    ExpValue "frame list"
  | ExpValueOrEnd "frame list"
  | ExpKeyOrEnd "frame list"
  | ExpKey "frame list"
  | ExpColon "frame list"
  | ExpCommaOrEnd "frame list"
  | PDone json

fun deliver :: "json \<Rightarrow> frame list \<Rightarrow> error + pstate" where
  "deliver v [] = Inr (PDone v)"
| "deliver v (FArr xs # st) = Inr (ExpCommaOrEnd (FArr (v # xs) # st))"
| "deliver v (FKey ms k # st) = Inr (ExpCommaOrEnd (FObj ((k, v) # ms) # st))"
| "deliver v (FObj ms # st) = Inl SyntaxError"

fun parse_value :: "frame list \<Rightarrow> token \<Rightarrow> error + pstate" where
  "parse_value st (TVal v) = deliver v st"
| "parse_value st (TStr s) = deliver (JStr s) st"
| "parse_value st TLBracket = Inr (ExpValueOrEnd (FArr [] # st))"
| "parse_value st TLBrace = Inr (ExpKeyOrEnd (FObj [] # st))"
| "parse_value st TRBrace = Inl SyntaxError"
| "parse_value st TRBracket = Inl SyntaxError"
| "parse_value st TComma = Inl SyntaxError"
| "parse_value st TColon = Inl SyntaxError"

fun parse_key :: "frame list \<Rightarrow> token \<Rightarrow> error + pstate" where
  "parse_key (FObj ms # st) (TStr k) = Inr (ExpColon (FKey ms k # st))"
| "parse_key st t = Inl SyntaxError"

fun parse_close :: "frame list \<Rightarrow> token \<Rightarrow> error + pstate" where
  "parse_close (FArr xs # st) TRBracket = deliver (JArr (rev xs)) st"
| "parse_close (FObj ms # st) TRBrace = deliver (JObj (rev ms)) st"
| "parse_close st t = Inl SyntaxError"

fun parse_step :: "pstate \<Rightarrow> token \<Rightarrow> error + pstate" where
  "parse_step (ExpValue st) t = parse_value st t"
| "parse_step (ExpValueOrEnd st) t =
     (if t = TRBracket then parse_close st t else parse_value st t)"
| "parse_step (ExpKeyOrEnd st) t =
     (if t = TRBrace then parse_close st t else parse_key st t)"
| "parse_step (ExpKey st) t = parse_key st t"
| "parse_step (ExpColon st) t = (if t = TColon then Inr (ExpValue st) else Inl SyntaxError)"
| "parse_step (ExpCommaOrEnd st) t =
     (if t = TComma then
        (case st of
           FArr xs # st' \<Rightarrow> Inr (ExpValue st)
         | FObj ms # st' \<Rightarrow> Inr (ExpKey st)
         | _ \<Rightarrow> Inl SyntaxError)
      else parse_close st t)"
| "parse_step (PDone v) t = Inl SyntaxError"

fun parse_run :: "pstate \<Rightarrow> token list \<Rightarrow> error + json" where
  "parse_run st [] = (case st of PDone v \<Rightarrow> Inr v | _ \<Rightarrow> Inl SyntaxError)"
| "parse_run st (t # ts) = bindE (parse_step st t) (\<lambda>st'. parse_run st' ts)"

text \<open>
  \<^verbatim>\<open>JSON.parse\<close>: the value the text denotes, or \<^verbatim>\<open>SyntaxError\<close>.
\<close>

definition JSON_parse :: "jsstring \<Rightarrow> error + json" where
  "JSON_parse s = bindE (lex_run LStart s) (parse_run (ExpValue []))"

subsection \<open>JSON.stringify of the share data\<close>

definition hexDigit :: "nat \<Rightarrow> nat" where
  "hexDigit n = (if n < 10 then 48 + n else 87 + n)"

text \<open>
  \<^verbatim>\<open>QuoteJSONString\<close> on strings without surrogate code units, which is what the digits
  of the lines and the names of the categories and methods are.
\<close>

definition quoteChar :: "nat \<Rightarrow> jsstring" where
  "quoteChar c =
     (if c = 8 then [92, 98]
      else if c = 9 then [92, 116]
      else if c = 10 then [92, 110]
      else if c = 12 then [92, 102]
      else if c = 13 then [92, 114]
      else if c = 34 then [92, 34]
      else if c = 92 then [92, 92]
      else if c < 32 then [92, 117, 48, 48, hexDigit (c div 16), hexDigit (c mod 16)]
      else [c])"

definition QuoteJSONString :: "jsstring \<Rightarrow> jsstring" where
  "QuoteJSONString s = [34] @ concat (map quoteChar s) @ [34]"

fun decimal :: "nat \<Rightarrow> jsstring" where
  "decimal n = (if n < 10 then [48 + n] else decimal (n div 10) @ [48 + n mod 10])"

text \<open>
  \<^verbatim>\<open>Number::toString\<close> of an integer, as it is below \<open>10 ^ 21\<close> in absolute value; the
  time values of dates are.
\<close>

definition NumberToString :: "int \<Rightarrow> jsstring" where
  "NumberToString n = (if n < 0 then 45 # decimal (nat (- n)) else decimal (nat n))"

text \<open>
  \<^verbatim>\<open>JSON.stringify\<close> of the object \<^verbatim>\<open>{y, t, q, m}\<close> with \<^verbatim>\<open>y\<close>, \<^verbatim>\<open>q\<close>, \<^verbatim>\<open>m\<close> strings and
  \<^verbatim>\<open>t\<close> a time value.
\<close>

definition JSON_stringify_data :: "jsstring \<Rightarrow> int \<Rightarrow> jsstring \<Rightarrow> jsstring \<Rightarrow> jsstring" where
  "JSON_stringify_data y t q m =
     ascii ''{'' @ QuoteJSONString (ascii ''y'') @ ascii '':'' @ QuoteJSONString y
     @ ascii '','' @ QuoteJSONString (ascii ''t'') @ ascii '':'' @ NumberToString t
     @ ascii '','' @ QuoteJSONString (ascii ''q'') @ ascii '':'' @ QuoteJSONString q
     @ ascii '','' @ QuoteJSONString (ascii ''m'') @ ascii '':'' @ QuoteJSONString m
     @ ascii ''}''"

subsection \<open>serializeResult\<close>

definition yaoDigit :: "YaoState \<Rightarrow> nat" where
  "yaoDigit y =
     (if ytype y = old_yang then 57
      else if ytype y = young_yang then 55
      else if ytype y = young_yin then 56
      else 54)"

fun categoryString :: "QuestionCategory \<Rightarrow> jsstring" where
  "categoryString career = ascii ''career''"
| "categoryString love = ascii ''love''"
| "categoryString wealth = ascii ''wealth''"
| "categoryString health = ascii ''health''"
| "categoryString study = ascii ''study''"
| "categoryString lawsuit = ascii ''lawsuit''"
| "categoryString travel = ascii ''travel''"
| "categoryString lost = ascii ''lost''"
| "categoryString other = ascii ''other''"

fun methodString :: "CastingMethod \<Rightarrow> jsstring" where
  "methodString coin = ascii ''coin''"
| "methodString by_time = ascii ''time''"
| "methodString manual = ascii ''manual''"

definition serializeResult :: "DivinationResult \<Rightarrow> error + jsstring" where
  "serializeResult result =
     btoa (JSON_stringify_data
             (map yaoDigit (yaoStates (input result)))
             (gregorian (time (input result)))
             (categoryString (questionCategory (input result)))
             (methodString (method' (input result))))"

subsection \<open>deserializeResult\<close>

text \<open>
  Reading one of the properties \<^verbatim>\<open>y\<close>, \<^verbatim>\<open>t\<close>, \<^verbatim>\<open>q\<close>, \<^verbatim>\<open>m\<close> of a parsed value: \<^verbatim>\<open>null\<close>
  raises \<^verbatim>\<open>TypeError\<close>; an object gives the value of the last member of that name, or
  \<^verbatim>\<open>undefined\<close> (here \<open>None\<close>); every other value gives \<^verbatim>\<open>undefined\<close>.
\<close>

fun getProp :: "json \<Rightarrow> jsstring \<Rightarrow> error + json option" where
  "getProp JNull k = Inl TypeError"
| "getProp (JObj ms) k = Inr (map_of (rev ms) k)"
| "getProp v k = Inr None"

text \<open>
  A number is zero when its digits are, or when it is at most \<open>2 ^ -1075\<close>, which
  rounds to zero.
\<close>

definition numIsZero :: "int \<Rightarrow> int \<Rightarrow> bool" where
  "numIsZero m e \<longleftrightarrow> m = 0 \<or> (e < 0 \<and> \<bar>m\<bar> * 2 ^ 1075 \<le> 10 ^ nat (- e))"

fun truthy :: "json option \<Rightarrow> bool" where
  "truthy None = False"
| "truthy (Some JNull) = False"
| "truthy (Some (JBool b)) = b"
| "truthy (Some (JNum m e)) = (\<not> numIsZero m e)"
| "truthy (Some (JStr s)) = (s \<noteq> [])"
| "truthy (Some (JArr xs)) = True"
| "truthy (Some (JObj ms)) = True"

text \<open>
  \<^verbatim>\<open>a || b\<close> with \<^verbatim>\<open>b\<close> a string.
\<close>

definition orElse :: "json option \<Rightarrow> jsstring \<Rightarrow> json" where
  "orElse v s = (case v of None \<Rightarrow> JStr s | Some x \<Rightarrow> if truthy v then x else JStr s)"

text \<open>
  A line as \<^verbatim>\<open>deserializeResult\<close> builds it. \<^verbatim>\<open>parseInt\<close> of one code unit is its digit,
  or \<^verbatim>\<open>NaN\<close>, here \<open>None\<close>.
\<close>

record DecodedYao =
  dy_yinYang :: YinYang
  dy_isMoving :: bool
  dy_type :: YaoType
  dy_coinResult :: "nat option"

definition parseInt1 :: "nat \<Rightarrow> nat option" where
  "parseInt1 c = (if isDigit c then Some (c - 48) else None)"

definition decodeYao :: "nat \<Rightarrow> DecodedYao" where
  "decodeYao c =
     (let num = parseInt1 c
      in \<lparr>dy_yinYang = (if num = Some 7 \<or> num = Some 9 then Yang else Yin),
          dy_isMoving = (num = Some 6 \<or> num = Some 9),
          dy_type = (if num = Some 9 then old_yang
                     else if num = Some 7 then young_yang
                     else if num = Some 8 then young_yin
                     else old_yin),
          dy_coinResult = num\<rparr>)"

text \<open>
  \<^verbatim>\<open>createCastingTime(new Date(data.t))\<close>. An integer within \<open>8.64 * 10 ^ 15\<close> of the epoch
  is a date; \<^verbatim>\<open>null\<close> and \<^verbatim>\<open>false\<close> are the epoch and \<^verbatim>\<open>true\<close> is one millisecond
  after it; \<^verbatim>\<open>undefined\<close> and an integer out of range give the invalid date, around which
  \<^verbatim>\<open>createCastingTime\<close> builds pillars of \<^verbatim>\<open>undefined\<close> without raising. The date of a
  number with a fraction, of a string, of an array or of an object is left open here
  (\<open>AtDateOf\<close>): it is read by the host's date parser, which raises nothing either.
\<close>

datatype DecodedTime =
    AtDate CastingTime
  | AtInvalidDate
  | AtDateOf json

definition timeClip :: "int \<Rightarrow> Env \<Rightarrow> int \<Rightarrow> DecodedTime" where
  "timeClip tz env t =
     (if \<bar>t\<bar> \<le> 8640000000000000 then AtDate (createCastingTime tz env t) else AtInvalidDate)"

fun decodeTime :: "int \<Rightarrow> Env \<Rightarrow> json option \<Rightarrow> DecodedTime" where
  "decodeTime tz env None = AtInvalidDate"
| "decodeTime tz env (Some JNull) = timeClip tz env 0"
| "decodeTime tz env (Some (JBool b)) = timeClip tz env (if b then 1 else 0)"
| "decodeTime tz env (Some (JNum m e)) =
     (if e \<ge> 0 then timeClip tz env (m * 10 ^ nat e)
      else if m mod 10 ^ nat (- e) = 0 then timeClip tz env (m div 10 ^ nat (- e))
      else AtDateOf (JNum m e))"
| "decodeTime tz env (Some (JStr s)) = AtDateOf (JStr s)"
| "decodeTime tz env (Some (JArr xs)) = AtDateOf (JArr xs)"
| "decodeTime tz env (Some (JObj ms)) = AtDateOf (JObj ms)"

text \<open>
  The object \<^verbatim>\<open>deserializeResult\<close> returns. It is typed \<^verbatim>\<open>CastingInput\<close>, and holds what
  the decoded text held: any number of lines, and for the method and the category any
  JSON value that is not falsy.
\<close>

record DecodedInput =
  d_method :: json
  d_yaoStates :: "DecodedYao list"
  d_time :: DecodedTime
  d_questionCategory :: json

text \<open>
  The body of the \<^verbatim>\<open>try\<close> block. \<^verbatim>\<open>data.y.split\<close> raises \<^verbatim>\<open>TypeError\<close> unless \<^verbatim>\<open>data.y\<close>
  is a string.
\<close>

definition deserializeResult_try :: "int \<Rightarrow> Env \<Rightarrow> jsstring \<Rightarrow> error + DecodedInput" where
  "deserializeResult_try tz env encoded =
     bindE (atob encoded) (\<lambda>decoded.
     bindE (JSON_parse decoded) (\<lambda>parsed.
     bindE (getProp parsed (ascii ''y'')) (\<lambda>y.
     bindE (case y of Some (JStr s) \<Rightarrow> Inr s | _ \<Rightarrow> Inl TypeError) (\<lambda>chars.
       let yaoStates' = map decodeYao chars
       in bindE (getProp parsed (ascii ''m'')) (\<lambda>m.
          bindE (getProp parsed (ascii ''t'')) (\<lambda>t.
          bindE (getProp parsed (ascii ''q'')) (\<lambda>q.
            Inr \<lparr>d_method = orElse m (ascii ''coin''),
                 d_yaoStates = yaoStates',
                 d_time = decodeTime tz env t,
                 d_questionCategory = orElse q (ascii ''other'')\<rparr>)))))))"

text \<open>
  \<^verbatim>\<open>deserializeResult\<close>: whatever the \<^verbatim>\<open>try\<close> block raises is caught, and \<^verbatim>\<open>null\<close> (here
  \<open>None\<close>) is returned.
\<close>

definition deserializeResult :: "int \<Rightarrow> Env \<Rightarrow> jsstring \<Rightarrow> DecodedInput option" where
  "deserializeResult tz env encoded =
     (case deserializeResult_try tz env encoded of Inl e \<Rightarrow> None | Inr d \<Rightarrow> Some d)"



section \<open>Properties\<close>

subsection \<open>Arrays and remainders\<close>

lemma indexOf_nonneg_iff: "0 \<le> indexOf xs x \<longleftrightarrow> x \<in> set xs"
  by (induction xs) (auto simp: Let_def)

lemma indexOf_nth_distinct:
  "distinct xs \<Longrightarrow> i < length xs \<Longrightarrow> indexOf xs (xs ! i) = int i"
proof (induction xs arbitrary: i)
  case Nil
  then show ?case by simp
next
  case (Cons y ys)
  show ?case
  proof (cases i)
    case 0
    then show ?thesis by simp
  next
    case (Suc j)
    with Cons.prems have j: "j < length ys" and d: "distinct ys" and ny: "y \<notin> set ys" by auto
    have "ys ! j \<in> set ys" using j by simp
    with ny have ne: "y \<noteq> ys ! j" by auto
    have "indexOf ys (ys ! j) = int j" using Cons.IH [OF d j] .
    with ne Suc show ?thesis by (simp add: Let_def)
  qed
qed

lemma TIAN_GAN_nth_index: "g < 10 \<Longrightarrow> indexOf TIAN_GAN (TIAN_GAN ! g) = int g"
  by (rule indexOf_nth_distinct) (simp_all add: TIAN_GAN_def)

lemma DI_ZHI_nth_index: "z < 12 \<Longrightarrow> indexOf DI_ZHI (DI_ZHI ! z) = int z"
  by (rule indexOf_nth_distinct) (simp_all add: DI_ZHI_def)

lemma indexOf_TIAN_GAN_range: "0 \<le> indexOf TIAN_GAN g \<and> indexOf TIAN_GAN g < 10"
  by (cases g) (simp_all add: TIAN_GAN_def)

lemma indexOf_DI_ZHI_range: "0 \<le> indexOf DI_ZHI z \<and> indexOf DI_ZHI z < 12"
  by (cases z) (simp_all add: DI_ZHI_def)

lemma js_rem_nonneg: "0 \<le> a \<Longrightarrow> 0 < b \<Longrightarrow> js_rem a b = a mod b"
  by (simp add: js_rem_def)

lemma js_rem_normalise:
  assumes "0 < b"
  shows "js_rem (js_rem a b + b) b = a mod b"
proof (cases "a < 0")
  case False
  then have "js_rem a b = a mod b" using assms by (simp add: js_rem_def)
  moreover have "0 \<le> a mod b + b" using assms
    by (meson add_nonneg_nonneg less_imp_le pos_mod_sign)
  ultimately show ?thesis using assms by (simp add: js_rem_def)
next
  case True
  have r: "js_rem a b = - ((- a) mod b)" using True assms by (simp add: js_rem_def)
  have lt: "(- a) mod b < b" using assms by simp
  have "0 \<le> js_rem a b + b" using r lt by simp
  then have "js_rem (js_rem a b + b) b = (js_rem a b + b) mod b"
    using assms by (simp add: js_rem_def)
  also have "\<dots> = (- ((- a) mod b)) mod b" using r by simp
  also have "\<dots> = (- (- a)) mod b" by (simp add: mod_minus_eq)
  finally show ?thesis by simp
qed

subsection \<open>Void branches\<close>

text \<open>
  C6. For every day stem index \<open>g\<close> (0 to 9) and day branch index \<open>z\<close> (0 to 11),
  \<^verbatim>\<open>getVoidBranches\<close> returns exactly the branches at indices
  \<open>((z - g) mod 12 + 10) mod 12\<close> and \<open>((z - g) mod 12 + 11) mod 12\<close> of
  \<^verbatim>\<open>DI_ZHI\<close>, both within the array; the second index
  is the first plus one modulo 12, so the pair is cyclically adjacent; and for the stem
  Jia with the branch Zi the pair is Xu, Hai.
\<close>

theorem getVoidBranches_spec:
  assumes "g < 10" and "z < 12"
  shows "getVoidBranches (TIAN_GAN ! g) (DI_ZHI ! z) =
           (DI_ZHI ! nat (((int z - int g) mod 12 + 10) mod 12),
            DI_ZHI ! nat (((int z - int g) mod 12 + 11) mod 12))
         \<and> nat (((int z - int g) mod 12 + 10) mod 12) < length DI_ZHI
         \<and> nat (((int z - int g) mod 12 + 11) mod 12) < length DI_ZHI
         \<and> ((int z - int g) mod 12 + 11) mod 12
             = ((((int z - int g) mod 12 + 10) mod 12) + 1) mod 12
         \<and> getVoidBranches G_Jia Z_Zi = (Z_Xu, Z_Hai)"
proof -
  define x where "x = (int z - int g) mod 12"
  have x: "0 \<le> x" "x < 12" by (simp_all add: x_def)
  have start: "js_rem (js_rem (int z - int g) 12 + 12) 12 = x"
    unfolding x_def by (rule js_rem_normalise) simp
  have v1: "js_rem (x + 10) 12 = (x + 10) mod 12" using x by (simp add: js_rem_def)
  have v2: "js_rem (x + 11) 12 = (x + 11) mod 12" using x by (simp add: js_rem_def)
  have len: "length DI_ZHI = 12" by (simp add: DI_ZHI_def)
  have n1: "nat ((x + 10) mod 12) < length DI_ZHI" unfolding len by simp
  have n2: "nat ((x + 11) mod 12) < length DI_ZHI" unfolding len by simp
  have ig: "indexOf TIAN_GAN (TIAN_GAN ! g) = int g" using assms by (simp add: TIAN_GAN_nth_index)
  have iz: "indexOf DI_ZHI (DI_ZHI ! z) = int z" using assms by (simp add: DI_ZHI_nth_index)
  have main: "getVoidBranches (TIAN_GAN ! g) (DI_ZHI ! z) =
           (DI_ZHI ! nat ((x + 10) mod 12), DI_ZHI ! nat ((x + 11) mod 12))"
    unfolding getVoidBranches_def Let_def ig iz start v1 v2 ..
  have adj: "(x + 11) mod 12 = ((x + 10) mod 12 + 1) mod 12"
    by presburger
  have jz: "getVoidBranches G_Jia Z_Zi = (Z_Xu, Z_Hai)"
    by code_simp
  show ?thesis using main n1 n2 adj jz unfolding x_def by blast
qed

theorem getVoidBranches_spec_witness:
  "(3::nat) < 10 \<and> (1::nat) < 12 \<and> getVoidBranches G_Ding Z_Chou = (Z_Shen, Z_You)"
proof -
  have a: "TIAN_GAN ! 3 = G_Ding" by (simp add: TIAN_GAN_def)
  have b: "DI_ZHI ! 1 = Z_Chou" by (simp add: DI_ZHI_def)
  have c: "DI_ZHI ! nat (((int 1 - int 3) mod 12 + 10) mod 12) = Z_Shen" by (simp add: DI_ZHI_def)
  have d: "DI_ZHI ! nat (((int 1 - int 3) mod 12 + 11) mod 12) = Z_You" by (simp add: DI_ZHI_def)
  from getVoidBranches_spec [of 3 1] show ?thesis unfolding a b c d by simp
qed

subsection \<open>The hexagram table\<close>




lemma GUA_64_DATA_keys: "set (map fst GUA_64_DATA) = set (List.n_lists 6 ''01'')"
  by code_simp





text \<open>
  C1. On the six lines yin, yin, yin, yang, yang, yang (bottom to top, bottom line
  active) the source does not return the hexagram named U+5929 U+5730 U+5426 that the
  claim and the repository's own test expect: the key it builds is \<open>000111\<close>, and the table
  has the hexagram U+5730 U+5929 U+6CF0 under that key. The changed hexagram is the row
  under \<open>100111\<close>, which is what resolving the lines with position 1 flipped gives.
\<close>

theorem getGuaFromYaoStates_testCase3:
  "map_sum id name (getGuaFromYaoStates testCase3_yaoStates) = Inr [0x5730, 0x5929, 0x6CF0]
   \<and> map_sum id name (getGuaFromYaoStates testCase3_yaoStates) \<noteq> Inr [0x5929, 0x5730, 0x5426]
   \<and> getChangedGua testCase3_yaoStates
       = map_sum id Some (getGuaFromYaoStates
           ((testCase3_yaoStates ! 0)\<lparr>yinYang := Yang\<rparr> # tl testCase3_yaoStates))
   \<and> map_sum id (map_option name) (getChangedGua testCase3_yaoStates)
       = Inr (Some [0x5C71, 0x5929, 0x5927, 0x755C])"
  by code_simp

subsection \<open>Casting by time\<close>

lemma civil_day_bound: "(153 * ((5 * doy + 2) div 153) + 2) div 5 \<le> (doy :: int)"
proof -
  have "0 \<le> (5 * doy + 2) mod 153" by simp
  moreover have "5 * doy + 2 = 153 * ((5 * doy + 2) div 153) + (5 * doy + 2) mod 153"
    by simp
  ultimately have "153 * ((5 * doy + 2) div 153) \<le> 5 * doy + 2" by linarith
  then have "153 * ((5 * doy + 2) div 153) + 2 \<le> 5 * doy + 4" by simp
  then have "(153 * ((5 * doy + 2) div 153) + 2) div 5 \<le> (5 * doy + 4) div 5"
    by (rule zdiv_mono1) simp
  also have "\<dots> = doy" by simp
  finally show ?thesis .
qed

lemma one_le_diff_succ: "b \<le> a \<Longrightarrow> 1 \<le> a - b + (1 :: int)"
  by simp

lemma civil_from_days_day_pos: "1 \<le> snd (snd (civil_from_days z))"
  unfolding civil_from_days_def Let_def snd_conv
  by (rule one_le_diff_succ) (rule civil_day_bound)

lemma getDate_pos: "1 \<le> getDate tz t"
  using civil_from_days_day_pos [of "localDay tz t"]
  by (simp add: getDate_def split_beta)

lemma getDiZhiIndex_nonneg: "0 \<le> getDiZhiIndex z"
  using indexOf_DI_ZHI_range [of z] by (simp add: getDiZhiIndex_def)

lemma numToBaGua_defined:
  assumes "0 \<le> x"
  shows "\<exists>g. numToBaGua (js_rem x 8 + 1) = Some g"
proof -
  have "js_rem x 8 = x mod 8" using assms by (simp add: js_rem_def)
  moreover have "0 \<le> x mod 8" "x mod 8 < 8" by simp_all
  ultimately have "js_rem x 8 = 0 \<or> js_rem x 8 = 1 \<or> js_rem x 8 = 2 \<or> js_rem x 8 = 3
      \<or> js_rem x 8 = 4 \<or> js_rem x 8 = 5 \<or> js_rem x 8 = 6 \<or> js_rem x 8 = 7"
    by arith
  then show ?thesis by (auto simp: numToBaGua_def)
qed

lemma one_active_of_position:
  assumes "1 \<le> p" and "p \<le> 6"
    and "map isMoving ys = map (\<lambda>i. i + 1 = p) [0, 1, 2, 3, 4, 5 :: int]"
  shows "length (filter isMoving ys) = 1"
proof -
  have "length (filter isMoving ys) = length (filter (\<lambda>b. b) (map isMoving ys))"
    by (simp add: filter_map comp_def)
  also have "\<dots> = length (filter (\<lambda>b. b) (map (\<lambda>i. i + 1 = p) [0, 1, 2, 3, 4, 5 :: int]))"
    using assms(3) by simp
  also have "\<dots> = 1"
  proof -
    from assms(1,2) have "p = 1 \<or> p = 2 \<or> p = 3 \<or> p = 4 \<or> p = 5 \<or> p = 6" by arith
    then show ?thesis by auto
  qed
  finally show ?thesis .
qed

text \<open>
  C10. For every timestamp \<^verbatim>\<open>castByTime\<close> returns six line states; with \<open>p\<close> the
  position \<open>((yearNum + monthNum + dayOfMonth + hourNum - 1) mod 6) + 1\<close>, where the three
  branch numbers are the branch indices of the year, month and hour pillars plus one, the
  line at position \<open>p\<close> is active and no other is, so exactly one line is active.
\<close>

theorem castByTime_one_active:
  "let ganZhi = getGanZhiTime tz date;
       yearNum = getDiZhiIndex (zhi (year ganZhi)) + 1;
       monthNum = getDiZhiIndex (zhi (month ganZhi)) + 1;
       hourNum = getDiZhiIndex (zhi (hour ganZhi)) + 1;
       p = ((yearNum + monthNum + getDate tz date + hourNum - 1) mod 6) + 1
   in \<exists>ys. castByTime tz date = Inr ys
        \<and> length ys = 6
        \<and> map isMoving ys = map (\<lambda>i. i + 1 = p) [0, 1, 2, 3, 4, 5]
        \<and> length (filter isMoving ys) = 1
        \<and> 1 \<le> p \<and> p \<le> 6"
proof -
  define ganZhi where "ganZhi = getGanZhiTime tz date"
  define yearNum where "yearNum = getDiZhiIndex (zhi (year ganZhi)) + 1"
  define monthNum where "monthNum = getDiZhiIndex (zhi (month ganZhi)) + 1"
  define hourNum where "hourNum = getDiZhiIndex (zhi (hour ganZhi)) + 1"
  define dayNum where "dayNum = getDate tz date"
  define upperSum where "upperSum = yearNum + monthNum + dayNum"
  define lowerSum where "lowerSum = upperSum + hourNum"
  define p where "p = ((yearNum + monthNum + dayNum + hourNum - 1) mod 6) + 1"
  have pos: "1 \<le> yearNum" "1 \<le> monthNum" "1 \<le> hourNum" "1 \<le> dayNum"
    using getDiZhiIndex_nonneg getDate_pos
    by (simp_all add: yearNum_def monthNum_def hourNum_def dayNum_def)
  have up: "0 \<le> upperSum - 1" and lo: "0 \<le> lowerSum - 1"
    using pos by (simp_all add: upperSum_def lowerSum_def)
  obtain ug where ug: "numToBaGua (js_rem (upperSum - 1) 8 + 1) = Some ug"
    using numToBaGua_defined [OF up] by blast
  obtain lg where lg: "numToBaGua (js_rem (lowerSum - 1) 8 + 1) = Some lg"
    using numToBaGua_defined [OF lo] by blast
  have mp: "js_rem (lowerSum - 1) 6 + 1 = p"
    using lo by (simp add: js_rem_def p_def lowerSum_def upperSum_def)
  have prange: "1 \<le> p" "p \<le> 6"
    by (simp_all add: p_def)
  define ys where "ys = map (timeYao (BA_GUA_binary lg @ BA_GUA_binary ug) p) [0, 1, 2, 3, 4, 5]"
  have res: "castByTime tz date = Inr ys"
    unfolding castByTime_def Let_def
    unfolding ganZhi_def [symmetric]
    unfolding yearNum_def [symmetric] monthNum_def [symmetric] hourNum_def [symmetric]
      dayNum_def [symmetric]
    unfolding upperSum_def [symmetric]
    unfolding lowerSum_def [symmetric]
    unfolding ug lg mp ys_def by simp
  have len: "length ys = 6" by (simp add: ys_def)
  have mov: "map isMoving ys = map (\<lambda>i. i + 1 = p) [0, 1, 2, 3, 4, 5]"
    by (simp add: ys_def timeYao_def Let_def)
  have one: "length (filter isMoving ys) = 1"
    using prange mov by (rule one_active_of_position)
  have "\<exists>ys. castByTime tz date = Inr ys
        \<and> length ys = 6
        \<and> map isMoving ys = map (\<lambda>i. i + 1 = p) [0, 1, 2, 3, 4, 5]
        \<and> length (filter isMoving ys) = 1
        \<and> 1 \<le> p \<and> p \<le> 6"
    using res len mov one prange by blast
  then show ?thesis
    unfolding Let_def p_def yearNum_def monthNum_def hourNum_def dayNum_def ganZhi_def .
qed

subsection \<open>Triad unions\<close>

lemma checkThreeHarmony_loop_not_complete:
  "length zhis \<noteq> 3 \<Longrightarrow> \<not> isComplete (checkThreeHarmony_loop entries zhis)"
  by (induction entries zhis rule: checkThreeHarmony_loop.induct) (simp_all add: Let_def)

lemma checkThreeHarmony_six_not_complete:
  "length zhis = 6 \<Longrightarrow> \<not> isComplete (checkThreeHarmony zhis)"
  by (simp add: checkThreeHarmony_def checkThreeHarmony_loop_not_complete)

text \<open>
  C3. The six branches of the pure hexagram of Qian (Zi, Yin, Chen, Wu, Shen, Xu) hold
  all three members of the first triad Shen, Zi, Chen, and of the second as well; the
  detector reports no complete union there, only the first triad as a partial one. The
  test for a complete union is guarded by \<^verbatim>\<open>zhis.length === 3\<close> and never runs on six
  lines.
\<close>

theorem checkThreeHarmony_Qian:
  "checkThreeHarmony (NA_JIA_DI_ZHI Qian) = \<lparr>isComplete = False, th_wuXing = Some Shui\<rparr>
   \<and> set [Z_Shen, Z_Zi, Z_Chen] \<subseteq> set (NA_JIA_DI_ZHI Qian)"
  by code_simp

subsection \<open>Sequencing\<close>

lemma bindE_Inr_iff: "bindE m f = Inr y \<longleftrightarrow> (\<exists>x. m = Inr x \<and> f x = Inr y)"
  by (cases m) (simp_all add: bindE_def)

lemma bindE_Inr [simp]: "bindE (Inr x) f = f x"
  by (simp add: bindE_def)

lemma bindE_Inl [simp]: "bindE (Inl e) f = Inl e"
  by (simp add: bindE_def)

lemma mapE_Inr_length: "mapE f xs = Inr ys \<Longrightarrow> length ys = length xs"
  by (induction xs arbitrary: ys) (auto simp: bindE_Inr_iff)

lemma mapE_Inr_nth:
  "mapE f xs = Inr ys \<Longrightarrow> i < length xs \<Longrightarrow> f (xs ! i) = Inr (ys ! i)"
proof (induction xs arbitrary: ys i)
  case Nil
  then show ?case by simp
next
  case (Cons x xs)
  from Cons.prems(1) obtain y ys' where y: "f x = Inr y" and ys': "mapE f xs = Inr ys'"
    and ys: "ys = y # ys'"
    by (auto simp: bindE_Inr_iff)
  show ?case
  proof (cases i)
    case 0
    with y ys show ?thesis by simp
  next
    case (Suc j)
    with Cons.prems(2) have "j < length xs" by simp
    from Cons.IH [OF ys' this] Suc ys show ?thesis by simp
  qed
qed

lemma mapE_Inr_map:
  assumes "mapE f xs = Inr ys" and "\<And>x y. x \<in> set xs \<Longrightarrow> f x = Inr y \<Longrightarrow> g y = h x"
  shows "map g ys = map h xs"
proof (rule nth_equalityI)
  show "length (map g ys) = length (map h xs)"
    using mapE_Inr_length [OF assms(1)] by simp
next
  fix i assume "i < length (map g ys)"
  then have i: "i < length xs" using mapE_Inr_length [OF assms(1)] by simp
  then have "f (xs ! i) = Inr (ys ! i)" using mapE_Inr_nth [OF assms(1)] by simp
  moreover have "xs ! i \<in> set xs" using i by simp
  ultimately have "g (ys ! i) = h (xs ! i)" using assms(2) by blast
  then show "map g ys ! i = map h xs ! i"
    using i mapE_Inr_length [OF assms(1)] by simp
qed

lemma mapE_succeeds:
  assumes "\<And>x. x \<in> set xs \<Longrightarrow> \<exists>y. f x = Inr y"
  shows "\<exists>ys. mapE f xs = Inr ys"
  using assms
proof (induction xs)
  case Nil
  then show ?case by simp
next
  case (Cons x xs)
  then obtain y where "f x = Inr y" by auto
  moreover from Cons obtain ys where "mapE f xs = Inr ys" by auto
  ultimately show ?case by simp
qed

lemma enumerate0_length [simp]: "length (enumerate0 xs) = length xs"
  by (simp add: enumerate0_def)

lemma enumerate0_map_snd [simp]: "map snd (enumerate0 xs) = xs"
  by (simp add: enumerate0_def)

lemma enumerate0_map_fst: "map fst (enumerate0 xs) = map int [0..<length xs]"
  by (simp add: enumerate0_def)

lemma enumerate0_nth: "i < length xs \<Longrightarrow> enumerate0 xs ! i = (int i, xs ! i)"
  by (simp add: enumerate0_def)

lemma enumerate0_snd_in_set: "p \<in> set (enumerate0 xs) \<Longrightarrow> snd p \<in> set xs"
  by (cases p) (auto simp: enumerate0_def dest: set_zip_rightD)

lemma map_snd_zip_same: "length as = length xs \<Longrightarrow> map (\<lambda>p. g (snd p)) (zip as xs) = map g xs"
  by (induction as xs rule: list_induct2) simp_all

lemma map_enumerate0_snd: "map (\<lambda>p. g (snd p)) (enumerate0 xs) = map g xs"
  unfolding enumerate0_def by (rule map_snd_zip_same) simp

subsection \<open>What the stages keep of a line\<close>

lemma installYao_flags:
  assumes "installYao guaInfo nj p = Inr y"
  shows "isMoving y = isMoving (snd p)"
    and "(changedYao y \<noteq> None) = isMoving (snd p)"
    and "position y = fst p + 1"
    and "isWorld y = (fst p + 1 = worldPosition guaInfo)"
    and "isResponse y = (fst p + 1 = responsePosition guaInfo)"
  using assms
  by (cases p; auto simp: installYao_def Let_def bindE_Inr_iff YaoState.defs YaoInfo.defs
      split: if_splits)+

lemma map_fst_enumerate0: "map (\<lambda>p. g (fst p)) (enumerate0 xs) = map (\<lambda>i. g (int i)) [0..<length xs]"
proof -
  have "map (\<lambda>p. g (fst p)) (enumerate0 xs) = map g (map fst (enumerate0 xs))"
    by (simp add: comp_def)
  then show ?thesis by (simp add: enumerate0_map_fst comp_def)
qed

lemma installHexagram_flags:
  assumes "installHexagram yaoStates' guaInfo = Inr installed"
  shows "map isMoving installed = map isMoving yaoStates'"
    and "map (\<lambda>y. changedYao y \<noteq> None) installed = map isMoving yaoStates'"
    and "map position installed = map (\<lambda>i. int i + 1) [0..<length yaoStates']"
    and "map isWorld installed = map (\<lambda>i. int i + 1 = worldPosition guaInfo) [0..<length yaoStates']"
    and "map isResponse installed
         = map (\<lambda>i. int i + 1 = responsePosition guaInfo) [0..<length yaoStates']"
proof -
  let ?nj = "getFullNaJiaDiZhi (lowerGua guaInfo) (upperGua guaInfo)"
  have m: "mapE (installYao guaInfo ?nj) (enumerate0 yaoStates') = Inr installed"
    using assms by (simp add: installHexagram_def)
  have "map isMoving installed = map (\<lambda>p. isMoving (snd p)) (enumerate0 yaoStates')"
    by (rule mapE_Inr_map [OF m]) (rule installYao_flags)
  then show "map isMoving installed = map isMoving yaoStates'"
    by (simp only: map_enumerate0_snd)
  have "map (\<lambda>y. changedYao y \<noteq> None) installed
        = map (\<lambda>p. isMoving (snd p)) (enumerate0 yaoStates')"
    by (rule mapE_Inr_map [OF m]) (rule installYao_flags)
  then show "map (\<lambda>y. changedYao y \<noteq> None) installed = map isMoving yaoStates'"
    by (simp only: map_enumerate0_snd)
  have "map position installed = map (\<lambda>p. fst p + 1) (enumerate0 yaoStates')"
    by (rule mapE_Inr_map [OF m]) (rule installYao_flags)
  then show "map position installed = map (\<lambda>i. int i + 1) [0..<length yaoStates']"
    using map_fst_enumerate0 [of "\<lambda>i. i + 1" yaoStates'] by simp
  have "map isWorld installed
        = map (\<lambda>p. fst p + 1 = worldPosition guaInfo) (enumerate0 yaoStates')"
    by (rule mapE_Inr_map [OF m]) (rule installYao_flags)
  then show "map isWorld installed
      = map (\<lambda>i. int i + 1 = worldPosition guaInfo) [0..<length yaoStates']"
    using map_fst_enumerate0 [of "\<lambda>i. i + 1 = worldPosition guaInfo" yaoStates'] by simp
  have "map isResponse installed
        = map (\<lambda>p. fst p + 1 = responsePosition guaInfo) (enumerate0 yaoStates')"
    by (rule mapE_Inr_map [OF m]) (rule installYao_flags)
  then show "map isResponse installed
      = map (\<lambda>i. int i + 1 = responsePosition guaInfo) [0..<length yaoStates']"
    using map_fst_enumerate0 [of "\<lambda>i. i + 1 = responsePosition guaInfo" yaoStates'] by simp
qed

lemma installLiuShen_keeps:
  "map isMoving (installLiuShen ys g) = map isMoving ys"
  "map changedYao (installLiuShen ys g) = map changedYao ys"
  "map position (installLiuShen ys g) = map position ys"
  "map isWorld (installLiuShen ys g) = map isWorld ys"
  "map isResponse (installLiuShen ys g) = map isResponse ys"
  "map diZhi (installLiuShen ys g) = map diZhi ys"
  "map liuQin (installLiuShen ys g) = map liuQin ys"
  by (simp_all add: installLiuShen_def Let_def case_prod_unfold comp_def map_enumerate0_snd)

lemma analyzeAllProsperity_keeps:
  "map isMoving (analyzeAllProsperity ys gz) = map isMoving ys"
  "map changedYao (analyzeAllProsperity ys gz) = map changedYao ys"
  "map position (analyzeAllProsperity ys gz) = map position ys"
  "map isWorld (analyzeAllProsperity ys gz) = map isWorld ys"
  "map isResponse (analyzeAllProsperity ys gz) = map isResponse ys"
  "map diZhi (analyzeAllProsperity ys gz) = map diZhi ys"
  "map liuQin (analyzeAllProsperity ys gz) = map liuQin ys"
  by (simp_all add: analyzeAllProsperity_def Let_def)

lemma getChangedYaoInfos_keeps:
  "map isMoving (getChangedYaoInfos ys cg) = map isMoving ys"
  "map changedYao (getChangedYaoInfos ys cg) = map (\<lambda>y. None) ys"
  using map_enumerate0_snd [of "\<lambda>y. None" ys]
  by (simp_all add: getChangedYaoInfos_def Let_def case_prod_unfold comp_def map_enumerate0_snd)

subsection \<open>The shape of a casting result\<close>

text \<open>
  When \<^verbatim>\<open>castHexagram\<close> returns, every stage has returned, and the result holds what the
  stages computed.
\<close>

lemma bindE_InrE:
  assumes "bindE m f = Inr y"
  obtains x where "m = Inr x" and "f x = Inr y"
  using assms by (auto simp: bindE_Inr_iff)

lemma castHexagram_InrD:
  assumes "castHexagram tz env inp = Inr r"
  shows "\<exists>gua installed cg mg ysn itp.
      getGuaFromYaoStates (yaoStates inp) = Inr gua
    \<and> installHexagram (yaoStates inp) gua = Inr installed
    \<and> (if length (getMovingPositions (yaoStates inp)) > 0 then getChangedGua (yaoStates inp)
        else Inr None) = Inr cg
    \<and> getMutualGua (yaoStates inp) = Inr mg
    \<and> selectYongShen (primaryYao r)
          (getQuestionSubType (questionCategory inp) (subType inp) (gender inp)) = Inr ysn
    \<and> generateInterpretation tz (now env) (primaryYao r) (changedYaoList r) gua cg
          (ganZhiTime r) ysn (relations r) (questionCategory inp) = Inr itp
    \<and> ganZhiTime r = getGanZhiTime tz (gregorian (time inp))
    \<and> primaryGua r = gua
    \<and> primaryYao r
        = analyzeAllProsperity (installLiuShen installed (gan (day (ganZhiTime r)))) (ganZhiTime r)
    \<and> changedGua r = cg
    \<and> changedYaoList r
        = (case cg of None \<Rightarrow> None
           | Some c \<Rightarrow> Some (analyzeAllProsperity (getChangedYaoInfos (primaryYao r) c)
                              (ganZhiTime r)))
    \<and> relations r = analyzeRelations (primaryYao r) (ganZhiTime r)
    \<and> yongShen r = ysn
    \<and> r_interpretation r = itp
    \<and> r_id r = newId env \<and> createdAt r = now env \<and> input r = inp"
  using assms unfolding castHexagram_def Let_def
  apply (elim bindE_InrE)
  apply (clarsimp split del: if_split simp del: length_greater_0_conv cong: option.case_cong)
  done
subsection \<open>Every six-line casting returns a result\<close>

lemma js_find_None_iff: "js_find P xs = None \<longleftrightarrow> (\<forall>x \<in> set xs. \<not> P x)"
  by (induction xs) auto

lemma js_find_SomeD: "js_find P xs = Some x \<Longrightarrow> x \<in> set xs \<and> P x"
  by (induction xs) (auto split: if_splits)

lemma js_find_exists: "x \<in> set xs \<Longrightarrow> P x \<Longrightarrow> \<exists>y. js_find P xs = Some y"
  using js_find_None_iff [of P xs] by (cases "js_find P xs") auto

lemma binary_key_found:
  assumes "length b = 6" and "set b \<subseteq> {CHR ''0'', CHR ''1''}"
  shows "\<exists>d. map_of GUA_64_DATA b = Some d \<and> (b, d) \<in> set GUA_64_DATA"
proof -
  have "b \<in> set (List.n_lists 6 ''01'')"
    using assms unfolding set_n_lists by auto
  then have "b \<in> set (map fst GUA_64_DATA)" by (simp only: GUA_64_DATA_keys)
  then have "b \<in> fst ` set GUA_64_DATA" by simp
  then obtain d where "map_of GUA_64_DATA b = Some d"
    by (metis map_of_eq_None_iff not_Some_eq)
  then show ?thesis by (blast dest: map_of_SomeD)
qed

lemma yaoBinary_bits: "length (yaoBinary ys) = length ys \<and> set (yaoBinary ys) \<subseteq> {CHR ''0'', CHR ''1''}"
  by (auto simp: yaoBinary_def)

lemma withBinary_fields [simp]:
  "binary (withBinary d k) = k"
  "worldPosition (withBinary d k) = worldPosition d"
  "responsePosition (withBinary d k) = responsePosition d"
  "lowerGua (withBinary d k) = lowerGua d"
  "upperGua (withBinary d k) = upperGua d"
  "g_wuXing (withBinary d k) = g_wuXing d"
  "name (withBinary d k) = name d"
  by (simp_all add: withBinary_def GuaData.defs GuaInfo.defs)

lemma getGuaFromYaoStates_six:
  assumes "length ys = 6"
  shows "\<exists>d. (yaoBinary ys, d) \<in> set GUA_64_DATA
             \<and> getGuaFromYaoStates ys = Inr (withBinary d (yaoBinary ys))"
proof -
  from binary_key_found [of "yaoBinary ys"] yaoBinary_bits [of ys] assms
  obtain d where "map_of GUA_64_DATA (yaoBinary ys) = Some d"
    and "(yaoBinary ys, d) \<in> set GUA_64_DATA" by auto
  then show ?thesis by (auto simp: getGuaFromYaoStates_def)
qed

lemma getGuaFromYaoStates_InrD:
  assumes "getGuaFromYaoStates ys = Inr gua"
  shows "\<exists>d. (yaoBinary ys, d) \<in> set GUA_64_DATA \<and> gua = withBinary d (yaoBinary ys)"
  using assms
  by (auto simp: getGuaFromYaoStates_def Let_def split: option.splits dest: map_of_SomeD)

lemma GUA_64_DATA_key_length: "(k, d) \<in> set GUA_64_DATA \<Longrightarrow> length k = 6 \<and> set k \<subseteq> {CHR ''0'', CHR ''1''}"
proof -
  assume "(k, d) \<in> set GUA_64_DATA"
  then have "k \<in> set (map fst GUA_64_DATA)" by force
  then have "k \<in> set (List.n_lists 6 ''01'')" by (simp only: GUA_64_DATA_keys)
  then show ?thesis unfolding set_n_lists by auto
qed

lemma getGuaFromYaoStates_Inr_length:
  "getGuaFromYaoStates ys = Inr gua \<Longrightarrow> length ys = 6"
  using getGuaFromYaoStates_InrD [of ys gua] GUA_64_DATA_key_length yaoBinary_bits [of ys]
  by metis

lemma GUA_64_DATA_positions_all:
  "list_all (\<lambda>(k, d). 1 \<le> worldPosition d \<and> worldPosition d \<le> 6
                       \<and> 1 \<le> responsePosition d \<and> responsePosition d \<le> 6) GUA_64_DATA"
  by code_simp

lemma GUA_64_DATA_positions:
  assumes "(k, d) \<in> set GUA_64_DATA"
  shows "1 \<le> worldPosition d" "worldPosition d \<le> 6"
    "1 \<le> responsePosition d" "responsePosition d \<le> 6"
  using GUA_64_DATA_positions_all assms by (auto simp: list_all_iff)

lemma binaryToGua_all: "list_all (\<lambda>b. binaryToGua b \<noteq> None) (List.n_lists 3 ''01'')"
  by code_simp

lemma binaryToGua_defined:
  assumes "length b = 3" and "set b \<subseteq> {CHR ''0'', CHR ''1''}"
  shows "\<exists>g. binaryToGua b = Some g"
proof -
  have "b \<in> set (List.n_lists 3 ''01'')" using assms unfolding set_n_lists by auto
  with binaryToGua_all show ?thesis by (auto simp: list_all_iff)
qed

lemma calculateChangedYao_succeeds:
  assumes "length (binary guaInfo) = 6" and "set (binary guaInfo) \<subseteq> {CHR ''0'', CHR ''1''}"
  shows "\<exists>c. calculateChangedYao s pos guaInfo = Inr c"
proof -
  define cb where "cb = map (\<lambda>(idx, c). if idx = pos - 1
        then (if c = CHR ''1'' then CHR ''0'' else CHR ''1'') else c)
      (enumerate0 (binary guaInfo))"
  have len: "length cb = 6" using assms(1) by (simp add: cb_def)
  have "set cb \<subseteq> {CHR ''0'', CHR ''1''}"
  proof
    fix x assume "x \<in> set cb"
    then obtain p where p: "p \<in> set (enumerate0 (binary guaInfo))"
      and x: "x = (case p of (idx, c) \<Rightarrow> if idx = pos - 1
        then (if c = CHR ''1'' then CHR ''0'' else CHR ''1'') else c)"
      by (auto simp: cb_def)
    from p have "snd p \<in> set (binary guaInfo)" by (rule enumerate0_snd_in_set)
    with assms(2) have "snd p \<in> {CHR ''0'', CHR ''1''}" by blast
    with x show "x \<in> {CHR ''0'', CHR ''1''}" by (cases p) (auto split: if_splits)
  qed
  then have bits: "set (take 3 cb) \<subseteq> {CHR ''0'', CHR ''1''}"
    "set (drop 3 (take 6 cb)) \<subseteq> {CHR ''0'', CHR ''1''}"
    by (meson set_take_subset set_drop_subset subset_trans)+
  have "length (take 3 cb) = 3" "length (drop 3 (take 6 cb)) = 3" using len by simp_all
  with bits obtain g1 g2 where "binaryToGua (take 3 cb) = Some g1"
    "binaryToGua (drop 3 (take 6 cb)) = Some g2"
    using binaryToGua_defined by blast
  then show ?thesis
    unfolding calculateChangedYao_def Let_def cb_def [symmetric] by simp
qed

lemma installHexagram_succeeds:
  assumes "length (binary guaInfo) = 6" and "set (binary guaInfo) \<subseteq> {CHR ''0'', CHR ''1''}"
  shows "\<exists>installed. installHexagram ys guaInfo = Inr installed"
  unfolding installHexagram_def Let_def
proof (rule mapE_succeeds)
  fix x :: "int \<times> YaoState"
  obtain i s where x: "x = (i, s)" by (cases x)
  obtain c where "calculateChangedYao s (i + 1) guaInfo = Inr c"
    using calculateChangedYao_succeeds [OF assms] by blast
  then show "\<exists>y. installYao guaInfo
      (getFullNaJiaDiZhi (lowerGua guaInfo) (upperGua guaInfo)) x = Inr y"
    by (simp add: x installYao_def Let_def)
qed

lemma getChangedGua_succeeds:
  assumes "length ys = 6"
  shows "\<exists>cg. getChangedGua ys = Inr cg"
proof (cases "list_ex isMoving ys")
  case False
  then show ?thesis by (simp add: getChangedGua_def)
next
  case True
  define cb where "cb = map (\<lambda>y. if isMoving y then (if yinYang y = Yang then CHR ''0'' else CHR ''1'')
                           else (if yinYang y = Yang then CHR ''1'' else CHR ''0'')) ys"
  have "length cb = 6" "set cb \<subseteq> {CHR ''0'', CHR ''1''}"
    using assms by (auto simp: cb_def)
  then obtain d where "map_of GUA_64_DATA cb = Some d" using binary_key_found by blast
  then show ?thesis
    using True unfolding getChangedGua_def Let_def cb_def [symmetric] by simp
qed

lemma flagged_line_exists:
  assumes "1 \<le> w" and "w \<le> int n" and "map f P = map (\<lambda>i. int i + 1 = w) [0..<n]"
  shows "\<exists>x \<in> set P. f x"
proof -
  define i where "i = nat (w - 1)"
  have i: "i < n" "int i + 1 = w" using assms(1,2) by (simp_all add: i_def)
  have len: "length P = n" using assms(3) by (metis length_map length_upt minus_nat.diff_0)
  have "map f P ! i = map (\<lambda>i. int i + 1 = w) [0..<n] ! i" using assms(3) by simp
  then have "f (P ! i)" using i len by simp
  moreover have "P ! i \<in> set P" using i len by simp
  ultimately show ?thesis by blast
qed

lemma getWorldYao_succeeds:
  assumes "\<exists>x \<in> set P. isWorld x"
  shows "\<exists>y. getWorldYao P = Inr y \<and> y \<in> set P"
proof -
  from assms obtain x where x: "x \<in> set P" "isWorld x" by blast
  obtain y where y: "js_find isWorld P = Some y"
    using js_find_exists [of x P isWorld, OF x] by blast
  have "y \<in> set P" using js_find_SomeD [OF y] by simp
  then show ?thesis unfolding getWorldYao_def y by simp
qed

lemma getResponseYao_succeeds:
  assumes "\<exists>x \<in> set P. isResponse x"
  shows "\<exists>y. getResponseYao P = Inr y \<and> y \<in> set P"
proof -
  from assms obtain x where x: "x \<in> set P" "isResponse x" by blast
  obtain y where y: "js_find isResponse P = Some y"
    using js_find_exists [of x P isResponse, OF x] by blast
  have "y \<in> set P" using js_find_SomeD [OF y] by simp
  then show ?thesis unfolding getResponseYao_def y by simp
qed

lemma selectYongShen_succeeds:
  assumes "\<exists>x \<in> set P. isWorld x" and "\<exists>x \<in> set P. isResponse x"
  shows "\<exists>ysn. selectYongShen P q = Inr ysn"
proof -
  obtain w where w: "getWorldYao P = Inr w" using getWorldYao_succeeds [OF assms(1)] by blast
  obtain rs where rs: "getResponseYao P = Inr rs"
    using getResponseYao_succeeds [OF assms(2)] by blast
  show ?thesis
    by (simp add: selectYongShen_def createWorldYongShen_def Let_def w rs
        split: option.split YongShenTarget.split prod.split)
qed

lemma selectYongShen_positions:
  assumes "selectYongShen P q = Inr ysn"
  shows "set (positions ysn) \<subseteq> position ` set P"
proof -
  have w: "getWorldYao P = Inr y \<Longrightarrow> y \<in> set P" for y
    by (auto simp: getWorldYao_def split: option.splits dest: js_find_SomeD)
  have rs: "getResponseYao P = Inr y \<Longrightarrow> y \<in> set P" for y
    by (auto simp: getResponseYao_def split: option.splits dest: js_find_SomeD)
  from assms show ?thesis
    by (auto simp: selectYongShen_def createWorldYongShen_def Let_def bindE_Inr_iff
        findYaoByLiuQin_def
        split: option.splits YongShenTarget.splits prod.splits if_splits dest: w rs)
qed

lemma focus_line_found:
  assumes "set (positions ysn) \<subseteq> position ` set P" and "positions ysn \<noteq> []"
  shows "\<exists>y. js_find (\<lambda>y. List.member (positions ysn) (position y)) P = Some y"
proof -
  from assms(2) obtain p where p: "p \<in> set (positions ysn)" by (cases "positions ysn") auto
  with assms(1) obtain y where "y \<in> set P" "position y = p" by auto
  with p show ?thesis
    using js_find_exists [of y P "\<lambda>y. List.member (positions ysn) (position y)"] by simp
qed

lemma analyzeYongShenStatus_succeeds:
  assumes "set (positions ysn) \<subseteq> position ` set P"
  shows "\<exists>a. analyzeYongShenStatus P ysn gz = Inr a"
proof (cases "positions ysn = []")
  case True
  then show ?thesis by (simp add: analyzeYongShenStatus_def)
next
  case False
  then obtain y where "js_find (\<lambda>y. List.member (positions ysn) (position y)) P = Some y"
    using focus_line_found [OF assms] by blast
  with False show ?thesis by (simp add: analyzeYongShenStatus_def Let_def)
qed

lemma generateInterpretation_succeeds:
  assumes "set (positions ysn) \<subseteq> position ` set P"
    and "\<exists>x \<in> set P. isWorld x" and "\<exists>x \<in> set P. isResponse x"
  shows "\<exists>itp. generateInterpretation tz today P C gua cg gz ysn rel cat = Inr itp"
proof -
  obtain a where a: "analyzeYongShenStatus P ysn gz = Inr a"
    using analyzeYongShenStatus_succeeds [OF assms(1)] by blast
  obtain w where w: "getWorldYao P = Inr w" using getWorldYao_succeeds [OF assms(2)] by blast
  obtain rs where rs: "getResponseYao P = Inr rs"
    using getResponseYao_succeeds [OF assms(3)] by blast
  show ?thesis
    by (simp add: generateInterpretation_def analyzeWorldResponse_def Let_def a w rs)
qed

text \<open>
  Six line states always give a full result: no stage of the pipeline throws.
\<close>

lemma castHexagram_total:
  assumes "length (yaoStates inp) = 6"
  shows "\<exists>r. castHexagram tz env inp = Inr r"
proof -
  define gz where "gz = getGanZhiTime tz (gregorian (time inp))"
  obtain d where d: "(yaoBinary (yaoStates inp), d) \<in> set GUA_64_DATA"
    and gua: "getGuaFromYaoStates (yaoStates inp) = Inr (withBinary d (yaoBinary (yaoStates inp)))"
    using getGuaFromYaoStates_six [OF assms] by blast
  define gua where "gua = withBinary d (yaoBinary (yaoStates inp))"
  have bits: "length (binary gua) = 6" "set (binary gua) \<subseteq> {CHR ''0'', CHR ''1''}"
    using yaoBinary_bits [of "yaoStates inp"] assms by (auto simp: gua_def)
  obtain installed where ins: "installHexagram (yaoStates inp) gua = Inr installed"
    using installHexagram_succeeds [OF bits] by blast
  define P where "P = analyzeAllProsperity (installLiuShen installed (gan (day gz))) gz"
  have wmap: "map isWorld P = map (\<lambda>i. int i + 1 = worldPosition gua) [0..<6]"
    and rmap: "map isResponse P = map (\<lambda>i. int i + 1 = responsePosition gua) [0..<6]"
    using installHexagram_flags(4,5) [OF ins] assms
    by (simp_all add: P_def analyzeAllProsperity_keeps installLiuShen_keeps)
  have wpos: "1 \<le> worldPosition gua" "worldPosition gua \<le> int 6"
    and rpos: "1 \<le> responsePosition gua" "responsePosition gua \<le> int 6"
    using GUA_64_DATA_positions [OF d] by (simp_all add: gua_def)
  have w: "\<exists>x \<in> set P. isWorld x" using wpos wmap by (rule flagged_line_exists)
  have rs: "\<exists>x \<in> set P. isResponse x" using rpos rmap by (rule flagged_line_exists)
  obtain cg where cg: "(if length (getMovingPositions (yaoStates inp)) > 0
      then getChangedGua (yaoStates inp) else Inr None) = Inr cg"
    using getChangedGua_succeeds [OF assms] by (cases "length (getMovingPositions (yaoStates inp)) > 0") auto
  obtain mg where mg: "getMutualGua (yaoStates inp) = Inr mg"
    using assms by (simp add: getMutualGua_def Let_def)
  obtain ysn where ysn: "selectYongShen P
      (getQuestionSubType (questionCategory inp) (subType inp) (gender inp)) = Inr ysn"
    using selectYongShen_succeeds [OF w rs] by blast
  have pos: "set (positions ysn) \<subseteq> position ` set P" using ysn by (rule selectYongShen_positions)
  obtain itp where itp: "generateInterpretation tz (now env) P
      (case cg of None \<Rightarrow> None
       | Some c \<Rightarrow> Some (analyzeAllProsperity (getChangedYaoInfos P c) gz))
      gua cg gz ysn (analyzeRelations P gz) (questionCategory inp) = Inr itp"
    using generateInterpretation_succeeds [OF pos w rs] by blast
  show ?thesis
    unfolding castHexagram_def Let_def gz_def [symmetric]
    using gua [folded gua_def] ins cg mg ysn [unfolded P_def] itp [unfolded P_def]
    by (simp del: length_greater_0_conv split del: if_split)
qed

subsection \<open>Transformation descriptors\<close>

lemma castHexagram_primary_flags:
  assumes "castHexagram tz env inp = Inr r"
  shows "map isMoving (primaryYao r) = map isMoving (yaoStates inp)"
    and "map (\<lambda>y. changedYao y \<noteq> None) (primaryYao r) = map isMoving (yaoStates inp)"
proof -
  from castHexagram_InrD [OF assms] obtain gua installed where
    ins: "installHexagram (yaoStates inp) gua = Inr installed"
    and p: "primaryYao r
        = analyzeAllProsperity (installLiuShen installed (gan (day (ganZhiTime r)))) (ganZhiTime r)"
    by blast
  show "map isMoving (primaryYao r) = map isMoving (yaoStates inp)"
    by (simp only: p analyzeAllProsperity_keeps installLiuShen_keeps installHexagram_flags(1) [OF ins])
  have "map (\<lambda>y. changedYao y \<noteq> None) (primaryYao r)
        = map (\<lambda>c. c \<noteq> None) (map changedYao (primaryYao r))"
    by (simp add: comp_def)
  also have "\<dots> = map (\<lambda>c. c \<noteq> None) (map changedYao installed)"
    by (simp only: p analyzeAllProsperity_keeps installLiuShen_keeps)
  also have "\<dots> = map (\<lambda>y. changedYao y \<noteq> None) installed"
    by (simp add: comp_def)
  finally show "map (\<lambda>y. changedYao y \<noteq> None) (primaryYao r) = map isMoving (yaoStates inp)"
    by (simp only: installHexagram_flags(2) [OF ins])
qed

lemma castHexagram_changed_flags:
  assumes "castHexagram tz env inp = Inr r" and "changedYaoList r = Some ys"
  shows "map changedYao ys = map (\<lambda>y. None) (yaoStates inp)"
    and "map isMoving ys = map isMoving (yaoStates inp)"
proof -
  from castHexagram_InrD [OF assms(1)] obtain cg where
    c: "changedYaoList r
        = (case cg of None \<Rightarrow> None
           | Some c \<Rightarrow> Some (analyzeAllProsperity (getChangedYaoInfos (primaryYao r) c)
                              (ganZhiTime r)))"
    by blast
  with assms(2) obtain c' where
    ys: "ys = analyzeAllProsperity (getChangedYaoInfos (primaryYao r) c') (ganZhiTime r)"
    by (cases cg) auto
  have len: "length (primaryYao r) = length (yaoStates inp)"
    using castHexagram_primary_flags(1) [OF assms(1)] by (metis length_map)
  have "map changedYao ys = map (\<lambda>y. None) (primaryYao r)"
    by (simp only: ys analyzeAllProsperity_keeps getChangedYaoInfos_keeps)
  also have "\<dots> = map (\<lambda>y. None) (yaoStates inp)"
    using len by (simp add: map_replicate_const)
  finally show "map changedYao ys = map (\<lambda>y. None) (yaoStates inp)" .
  show "map isMoving ys = map isMoving (yaoStates inp)"
    by (simp only: ys analyzeAllProsperity_keeps getChangedYaoInfos_keeps
        castHexagram_primary_flags(1) [OF assms(1)])
qed

lemma castHexagram_changed_present:
  assumes "castHexagram tz env inp = Inr r" and "list_ex isMoving (yaoStates inp)"
  shows "\<exists>ys. changedYaoList r = Some ys"
proof -
  from castHexagram_InrD [OF assms(1)] obtain cg where
    g: "(if length (getMovingPositions (yaoStates inp)) > 0 then getChangedGua (yaoStates inp)
        else Inr None) = Inr cg"
    and c: "changedYaoList r
        = (case cg of None \<Rightarrow> None
           | Some c \<Rightarrow> Some (analyzeAllProsperity (getChangedYaoInfos (primaryYao r) c)
                              (ganZhiTime r)))"
    by blast
  from assms(2) obtain y where y: "y \<in> set (yaoStates inp)" "isMoving y"
    by (auto simp: list_ex_iff)
  have "cg \<noteq> None"
  proof (cases "length (getMovingPositions (yaoStates inp)) > 0")
    case True
    with g have "getChangedGua (yaoStates inp) = Inr cg" by simp
    with assms(2) show ?thesis
      by (auto simp: getChangedGua_def Let_def split: option.splits)
  next
    case False
    then have "getMovingPositions (yaoStates inp) = []" by simp
    then have e: "\<forall>p \<in> set (enumerate0 (yaoStates inp)).
        \<not> (case p of (i, y) \<Rightarrow> if isMoving y then i + 1 else 0) > 0"
      by (auto simp: getMovingPositions_def filter_empty_conv)
    from y(1) obtain i where i: "i < length (yaoStates inp)" "yaoStates inp ! i = y"
      by (auto simp: in_set_conv_nth)
    then have "(int i, y) \<in> set (enumerate0 (yaoStates inp))"
      using enumerate0_nth [of i "yaoStates inp"]
      by (metis enumerate0_length nth_mem)
    with e y(2) show ?thesis by force
  qed
  with c show ?thesis by (cases cg) auto
qed

text \<open>
  C4, as the source has it. In every casting result a line of the primary hexagram
  carries a transformation descriptor exactly when its active flag is set. The lines of
  the changed hexagram never carry one: \<^verbatim>\<open>getChangedYaoInfos\<close> copies each primary line,
  active flag included, and sets \<^verbatim>\<open>changedYao\<close> to \<^verbatim>\<open>undefined\<close>.
\<close>

theorem castHexagram_active_lines:
  assumes "castHexagram tz env inp = Inr r"
  shows "(\<forall>y \<in> set (primaryYao r). changedYao y \<noteq> None \<longleftrightarrow> isMoving y)
       \<and> (\<forall>ys. changedYaoList r = Some ys \<longrightarrow>
            (\<forall>y \<in> set ys. changedYao y = None)
            \<and> map isMoving ys = map isMoving (primaryYao r))"
proof -
  have "map (\<lambda>y. changedYao y \<noteq> None) (primaryYao r) = map isMoving (primaryYao r)"
    using castHexagram_primary_flags [OF assms] by simp
  then have a: "\<forall>y \<in> set (primaryYao r). changedYao y \<noteq> None \<longleftrightarrow> isMoving y"
    by (simp only: map_eq_conv)
  have b: "(\<forall>y \<in> set ys. changedYao y = None) \<and> map isMoving ys = map isMoving (primaryYao r)"
    if ys: "changedYaoList r = Some ys" for ys
  proof -
    have len: "length ys = length (yaoStates inp)"
      using castHexagram_changed_flags(2) [OF assms ys] by (metis length_map)
    have "map changedYao ys = map (\<lambda>y. None) ys"
      using castHexagram_changed_flags(1) [OF assms ys] len by (simp add: map_replicate_const)
    then have "\<forall>y \<in> set ys. changedYao y = None" by (simp only: map_eq_conv)
    then show ?thesis
      using castHexagram_changed_flags(2) [OF assms ys] castHexagram_primary_flags(1) [OF assms]
      by simp
  qed
  from a b show ?thesis by blast
qed

lemma testCase3_lines:
  "yaoStates testCase3 = testCase3_yaoStates"
  "length testCase3_yaoStates = 6"
  "map isMoving testCase3_yaoStates = [True, False, False, False, False, False]"
  by (simp_all add: testCase3_def testCase3_yaoStates_def)

theorem castHexagram_active_lines_witness:
  "\<exists>r. castHexagram 480 testEnv testCase3 = Inr r
     \<and> (\<forall>y \<in> set (primaryYao r). changedYao y \<noteq> None \<longleftrightarrow> isMoving y)
     \<and> (\<forall>ys. changedYaoList r = Some ys \<longrightarrow>
            (\<forall>y \<in> set ys. changedYao y = None)
            \<and> map isMoving ys = map isMoving (primaryYao r))"
proof -
  obtain r where r: "castHexagram 480 testEnv testCase3 = Inr r"
    using castHexagram_total [of testCase3 480 testEnv] by (auto simp: testCase3_lines)
  from castHexagram_active_lines [OF r] r show ?thesis by blast
qed

text \<open>
  C4 as stated fails on the changed hexagram: in the result of test case 3 the bottom
  line of the changed hexagram has its active flag set and no descriptor.
\<close>

theorem changed_line_without_descriptor:
  "map_sum id
     (\<lambda>r. map_option (\<lambda>ys. (isMoving (ys ! 0), changedYao (ys ! 0))) (changedYaoList r))
     (castHexagram 480 testEnv testCase3)
   = Inr (Some (True, None))"
proof -
  obtain r where r: "castHexagram 480 testEnv testCase3 = Inr r"
    using castHexagram_total [of testCase3 480 testEnv] by (auto simp: testCase3_lines)
  have "list_ex isMoving (yaoStates testCase3)"
    by (simp add: testCase3_def testCase3_yaoStates_def)
  then obtain ys where ys: "changedYaoList r = Some ys"
    using castHexagram_changed_present [OF r] by blast
  have m: "map isMoving ys = [True, False, False, False, False, False]"
    using castHexagram_changed_flags(2) [OF r ys] by (simp only: testCase3_lines)
  have c: "map changedYao ys = [None, None, None, None, None, None]"
    using castHexagram_changed_flags(1) [OF r ys]
    by (simp add: testCase3_lines testCase3_yaoStates_def)
  have len: "0 < length ys" using m by (metis length_map length_greater_0_conv list.distinct(1))
  have "isMoving (ys ! 0) = map isMoving ys ! 0" using len by simp
  then have m0: "isMoving (ys ! 0)" by (simp only: m) simp
  have "changedYao (ys ! 0) = map changedYao ys ! 0" using len by simp
  then have c0: "changedYao (ys ! 0) = None" by (simp only: c) simp
  show ?thesis by (simp add: r ys m0 c0)
qed

subsection \<open>Many active lines\<close>

lemma generateInterpretation_InrD:
  assumes "generateInterpretation tz today P C gua cg gz ysn rel cat = Inr itp"
  shows "\<exists>a w. analyzeYongShenStatus P ysn gz = Inr a
    \<and> analyzeWorldResponse P gz cat = Inr w
    \<and> items itp =
        [fst a, w]
        @ (case analyzeMovingYao P C ysn of None \<Rightarrow> [] | Some m \<Rightarrow> [fst m])
        @ analyzeRelationsImpact rel ysn P
        @ (case analyzeVoidAndBroken P ysn gz of None \<Rightarrow> [] | Some v \<Rightarrow> [v])
    \<and> uncertainties itp =
        (case snd a of None \<Rightarrow> [] | Some u \<Rightarrow> [u])
        @ (case analyzeMovingYao P C ysn of Some (m, Some u) \<Rightarrow> [u] | _ \<Rightarrow> [])
    \<and> trend itp = judgeTrend (items itp) (fst a) (length (uncertainties itp))"
  using assms unfolding generateInterpretation_def Let_def
  by (elim bindE_InrE) auto

lemma analyzeYongShenStatus_item:
  assumes "analyzeYongShenStatus P ysn gz = Inr a"
  shows "i_type (fst a) = item_support \<or> i_type (fst a) = item_obstacle"
    and "i_text (fst a) \<noteq> Text_MovingYao"
    and "snd a =
           (if positions ysn = [] then Some U_YongShenHidden
            else if \<exists>y. js_find (\<lambda>y. List.member (positions ysn) (position y)) P = Some y
                        \<and> isVoid y
            then Some U_YongShenVoid else None)"
  using assms
  by (auto simp: analyzeYongShenStatus_def Let_def split: if_splits option.splits)

lemma analyzeWorldResponse_item:
  assumes "analyzeWorldResponse P gz cat = Inr w"
  shows "i_type w \<noteq> item_risk" and "i_text w \<noteq> Text_MovingYao"
  using assms unfolding analyzeWorldResponse_def Let_def
  by (elim bindE_InrE; auto split: if_splits)+

lemma analyzeRelationsImpact_no_risk:
  "filter (\<lambda>i. i_type i = item_risk) (analyzeRelationsImpact rel ysn P) = []"
  by (auto simp: analyzeRelationsImpact_def Let_def filter_empty_conv)

lemma analyzeRelationsImpact_texts:
  "list_all (\<lambda>i. i_text i \<noteq> Text_MovingYao) (analyzeRelationsImpact rel ysn P)"
  by (auto simp: analyzeRelationsImpact_def Let_def list_all_iff)

lemma analyzeVoidAndBroken_item:
  assumes "analyzeVoidAndBroken P ysn gz = Some v"
  shows "i_type v \<noteq> item_risk" and "i_text v \<noteq> Text_MovingYao"
  using assms by (auto simp: analyzeVoidAndBroken_def split: option.splits if_splits)

lemma analyzeMovingYao_many:
  assumes "length (filter isMoving P) \<ge> 4"
  shows "analyzeMovingYao P C ysn
         = Some (\<lparr>i_type = item_risk, i_text = Text_TooManyMoving (length (filter isMoving P)),
                  relatedYao = Some (map position (filter isMoving P))\<rparr>,
                 Some U_TooManyMoving)"
proof -
  from assms have "filter isMoving P \<noteq> []" by auto
  with assms show ?thesis by (simp add: analyzeMovingYao_def Let_def)
qed

lemma tally_counts:
  "tally its (s, ob)
   = (s + int (length (filter (\<lambda>i. i_type i = item_support) its)),
      ob + int (length (filter (\<lambda>i. i_type i = item_obstacle) its))
         + 2 * int (length (filter (\<lambda>i. i_type i = item_risk) its)))"
  by (induction its arbitrary: s ob) auto

lemma judgeTrend_tally:
  "judgeTrend its y n =
     (if n \<ge> 2 then uncertain
      else
        let supports = int (length (filter (\<lambda>i. i_type i = item_support) its))
                       + (if i_type y = item_support then 2 else 0);
            obstacles = int (length (filter (\<lambda>i. i_type i = item_obstacle) its))
                        + 2 * int (length (filter (\<lambda>i. i_type i = item_risk) its))
                        + (if i_type y = item_obstacle then 2 else 0)
        in if supports - obstacles \<ge> 4 then very_favorable
           else if supports - obstacles \<ge> 2 then favorable
           else if supports - obstacles \<le> -4 then very_unfavorable
           else if supports - obstacles \<le> -2 then unfavorable
           else trend_neutral)"
  by (simp add: judgeTrend_def tally_counts Let_def)

lemma length_filter_map_flag:
  assumes "map f xs = map g ys"
  shows "length (filter f xs) = length (filter g ys)"
proof -
  have "length (filter f xs) = length (filter (\<lambda>b. b) (map f xs))"
    by (simp add: filter_map comp_def)
  also have "\<dots> = length (filter (\<lambda>b. b) (map g ys))" using assms by simp
  also have "\<dots> = length (filter g ys)" by (simp add: filter_map comp_def)
  finally show ?thesis .
qed

text \<open>
  C5, as the source has it. With four or more active lines the items hold exactly one
  risk item, the one that reports too many moving lines, and no item that narrates the
  moving lines one by one. The uncertainty notes are that of the focus element, if it
  logs one, followed by exactly one note for the moving lines: the focus element logs
  one when the focus role is on none of the six lines, or when the focus line is void.
  In that case there are two notes and the trend is \<open>uncertain\<close>. Otherwise there is one
  note and the trend follows the tally: one point for each supportive item, one for each
  obstructive item, two obstructive points for the risk item, and two more points on the
  side of the focus item, which is the first of the items; a difference of four or more
  is \<open>very favorable\<close>, two or more \<open>favorable\<close>, minus four or less \<open>very unfavorable\<close>,
  minus two or less \<open>unfavorable\<close>, and anything between is \<open>neutral\<close>.
\<close>

theorem castHexagram_many_active:
  assumes "castHexagram tz env inp = Inr r"
    and "length (filter isMoving (yaoStates inp)) \<ge> 4"
  shows "let its = items (r_interpretation r);
             focusVoid = (\<exists>y. js_find (\<lambda>y. List.member (positions (yongShen r)) (position y))
                                 (primaryYao r) = Some y \<and> isVoid y);
             supports = int (length (filter (\<lambda>i. i_type i = item_support) its))
                        + (if i_type (hd its) = item_support then 2 else 0);
             obstacles = int (length (filter (\<lambda>i. i_type i = item_obstacle) its)) + 2
                         + (if i_type (hd its) = item_obstacle then 2 else 0)
         in filter (\<lambda>i. i_type i = item_risk) its
              = [\<lparr>i_type = item_risk,
                  i_text = Text_TooManyMoving (length (filter isMoving (yaoStates inp))),
                  relatedYao = Some (map position (filter isMoving (primaryYao r)))\<rparr>]
          \<and> list_all (\<lambda>i. i_text i \<noteq> Text_MovingYao) its
          \<and> uncertainties (r_interpretation r)
              = (if positions (yongShen r) = [] then [U_YongShenHidden]
                 else if focusVoid then [U_YongShenVoid] else [])
                @ [U_TooManyMoving]
          \<and> trend (r_interpretation r)
              = (if positions (yongShen r) = [] \<or> focusVoid then uncertain
                 else if supports - obstacles \<ge> 4 then very_favorable
                 else if supports - obstacles \<ge> 2 then favorable
                 else if supports - obstacles \<le> -4 then very_unfavorable
                 else if supports - obstacles \<le> -2 then unfavorable
                 else trend_neutral)"
proof -
  let ?P = "primaryYao r" and ?itp = "r_interpretation r"
  let ?fv = "\<exists>y. js_find (\<lambda>y. List.member (positions (yongShen r)) (position y)) ?P = Some y
                  \<and> isVoid y"
  from castHexagram_InrD [OF assms(1)] obtain gua cg where
    g: "generateInterpretation tz (now env) ?P (changedYaoList r) gua cg (ganZhiTime r)
          (yongShen r) (relations r) (questionCategory inp) = Inr ?itp"
    by auto
  have n: "length (filter isMoving ?P) = length (filter isMoving (yaoStates inp))"
    using castHexagram_primary_flags(1) [OF assms(1)] by (rule length_filter_map_flag)
  then have many: "length (filter isMoving ?P) \<ge> 4" using assms(2) by simp
  note mv = analyzeMovingYao_many [OF many, of "changedYaoList r" "yongShen r"]
  from generateInterpretation_InrD [OF g] obtain a w where
    a: "analyzeYongShenStatus ?P (yongShen r) (ganZhiTime r) = Inr a"
    and w: "analyzeWorldResponse ?P (ganZhiTime r) (questionCategory inp) = Inr w"
    and its: "items ?itp =
        [fst a, w]
        @ (case analyzeMovingYao ?P (changedYaoList r) (yongShen r) of
             None \<Rightarrow> [] | Some m \<Rightarrow> [fst m])
        @ analyzeRelationsImpact (relations r) (yongShen r) ?P
        @ (case analyzeVoidAndBroken ?P (yongShen r) (ganZhiTime r) of
             None \<Rightarrow> [] | Some v \<Rightarrow> [v])"
    and us: "uncertainties ?itp =
        (case snd a of None \<Rightarrow> [] | Some u \<Rightarrow> [u])
        @ (case analyzeMovingYao ?P (changedYaoList r) (yongShen r) of
             Some (m, Some u) \<Rightarrow> [u] | _ \<Rightarrow> [])"
    and tr: "trend ?itp = judgeTrend (items ?itp) (fst a) (length (uncertainties ?itp))"
    by blast
  have hd: "hd (items ?itp) = fst a" unfolding its by simp
  have v: "filter (\<lambda>i. i_type i = item_risk)
      (case analyzeVoidAndBroken ?P (yongShen r) (ganZhiTime r) of
         None \<Rightarrow> [] | Some v \<Rightarrow> [v]) = []"
    "list_all (\<lambda>i. i_text i \<noteq> Text_MovingYao)
      (case analyzeVoidAndBroken ?P (yongShen r) (ganZhiTime r) of
         None \<Rightarrow> [] | Some v \<Rightarrow> [v])"
    using analyzeVoidAndBroken_item [of ?P "yongShen r" "ganZhiTime r"]
    by (cases "analyzeVoidAndBroken ?P (yongShen r) (ganZhiTime r)"; simp)+
  have arisk: "i_type (fst a) \<noteq> item_risk"
    using analyzeYongShenStatus_item(1) [OF a] by auto
  have risk: "filter (\<lambda>i. i_type i = item_risk) (items ?itp)
      = [\<lparr>i_type = item_risk,
          i_text = Text_TooManyMoving (length (filter isMoving (yaoStates inp))),
          relatedYao = Some (map position (filter isMoving ?P))\<rparr>]"
    unfolding its mv filter_append v(1) analyzeRelationsImpact_no_risk
    using arisk analyzeWorldResponse_item(1) [OF w] n
    by simp
  have texts: "list_all (\<lambda>i. i_text i \<noteq> Text_MovingYao) (items ?itp)"
    unfolding its mv list_all_append
    using analyzeYongShenStatus_item(2) [OF a] analyzeWorldResponse_item(2) [OF w] v(2)
      analyzeRelationsImpact_texts [of "relations r" "yongShen r" ?P]
    by simp
  have unc: "uncertainties ?itp
      = (if positions (yongShen r) = [] then [U_YongShenHidden]
         else if ?fv then [U_YongShenVoid] else [])
        @ [U_TooManyMoving]"
    unfolding us mv analyzeYongShenStatus_item(3) [OF a] by auto
  have two: "length (uncertainties ?itp) \<ge> 2 \<longleftrightarrow> positions (yongShen r) = [] \<or> ?fv"
    unfolding unc by simp
  have one: "int (length (filter (\<lambda>i. i_type i = item_risk) (items ?itp))) = 1"
    unfolding risk by simp
  have trend: "trend ?itp
      = (if positions (yongShen r) = [] \<or> ?fv then uncertain
         else
           let supports = int (length (filter (\<lambda>i. i_type i = item_support) (items ?itp)))
                          + (if i_type (hd (items ?itp)) = item_support then 2 else 0);
               obstacles = int (length (filter (\<lambda>i. i_type i = item_obstacle) (items ?itp)))
                           + 2 + (if i_type (hd (items ?itp)) = item_obstacle then 2 else 0)
           in if supports - obstacles \<ge> 4 then very_favorable
              else if supports - obstacles \<ge> 2 then favorable
              else if supports - obstacles \<le> -4 then very_unfavorable
              else if supports - obstacles \<le> -2 then unfavorable
              else trend_neutral)"
  proof (cases "positions (yongShen r) = [] \<or> ?fv")
    case True
    then have "length (uncertainties ?itp) \<ge> 2" using two by blast
    then have "trend ?itp = uncertain" unfolding tr by (simp add: judgeTrend_tally)
    with True show ?thesis by (simp only: if_True)
  next
    case False
    then have "\<not> length (uncertainties ?itp) \<ge> 2" using two by blast
    then have "trend ?itp
      = (let supports = int (length (filter (\<lambda>i. i_type i = item_support) (items ?itp)))
                          + (if i_type (fst a) = item_support then 2 else 0);
             obstacles = int (length (filter (\<lambda>i. i_type i = item_obstacle) (items ?itp)))
                  + 2 * int (length (filter (\<lambda>i. i_type i = item_risk) (items ?itp)))
                  + (if i_type (fst a) = item_obstacle then 2 else 0)
         in if supports - obstacles \<ge> 4 then very_favorable
            else if supports - obstacles \<ge> 2 then favorable
            else if supports - obstacles \<le> -4 then very_unfavorable
            else if supports - obstacles \<le> -2 then unfavorable
            else trend_neutral)"
      unfolding tr by (subst judgeTrend_tally) (simp only: if_False)
    then show ?thesis unfolding one hd using False by (simp only: if_False mult_1_right)
  qed
  have "filter (\<lambda>i. i_type i = item_risk) (items ?itp)
              = [\<lparr>i_type = item_risk,
                  i_text = Text_TooManyMoving (length (filter isMoving (yaoStates inp))),
                  relatedYao = Some (map position (filter isMoving (primaryYao r)))\<rparr>]
          \<and> list_all (\<lambda>i. i_text i \<noteq> Text_MovingYao) (items ?itp)
          \<and> uncertainties (r_interpretation r)
              = (if positions (yongShen r) = [] then [U_YongShenHidden]
                 else if ?fv then [U_YongShenVoid] else [])
                @ [U_TooManyMoving]
          \<and> trend (r_interpretation r)
              = (if positions (yongShen r) = [] \<or> ?fv then uncertain
         else
           let supports = int (length (filter (\<lambda>i. i_type i = item_support) (items ?itp)))
                          + (if i_type (hd (items ?itp)) = item_support then 2 else 0);
               obstacles = int (length (filter (\<lambda>i. i_type i = item_obstacle) (items ?itp)))
                           + 2 + (if i_type (hd (items ?itp)) = item_obstacle then 2 else 0)
           in if supports - obstacles \<ge> 4 then very_favorable
              else if supports - obstacles \<ge> 2 then favorable
              else if supports - obstacles \<le> -4 then very_unfavorable
              else if supports - obstacles \<le> -2 then unfavorable
              else trend_neutral)"
    using risk texts unc trend by (intro conjI)
  then show ?thesis unfolding Let_def .
qed

lemma sixOldYang_lines:
  "length (yaoStates sixOldYang) = 6"
  "length (filter isMoving (yaoStates sixOldYang)) = 6"
  "questionCategory sixOldYang = career"
  "getQuestionSubType (questionCategory sixOldYang) (subType sixOldYang) (gender sixOldYang)
     = ''career_job''"
  by (simp_all add: sixOldYang_def coinSumToYaoState_def getQuestionSubType_def)

theorem castHexagram_many_active_witness:
  "\<exists>r. castHexagram 480 testEnv sixOldYang = Inr r
     \<and> length (filter isMoving (yaoStates sixOldYang)) \<ge> 4
     \<and> filter (\<lambda>i. i_type i = item_risk) (items (r_interpretation r))
           = [\<lparr>i_type = item_risk, i_text = Text_TooManyMoving 6,
               relatedYao = Some (map position (filter isMoving (primaryYao r)))\<rparr>]
     \<and> list_all (\<lambda>i. i_text i \<noteq> Text_MovingYao) (items (r_interpretation r))
     \<and> filter (\<lambda>u. u = U_TooManyMoving) (uncertainties (r_interpretation r))
           = [U_TooManyMoving]"
proof -
  obtain r where r: "castHexagram 480 testEnv sixOldYang = Inr r"
    using castHexagram_total [of sixOldYang 480 testEnv] by (auto simp: sixOldYang_lines)
  have many: "length (filter isMoving (yaoStates sixOldYang)) \<ge> 4"
    by (simp add: sixOldYang_lines)
  have "filter (\<lambda>i. i_type i = item_risk) (items (r_interpretation r))
           = [\<lparr>i_type = item_risk, i_text = Text_TooManyMoving 6,
               relatedYao = Some (map position (filter isMoving (primaryYao r)))\<rparr>]
     \<and> list_all (\<lambda>i. i_text i \<noteq> Text_MovingYao) (items (r_interpretation r))
     \<and> filter (\<lambda>u. u = U_TooManyMoving) (uncertainties (r_interpretation r))
           = [U_TooManyMoving]"
    using castHexagram_many_active [OF r many] unfolding Let_def
    by (simp add: sixOldYang_lines)
  with r many show ?thesis by blast
qed

text \<open>
  C5 as stated fails when all six lines are old yang and the question is about career:
  six lines are active, the only uncertainty note is the one for too many moving lines,
  and the trend is \<open>neutral\<close>, not \<open>uncertain\<close>.
\<close>

theorem six_active_lines_trend_neutral:
  "map_sum id
     (\<lambda>r. (length (filter isMoving (yaoStates (input r))),
           uncertainties (r_interpretation r), trend (r_interpretation r)))
     (castHexagram 480 testEnv sixOldYang)
   = Inr (6, [U_TooManyMoving], trend_neutral)"
proof -
  let ?GZ = "\<lparr>year = \<lparr>gan = G_Jia, zhi = Z_Chen\<rparr>, month = \<lparr>gan = G_Ding, zhi = Z_Chou\<rparr>,
    day = \<lparr>gan = G_Bing, zhi = Z_Chen\<rparr>, hour = \<lparr>gan = G_Yi, zhi = Z_Wei\<rparr>,
    voidBranches = (Z_Zi, Z_Chou), monthWuXing = Tu, dayWuXing = Tu\<rparr>"
  let ?GUA = "withBinary (mkGua [0x4E7E, 0x4E3A, 0x5929] 1 Qian Qian Qian 6 3 Jin) ''111111''"
  let ?I = "projr (installHexagram (yaoStates sixOldYang) ?GUA)"
  let ?P = "analyzeAllProsperity (installLiuShen ?I G_Bing) ?GZ"
  let ?YS = "\<lparr>ys_liuQin = GuanGui, positions = [4], isAutoSelected = True,
    alternatives = None\<rparr>"
  let ?A = "\<lparr>i_type = item_support, i_text = Text_YongShenStatus, relatedYao = Some [4]\<rparr>"
  let ?W = "\<lparr>i_type = item_support, i_text = Text_WorldResponse, relatedYao = Some [6, 3]\<rparr>"
  have e_gz: "getGanZhiTime 480 (gregorian (time sixOldYang)) = ?GZ"
    by code_simp
  have e_gua: "getGuaFromYaoStates (yaoStates sixOldYang) = Inr ?GUA"
    by code_simp
  have e_ins: "installHexagram (yaoStates sixOldYang) ?GUA = Inr ?I"
    by code_simp
  have e_ys: "selectYongShen ?P ''career_job'' = Inr ?YS"
    by code_simp
  have e_a: "analyzeYongShenStatus ?P ?YS ?GZ = Inr (?A, None)"
    by code_simp
  have e_w: "analyzeWorldResponse ?P ?GZ career = Inr ?W"
    by code_simp
  have e_void: "analyzeVoidAndBroken ?P ?YS ?GZ = None"
    by code_simp
  have e_trend: "judgeTrend
      ([?A, ?W]
       @ [\<lparr>i_type = item_risk, i_text = Text_TooManyMoving 6, relatedYao = x\<rparr>]
       @ analyzeRelationsImpact (analyzeRelations ?P ?GZ) ?YS ?P @ []) ?A 1
     = trend_neutral" for x
    by code_simp
  obtain r where r: "castHexagram 480 testEnv sixOldYang = Inr r"
    using castHexagram_total [of sixOldYang 480 testEnv] by (auto simp: sixOldYang_lines)
  from castHexagram_InrD [OF r] obtain gua installed cg where
    d: "getGuaFromYaoStates (yaoStates sixOldYang) = Inr gua"
      "installHexagram (yaoStates sixOldYang) gua = Inr installed"
      "selectYongShen (primaryYao r)
         (getQuestionSubType (questionCategory sixOldYang) (subType sixOldYang)
            (gender sixOldYang)) = Inr (yongShen r)"
      "generateInterpretation 480 (now testEnv) (primaryYao r) (changedYaoList r) gua cg
         (ganZhiTime r) (yongShen r) (relations r) (questionCategory sixOldYang)
       = Inr (r_interpretation r)"
      "ganZhiTime r = getGanZhiTime 480 (gregorian (time sixOldYang))"
      "primaryYao r
        = analyzeAllProsperity (installLiuShen installed (gan (day (ganZhiTime r)))) (ganZhiTime r)"
      "relations r = analyzeRelations (primaryYao r) (ganZhiTime r)"
      "input r = sixOldYang"
    by auto
  have gz: "ganZhiTime r = ?GZ" using d(5) e_gz by simp
  have gua: "gua = ?GUA" using d(1) e_gua by simp
  have ins: "installed = ?I" using d(2) e_ins unfolding gua by simp
  have P: "primaryYao r = ?P" using d(6) unfolding gz ins by simp
  have ys: "yongShen r = ?YS" using d(3) e_ys unfolding P sixOldYang_lines(4) by simp
  have rel: "relations r = analyzeRelations ?P ?GZ" using d(7) unfolding P gz .
  have g: "generateInterpretation 480 (now testEnv) ?P (changedYaoList r) gua cg ?GZ ?YS
      (analyzeRelations ?P ?GZ) career = Inr (r_interpretation r)"
    using d(4) unfolding rel ys gz sixOldYang_lines(3) unfolding P .
  have n: "length (filter isMoving ?P) = 6"
    using length_filter_map_flag [OF castHexagram_primary_flags(1) [OF r]]
    unfolding P sixOldYang_lines(2) .
  then have many: "length (filter isMoving ?P) \<ge> 4" by simp
  have mv: "analyzeMovingYao ?P (changedYaoList r) ?YS
      = Some (\<lparr>i_type = item_risk, i_text = Text_TooManyMoving 6,
                relatedYao = Some (map position (filter isMoving ?P))\<rparr>,
              Some U_TooManyMoving)"
    using analyzeMovingYao_many [OF many, of "changedYaoList r" ?YS] unfolding n .
  from generateInterpretation_InrD [OF g] obtain a w where
    a: "analyzeYongShenStatus ?P ?YS ?GZ = Inr a"
    and w: "analyzeWorldResponse ?P ?GZ career = Inr w"
    and its: "items (r_interpretation r) =
        [fst a, w]
        @ (case analyzeMovingYao ?P (changedYaoList r) ?YS of
             None \<Rightarrow> [] | Some m \<Rightarrow> [fst m])
        @ analyzeRelationsImpact (analyzeRelations ?P ?GZ) ?YS ?P
        @ (case analyzeVoidAndBroken ?P ?YS ?GZ of None \<Rightarrow> [] | Some v \<Rightarrow> [v])"
    and us: "uncertainties (r_interpretation r) =
        (case snd a of None \<Rightarrow> [] | Some u \<Rightarrow> [u])
        @ (case analyzeMovingYao ?P (changedYaoList r) ?YS of
             Some (m, Some u) \<Rightarrow> [u] | _ \<Rightarrow> [])"
    and tr: "trend (r_interpretation r)
        = judgeTrend (items (r_interpretation r)) (fst a)
            (length (uncertainties (r_interpretation r)))"
    by blast
  have a': "a = (?A, None)" using a unfolding e_a by simp
  have w': "w = ?W" using w unfolding e_w by simp
  have us': "uncertainties (r_interpretation r) = [U_TooManyMoving]"
    unfolding us mv a' by simp
  have its': "items (r_interpretation r) =
      [?A, ?W]
      @ [\<lparr>i_type = item_risk, i_text = Text_TooManyMoving 6,
          relatedYao = Some (map position (filter isMoving ?P))\<rparr>]
      @ analyzeRelationsImpact (analyzeRelations ?P ?GZ) ?YS ?P @ []"
    unfolding its mv e_void a' w' by simp
  have t: "trend (r_interpretation r) = trend_neutral"
    unfolding tr its' us' a' using e_trend by simp
  show ?thesis by (simp add: r d(8) sixOldYang_lines us' t)
qed

subsection \<open>Determinism\<close>

text \<open>
  The clock enters the interpretation only through the timing predictions.
\<close>

lemma generateInterpretation_clock:
  "map_sum id (\<lambda>i. (trend i, items i, uncertainties i))
     (generateInterpretation tz t1 P C gua cg gz ysn rel cat)
   = map_sum id (\<lambda>i. (trend i, items i, uncertainties i))
       (generateInterpretation tz t2 P C gua cg gz ysn rel cat)"
  by (cases "analyzeYongShenStatus P ysn gz"; cases "analyzeWorldResponse P gz cat")
     (simp_all add: generateInterpretation_def Let_def)

lemma map_sum_bindE:
  "map_sum id g (bindE m f) = bindE m (\<lambda>x. map_sum id g (f x))"
  by (cases m) simp_all

text \<open>
  Two runs on the same input and the same host offset agree on the name of the primary
  hexagram, the branch and the familial role of every line, the role of the focus
  element and the trend, whatever the clock shows and whatever identifier is drawn in
  either run; and they fail alike when they fail.
\<close>

lemma castHexagram_clock_free:
  "map_sum id
     (\<lambda>r. (name (primaryGua r), map diZhi (primaryYao r), map liuQin (primaryYao r),
           ys_liuQin (yongShen r), trend (r_interpretation r)))
     (castHexagram tz env1 inp)
   = map_sum id
       (\<lambda>r. (name (primaryGua r), map diZhi (primaryYao r), map liuQin (primaryYao r),
             ys_liuQin (yongShen r), trend (r_interpretation r)))
       (castHexagram tz env2 inp)"
proof -
  have last:
    "bindE (generateInterpretation tz (now env1) P C gua cg gz ysn rel cat)
       (\<lambda>i. Inr (a, b, c, d, trend i))
     = bindE (generateInterpretation tz (now env2) P C gua cg gz ysn rel cat)
         (\<lambda>i. Inr (a, b, c, d, trend i))"
    for P C gua cg gz ysn rel cat and a :: jsstring and b :: "DiZhi list"
      and c :: "LiuQin list" and d :: LiuQin
    using generateInterpretation_clock [of tz "now env1" P C gua cg gz ysn rel cat "now env2"]
    by (cases "generateInterpretation tz (now env1) P C gua cg gz ysn rel cat";
        cases "generateInterpretation tz (now env2) P C gua cg gz ysn rel cat") simp_all
  show ?thesis
    unfolding castHexagram_def Let_def map_sum_bindE
    by (simp add: last cong: option.case_cong)
qed

text \<open>
  C9, as the source has it. Two runs of \<^verbatim>\<open>castHexagram\<close> on the same six-line input, on
  hosts with the same offset from UTC, both return a result, and the two results have
  the same name of the primary hexagram, the same branch and the same familial role on
  every line, the same role of the focus element and the same trend, whatever the clock
  shows and whatever identifier is drawn in either run. The offset is not part of the
  input: the pillars are read from the timestamp with the local getters of \<^verbatim>\<open>Date\<close>.
\<close>

theorem castHexagram_deterministic:
  assumes "length (yaoStates inp) = 6"
  shows "\<exists>r1 r2. castHexagram tz env1 inp = Inr r1 \<and> castHexagram tz env2 inp = Inr r2
    \<and> name (primaryGua r1) = name (primaryGua r2)
    \<and> map diZhi (primaryYao r1) = map diZhi (primaryYao r2)
    \<and> map liuQin (primaryYao r1) = map liuQin (primaryYao r2)
    \<and> ys_liuQin (yongShen r1) = ys_liuQin (yongShen r2)
    \<and> trend (r_interpretation r1) = trend (r_interpretation r2)"
proof -
  obtain r1 where r1: "castHexagram tz env1 inp = Inr r1"
    using castHexagram_total [OF assms] by blast
  obtain r2 where r2: "castHexagram tz env2 inp = Inr r2"
    using castHexagram_total [OF assms] by blast
  from castHexagram_clock_free [of tz env1 inp env2] show ?thesis
    unfolding r1 r2 by simp
qed

theorem castHexagram_deterministic_witness:
  "length (yaoStates testCase3) = 6
   \<and> (\<exists>r1 r2. castHexagram 480 testEnv testCase3 = Inr r1
        \<and> castHexagram 480 \<lparr>now = 0, newId = ''000000000000'', zoneName = ''UTC''\<rparr> testCase3
            = Inr r2
        \<and> name (primaryGua r1) = name (primaryGua r2)
        \<and> map diZhi (primaryYao r1) = map diZhi (primaryYao r2)
        \<and> map liuQin (primaryYao r1) = map liuQin (primaryYao r2)
        \<and> ys_liuQin (yongShen r1) = ys_liuQin (yongShen r2)
        \<and> trend (r_interpretation r1) = trend (r_interpretation r2))"
proof -
  have len: "length (yaoStates testCase3) = 6" by (simp add: testCase3_lines)
  from castHexagram_deterministic [OF len] len show ?thesis by blast
qed

text \<open>
  The trend of a casting with four or more active lines, from the stages of the
  pipeline.
\<close>

lemma castHexagram_trend_stages:
  assumes r: "castHexagram tz env inp = Inr r"
    and many: "length (filter isMoving (yaoStates inp)) \<ge> 4"
    and gz: "getGanZhiTime tz (gregorian (time inp)) = GZ"
    and gua: "getGuaFromYaoStates (yaoStates inp) = Inr GUA"
    and ins: "installHexagram (yaoStates inp) GUA = Inr I"
    and P: "analyzeAllProsperity (installLiuShen I (gan (day GZ))) GZ = P"
    and ys: "selectYongShen P
               (getQuestionSubType (questionCategory inp) (subType inp) (gender inp)) = Inr YS"
    and a: "analyzeYongShenStatus P YS GZ = Inr (A, U)"
    and w: "analyzeWorldResponse P GZ (questionCategory inp) = Inr W"
  shows "trend (r_interpretation r)
    = judgeTrend
        ([A, W]
         @ [\<lparr>i_type = item_risk, i_text = Text_TooManyMoving (length (filter isMoving P)),
              relatedYao = Some (map position (filter isMoving P))\<rparr>]
         @ analyzeRelationsImpact (analyzeRelations P GZ) YS P
         @ (case analyzeVoidAndBroken P YS GZ of None \<Rightarrow> [] | Some v \<Rightarrow> [v]))
        A (length ((case U of None \<Rightarrow> [] | Some u \<Rightarrow> [u]) @ [U_TooManyMoving]))"
proof -
  from castHexagram_InrD [OF r] obtain gua' installed cg where
    d: "getGuaFromYaoStates (yaoStates inp) = Inr gua'"
      "installHexagram (yaoStates inp) gua' = Inr installed"
      "selectYongShen (primaryYao r)
         (getQuestionSubType (questionCategory inp) (subType inp) (gender inp))
       = Inr (yongShen r)"
      "generateInterpretation tz (now env) (primaryYao r) (changedYaoList r) gua' cg
         (ganZhiTime r) (yongShen r) (relations r) (questionCategory inp)
       = Inr (r_interpretation r)"
      "ganZhiTime r = getGanZhiTime tz (gregorian (time inp))"
      "primaryYao r
        = analyzeAllProsperity (installLiuShen installed (gan (day (ganZhiTime r)))) (ganZhiTime r)"
      "relations r = analyzeRelations (primaryYao r) (ganZhiTime r)"
    by auto
  have gz': "ganZhiTime r = GZ" using d(5) gz by simp
  have gua': "gua' = GUA" using d(1) gua by simp
  have ins': "installed = I" using d(2) ins unfolding gua' by simp
  have P': "primaryYao r = P" using d(6) P unfolding gz' ins' by simp
  have ys': "yongShen r = YS" using d(3) ys unfolding P' by simp
  have rel: "relations r = analyzeRelations P GZ" using d(7) unfolding P' gz' .
  have g: "generateInterpretation tz (now env) P (changedYaoList r) gua' cg GZ YS
      (analyzeRelations P GZ) (questionCategory inp) = Inr (r_interpretation r)"
    using d(4) unfolding rel ys' gz' unfolding P' .
  have "length (filter isMoving P) = length (filter isMoving (yaoStates inp))"
    using length_filter_map_flag [OF castHexagram_primary_flags(1) [OF r]] unfolding P' .
  then have many': "length (filter isMoving P) \<ge> 4" using many by simp
  note mv = analyzeMovingYao_many [OF many', of "changedYaoList r" YS]
  from generateInterpretation_InrD [OF g] obtain a' w' where
    a': "analyzeYongShenStatus P YS GZ = Inr a'"
    and w': "analyzeWorldResponse P GZ (questionCategory inp) = Inr w'"
    and its: "items (r_interpretation r) =
        [fst a', w']
        @ (case analyzeMovingYao P (changedYaoList r) YS of
             None \<Rightarrow> [] | Some m \<Rightarrow> [fst m])
        @ analyzeRelationsImpact (analyzeRelations P GZ) YS P
        @ (case analyzeVoidAndBroken P YS GZ of None \<Rightarrow> [] | Some v \<Rightarrow> [v])"
    and us: "uncertainties (r_interpretation r) =
        (case snd a' of None \<Rightarrow> [] | Some u \<Rightarrow> [u])
        @ (case analyzeMovingYao P (changedYaoList r) YS of
             Some (m, Some u) \<Rightarrow> [u] | _ \<Rightarrow> [])"
    and tr: "trend (r_interpretation r)
        = judgeTrend (items (r_interpretation r)) (fst a')
            (length (uncertainties (r_interpretation r)))"
    by blast
  have a'': "a' = (A, U)" using a a' by simp
  have w'': "w' = W" using w w' by simp
  show ?thesis unfolding tr its us mv a'' w'' by simp
qed

lemma sixOldYangNoon_lines:
  "length (yaoStates sixOldYangNoon) = 6"
  "length (filter isMoving (yaoStates sixOldYangNoon)) \<ge> 4"
  by (simp_all add: sixOldYangNoon_def coinSumToYaoState_def)

text \<open>
  C9 as stated fails: the same input, with the same timestamp, is judged \<open>neutral\<close> on a
  host eight hours east of UTC, where the day pillar is that of the 4th of June, and
  \<open>very unfavorable\<close> on a host fourteen hours east, where it is that of the 5th.
\<close>

theorem castHexagram_depends_on_host_offset:
  "map_sum id (\<lambda>r. trend (r_interpretation r)) (castHexagram 480 testEnv sixOldYangNoon)
     = Inr trend_neutral
   \<and> map_sum id (\<lambda>r. trend (r_interpretation r)) (castHexagram 840 testEnv sixOldYangNoon)
     = Inr very_unfavorable"
proof -
  let ?GUA = "withBinary (mkGua [0x4E7E, 0x4E3A, 0x5929] 1 Qian Qian Qian 6 3 Jin) ''111111''"
  let ?I = "projr (installHexagram (yaoStates sixOldYangNoon) ?GUA)"
  let ?YS = "\<lparr>ys_liuQin = GuanGui, positions = [4], isAutoSelected = True,
    alternatives = None\<rparr>"
  let ?W = "\<lparr>i_type = item_support, i_text = Text_WorldResponse, relatedYao = Some [6, 3]\<rparr>"
  let ?sub = "getQuestionSubType (questionCategory sixOldYangNoon) (subType sixOldYangNoon)
    (gender sixOldYangNoon)"
  have e_gua: "getGuaFromYaoStates (yaoStates sixOldYangNoon) = Inr ?GUA"
    by code_simp
  have e_ins: "installHexagram (yaoStates sixOldYangNoon) ?GUA = Inr ?I"
    by code_simp
  have east8: "trend (r_interpretation r) = trend_neutral"
    if r: "castHexagram 480 testEnv sixOldYangNoon = Inr r" for r
  proof -
    let ?GZ = "\<lparr>year = \<lparr>gan = G_Jia, zhi = Z_Chen\<rparr>, month = \<lparr>gan = G_Ding, zhi = Z_Chou\<rparr>,
      day = \<lparr>gan = G_Ji, zhi = Z_Hai\<rparr>, hour = \<lparr>gan = G_Jia, zhi = Z_Xu\<rparr>,
      voidBranches = (Z_Chen, Z_Si), monthWuXing = Tu, dayWuXing = Shui\<rparr>"
    let ?P = "analyzeAllProsperity (installLiuShen ?I (gan (day ?GZ))) ?GZ"
    let ?A = "\<lparr>i_type = item_support, i_text = Text_YongShenStatus, relatedYao = Some [4]\<rparr>"
    have e_gz: "getGanZhiTime 480 (gregorian (time sixOldYangNoon)) = ?GZ"
      by code_simp
    have e_ys: "selectYongShen ?P ?sub = Inr ?YS"
      by code_simp
    have e_a: "analyzeYongShenStatus ?P ?YS ?GZ = Inr (?A, None)"
      by code_simp
    have e_w: "analyzeWorldResponse ?P ?GZ (questionCategory sixOldYangNoon) = Inr ?W"
      by code_simp
    have e_trend: "judgeTrend
        ([?A, ?W]
         @ [\<lparr>i_type = item_risk, i_text = Text_TooManyMoving (length (filter isMoving ?P)),
              relatedYao = Some (map position (filter isMoving ?P))\<rparr>]
         @ analyzeRelationsImpact (analyzeRelations ?P ?GZ) ?YS ?P
         @ (case analyzeVoidAndBroken ?P ?YS ?GZ of None \<Rightarrow> [] | Some v \<Rightarrow> [v]))
        ?A (length ((case None of None \<Rightarrow> [] | Some u \<Rightarrow> [u]) @ [U_TooManyMoving]))
      = trend_neutral"
      by code_simp
    show ?thesis
      using castHexagram_trend_stages
        [OF r sixOldYangNoon_lines(2) e_gz e_gua e_ins refl e_ys e_a e_w]
      unfolding e_trend .
  qed
  have east14: "trend (r_interpretation r) = very_unfavorable"
    if r: "castHexagram 840 testEnv sixOldYangNoon = Inr r" for r
  proof -
    let ?GZ = "\<lparr>year = \<lparr>gan = G_Jia, zhi = Z_Chen\<rparr>, month = \<lparr>gan = G_Ding, zhi = Z_Chou\<rparr>,
      day = \<lparr>gan = G_Geng, zhi = Z_Zi\<rparr>, hour = \<lparr>gan = G_Ding, zhi = Z_Chou\<rparr>,
      voidBranches = (Z_Chen, Z_Si), monthWuXing = Tu, dayWuXing = Shui\<rparr>"
    let ?P = "analyzeAllProsperity (installLiuShen ?I (gan (day ?GZ))) ?GZ"
    let ?A = "\<lparr>i_type = item_obstacle, i_text = Text_YongShenStatus, relatedYao = Some [4]\<rparr>"
    have e_gz: "getGanZhiTime 840 (gregorian (time sixOldYangNoon)) = ?GZ"
      by code_simp
    have e_ys: "selectYongShen ?P ?sub = Inr ?YS"
      by code_simp
    have e_a: "analyzeYongShenStatus ?P ?YS ?GZ = Inr (?A, None)"
      by code_simp
    have e_w: "analyzeWorldResponse ?P ?GZ (questionCategory sixOldYangNoon) = Inr ?W"
      by code_simp
    have e_trend: "judgeTrend
        ([?A, ?W]
         @ [\<lparr>i_type = item_risk, i_text = Text_TooManyMoving (length (filter isMoving ?P)),
              relatedYao = Some (map position (filter isMoving ?P))\<rparr>]
         @ analyzeRelationsImpact (analyzeRelations ?P ?GZ) ?YS ?P
         @ (case analyzeVoidAndBroken ?P ?YS ?GZ of None \<Rightarrow> [] | Some v \<Rightarrow> [v]))
        ?A (length ((case None of None \<Rightarrow> [] | Some u \<Rightarrow> [u]) @ [U_TooManyMoving]))
      = very_unfavorable"
      by code_simp
    show ?thesis
      using castHexagram_trend_stages
        [OF r sixOldYangNoon_lines(2) e_gz e_gua e_ins refl e_ys e_a e_w]
      unfolding e_trend .
  qed
  obtain r1 where r1: "castHexagram 480 testEnv sixOldYangNoon = Inr r1"
    using castHexagram_total [OF sixOldYangNoon_lines(1)] by blast
  obtain r2 where r2: "castHexagram 840 testEnv sixOldYangNoon = Inr r2"
    using castHexagram_total [OF sixOldYangNoon_lines(1)] by blast
  show ?thesis using east8 [OF r1] east14 [OF r2] by (simp add: r1 r2)
qed

subsection \<open>Share codes: base64\<close>


lemma B64_length: "length B64 = 64"
  by (simp add: B64_def ascii_def)

lemma B64_distinct: "distinct B64"
  by (simp add: B64_def ascii_def)

lemma B64_chars: "c \<in> set B64 \<Longrightarrow> c \<noteq> 61 \<and> \<not> isAsciiWhitespace c"
  by (auto simp: B64_def ascii_def isAsciiWhitespace_def)

lemma byte_parts:
  fixes x :: nat
  assumes "x < 256"
  shows "x div 4 < 64" "x div 16 < 16" "x div 64 < 4"
  using assms by (simp_all add: div_less_iff_less_mult)

lemma join_parts:
  fixes h l :: nat
  shows "l < 16 \<Longrightarrow> (h * 16 + l) div 16 = h" "l < 16 \<Longrightarrow> (h * 16 + l) mod 16 = l"
    "l < 4 \<Longrightarrow> (h * 4 + l) div 4 = h" "l < 4 \<Longrightarrow> (h * 4 + l) mod 4 = l"
  by simp_all

lemma unsextets_sextets:
  "\<forall>c \<in> set s. c < 256 \<Longrightarrow> unsextets (sextets s) = s"
proof (induction s rule: sextets.induct)
  case (1 a b c rest)
  then have b: "b div 16 < 16" and c: "c div 64 < 4" by (simp_all add: byte_parts)
  show ?case using 1 b c by (simp add: join_parts)
next
  case (2 a b)
  then have b: "b div 16 < 16" by (simp add: byte_parts)
  show ?case using b by (simp add: join_parts)
next
  case (3 a)
  show ?case by simp
qed simp

lemma sextets_bound:
  "\<forall>c \<in> set s. c < 256 \<Longrightarrow> \<forall>x \<in> set (sextets s). x < 64"
proof (induction s rule: sextets.induct)
  case (1 a b c rest)
  then have "a div 4 < 64" "b div 16 < 16" "c div 64 < 4"
    by (simp_all add: byte_parts)
  moreover have "a mod 4 < 4" "b mod 16 < 16" "c mod 64 < 64" by simp_all
  ultimately have "a div 4 < 64" "a mod 4 * 16 + b div 16 < 64" "b mod 16 * 4 + c div 64 < 64"
    "c mod 64 < 64"
    by linarith+
  then show ?case using 1 by simp
next
  case (2 a b)
  then have "a div 4 < 64" "b div 16 < 16" by (simp_all add: byte_parts)
  moreover have "a mod 4 < 4" "b mod 16 < 16" by simp_all
  ultimately have "a div 4 < 64" "a mod 4 * 16 + b div 16 < 64" "b mod 16 * 4 < 64"
    by linarith+
  then show ?case by simp
next
  case (3 a)
  then have "a div 4 < 64" by (simp add: byte_parts)
  moreover have "a mod 4 < 4" by simp
  ultimately have "a div 4 < 64" "a mod 4 * 16 < 64" by linarith+
  then show ?case by simp
qed simp

lemma sextets_length:
  "length (sextets s) = 4 * (length s div 3) + (if length s mod 3 = 0 then 0 else length s mod 3 + 1)"
  by (induction s rule: sextets.induct) simp_all

lemma atob_padded:
  assumes enc: "\<forall>c \<in> set enc. c \<in> set B64"
    and pad: "(pad = [] \<and> length enc mod 4 = 0) \<or> (pad = [61] \<and> length enc mod 4 = 3)
              \<or> (pad = [61, 61] \<and> length enc mod 4 = 2)"
  shows "atob (enc @ pad) = Inr (unsextets (map (\<lambda>c. nat (indexOf B64 c)) enc))"
proof -
  have nows: "filter (\<lambda>c. \<not> isAsciiWhitespace c) enc = enc"
    using enc B64_chars by (simp add: filter_id_conv)
  have w61: "\<not> isAsciiWhitespace 61" by (simp add: isAsciiWhitespace_def)
  have last_enc: "enc \<noteq> [] \<Longrightarrow> last enc \<noteq> 61"
    using enc B64_chars last_in_set by blast
  have found: "\<not> list_ex (\<lambda>c. indexOf B64 c < 0) enc"
    using enc indexOf_nonneg_iff [of B64] by (auto simp: list_ex_iff not_less)
  from pad consider
      (a) "pad = []" "length enc mod 4 = 0"
    | (b) "pad = [61]" "length enc mod 4 = 3"
    | (c) "pad = [61, 61]" "length enc mod 4 = 2"
    by auto
  then show ?thesis
  proof cases
    case a
    show ?thesis
    proof (cases "enc = []")
      case True
      then show ?thesis using a by (simp add: atob_def)
    next
      case False
      with last_enc have "last enc \<noteq> 61" by simp
      then show ?thesis using a found by (simp add: atob_def Let_def nows)
    qed
  next
    case b
    then have ne: "enc \<noteq> []" by auto
    with last_enc have l: "last enc \<noteq> 61" by simp
    have len: "Suc (length enc) mod 4 = 0" using b(2) by presburger
    show ?thesis using b l found len ne
      by (simp add: atob_def Let_def nows w61 butlast_append)
  next
    case c
    have len: "Suc (Suc (length enc)) mod 4 = 0" using c(2) by presburger
    show ?thesis using c found len
      by (simp add: atob_def Let_def nows w61 butlast_append)
  qed
qed

lemma indexOf_B64: "i < 64 \<Longrightarrow> nat (indexOf B64 (B64 ! i)) = i"
  using indexOf_nth_distinct [OF B64_distinct, of i] by (simp add: B64_length)

lemma atob_btoa:
  assumes "\<forall>c \<in> set s. c < 256"
  shows "\<exists>code. btoa s = Inr code \<and> atob code = Inr s"
proof -
  let ?enc = "map (\<lambda>i. B64 ! i) (sextets s)"
  let ?pad = "replicate ((3 - length s mod 3) mod 3) (61 :: nat)"
  have b: "btoa s = Inr (?enc @ ?pad)"
    using assms by (auto simp: btoa_def list_ex_iff)
  have bound: "\<forall>x \<in> set (sextets s). x < 64" using sextets_bound [OF assms] .
  then have enc: "\<forall>c \<in> set ?enc. c \<in> set B64" by (simp add: B64_length)
  have len: "length ?enc = 4 * (length s div 3)
      + (if length s mod 3 = 0 then 0 else length s mod 3 + 1)"
    by (simp add: sextets_length)
  have "length s mod 3 = 0 \<or> length s mod 3 = 1 \<or> length s mod 3 = 2" by presburger
  then have pad: "(?pad = [] \<and> length ?enc mod 4 = 0) \<or> (?pad = [61] \<and> length ?enc mod 4 = 3)
              \<or> (?pad = [61, 61] \<and> length ?enc mod 4 = 2)"
    unfolding len by (auto simp: numeral_2_eq_2)
  have "map (\<lambda>c. nat (indexOf B64 c)) ?enc = sextets s"
    using bound by (simp add: map_idI indexOf_B64 comp_def)
  then have "atob (?enc @ ?pad) = Inr s"
    using atob_padded [OF enc pad] unsextets_sextets [OF assms] by simp
  with b show ?thesis by blast
qed

subsection \<open>Share codes: numbers\<close>

declare decimal.simps [simp del]

lemma decimal_small: "n < 10 \<Longrightarrow> decimal n = [48 + n]"
  by (subst decimal.simps) simp

lemma decimal_large: "\<not> n < 10 \<Longrightarrow> decimal n = decimal (n div 10) @ [48 + n mod 10]"
  by (subst decimal.simps) simp

lemma decimal_digits: "\<forall>c \<in> set (decimal n). isDigit c"
proof (induction n rule: decimal.induct)
  case (1 n)
  show ?case
  proof (cases "n < 10")
    case True
    then show ?thesis by (simp add: decimal_small isDigit_def)
  next
    case False
    have "n mod 10 < 10" by simp
    then have "isDigit (48 + n mod 10)" unfolding isDigit_def by linarith
    with False 1 show ?thesis by (simp add: decimal_large)
  qed
qed

lemma decimal_nonempty: "decimal n \<noteq> []"
  by (cases "n < 10") (simp_all add: decimal_small decimal_large)

lemma digitsValue_snoc: "digitsValue (ds @ [d]) = digitsValue ds * 10 + (d - 48)"
  by (simp add: digitsValue_def)

lemma digitsValue_decimal: "digitsValue (decimal n) = n"
proof (induction n rule: decimal.induct)
  case (1 n)
  show ?case
  proof (cases "n < 10")
    case True
    then show ?thesis by (simp add: decimal_small digitsValue_def)
  next
    case False
    then have "digitsValue (decimal n) = digitsValue (decimal (n div 10)) * 10 + n mod 10"
      by (simp add: decimal_large digitsValue_snoc)
    with False 1 show ?thesis by simp
  qed
qed

lemma decimal_hd: "0 < n \<Longrightarrow> hd (decimal n) \<noteq> 48"
proof (induction n rule: decimal.induct)
  case (1 n)
  show ?case
  proof (cases "n < 10")
    case True
    with 1(2) show ?thesis by (simp add: decimal_small)
  next
    case False
    then have "0 < n div 10" by (simp add: div_greater_zero_iff)
    with False 1(1) have "hd (decimal (n div 10)) \<noteq> 48" by simp
    with False show ?thesis by (simp add: decimal_large decimal_nonempty)
  qed
qed

lemma decimal_leading: "1 < length (decimal n) \<Longrightarrow> hd (decimal n) \<noteq> 48"
proof -
  assume l: "1 < length (decimal n)"
  have "0 < n" using l by (cases "n < 10") (simp_all add: decimal_small)
  then show ?thesis by (rule decimal_hd)
qed

lemma number_token_digits:
  assumes "\<forall>c \<in> set ds. isDigit c" and "ds \<noteq> []" and "1 < length ds \<longrightarrow> hd ds \<noteq> 48"
  shows "number_token ds = Inr (TVal (JNum (int (digitsValue ds)) 0))"
    and "number_token (45 # ds) = Inr (TVal (JNum (- int (digitsValue ds)) 0))"
proof -
  from assms(2) obtain c r where ds: "ds = c # r" by (cases ds) auto
  with assms(1) have c: "c \<noteq> 45" by (auto simp: isDigit_def)
  have tw: "takeWhile isDigit ds = ds" "dropWhile isDigit ds = []"
    using assms(1) by (simp_all add: takeWhile_eq_all_conv)
  have "(case ds of [] \<Rightarrow> (False, []) | c # r \<Rightarrow> if c = 45 then (True, r) else (False, ds))
      = (False, ds)"
    using ds c by simp
  then show "number_token ds = Inr (TVal (JNum (int (digitsValue ds)) 0))"
    using assms(2,3) unfolding number_token_def by (simp add: tw)
  show "number_token (45 # ds) = Inr (TVal (JNum (- int (digitsValue ds)) 0))"
    using assms(2,3) unfolding number_token_def by (simp add: tw)
qed

lemma number_token_NumberToString:
  "number_token (NumberToString t) = Inr (TVal (JNum t 0))"
proof (cases "t < 0")
  case True
  show ?thesis
    using number_token_digits(2) [OF decimal_digits decimal_nonempty, of "nat (- t)"]
      decimal_leading [of "nat (- t)"] True
    by (simp add: NumberToString_def digitsValue_decimal)
next
  case False
  show ?thesis
    using number_token_digits(1) [OF decimal_digits decimal_nonempty, of "nat t"]
      decimal_leading [of "nat t"] False
    by (simp add: NumberToString_def digitsValue_decimal)
qed

subsection \<open>Share codes: reading back the text that is written\<close>

lemma bindE_return [simp]: "bindE m Inr = m"
  by (cases m) simp_all

lemma quoteChar_plain: "32 \<le> c \<Longrightarrow> c \<noteq> 34 \<Longrightarrow> c \<noteq> 92 \<Longrightarrow> quoteChar c = [c]"
  by (simp add: quoteChar_def)

lemma QuoteJSONString_plain:
  assumes "\<forall>c \<in> set s. 32 \<le> c \<and> c \<noteq> 34 \<and> c \<noteq> 92"
  shows "QuoteJSONString s = 34 # s @ [34]"
proof -
  have "concat (map quoteChar s) = s"
    using assms by (induction s) (simp_all add: quoteChar_plain)
  then show ?thesis by (simp add: QuoteJSONString_def)
qed

lemma lex_run_string:
  assumes "\<forall>c \<in> set s. 32 \<le> c \<and> c \<noteq> 34 \<and> c \<noteq> 92"
  shows "lex_run (LStr acc) (s @ 34 # rest)
         = bindE (lex_run LStart rest) (\<lambda>ts. Inr (TStr (rev acc @ s) # ts))"
  using assms
proof (induction s arbitrary: acc)
  case Nil
  then show ?case by simp
next
  case (Cons c s)
  then have c: "c \<noteq> 34" "c \<noteq> 92" "\<not> c < 32" by auto
  have "lex_run (LStr acc) ((c # s) @ 34 # rest) = lex_run (LStr (c # acc)) (s @ 34 # rest)"
    using c by simp
  also have "\<dots> = bindE (lex_run LStart rest) (\<lambda>ts. Inr (TStr (rev (c # acc) @ s) # ts))"
    using Cons by simp
  finally show ?case by simp
qed

lemma lex_run_number:
  assumes "\<forall>c \<in> set ds. isNumChar c" and "\<not> isNumChar d"
  shows "lex_run (LNum raw) (ds @ d # rest)
         = bindE (number_token (rev raw @ ds)) (\<lambda>t.
           bindE (lex_start d) (\<lambda>(toks, st).
           bindE (lex_run st rest) (\<lambda>ts. Inr (t # toks @ ts))))"
  using assms(1)
proof (induction ds arbitrary: raw)
  case Nil
  show ?case using assms(2)
    by (cases "number_token (rev raw)"; cases "lex_start d") (auto split: prod.splits)
next
  case (Cons c ds)
  then have "lex_run (LNum raw) ((c # ds) @ d # rest) = lex_run (LNum (c # raw)) (ds @ d # rest)"
    by simp
  also have "\<dots> = bindE (number_token (rev (c # raw) @ ds)) (\<lambda>t.
           bindE (lex_start d) (\<lambda>(toks, st).
           bindE (lex_run st rest) (\<lambda>ts. Inr (t # toks @ ts))))"
    using Cons by simp
  finally show ?case by simp
qed

lemma NumberToString_chars:
  "\<exists>c ds. NumberToString t = c # ds \<and> (c = 45 \<or> isDigit c) \<and> (\<forall>x \<in> set ds. isDigit x)"
proof (cases "t < 0")
  case True
  then show ?thesis using decimal_digits by (simp add: NumberToString_def)
next
  case False
  obtain c ds where d: "decimal (nat t) = c # ds"
    using decimal_nonempty [of "nat t"] by (cases "decimal (nat t)") auto
  with decimal_digits [of "nat t"] False show ?thesis by (simp add: NumberToString_def)
qed

lemma lex_run_NumberToString:
  "lex_run LStart (NumberToString t @ 44 # rest)
   = bindE (lex_run LStart rest) (\<lambda>ts. Inr (TVal (JNum t 0) # TComma # ts))"
proof -
  obtain c ds where n: "NumberToString t = c # ds" and c: "c = 45 \<or> isDigit c"
    and ds: "\<forall>x \<in> set ds. isDigit x"
    using NumberToString_chars by blast
  have st: "lex_start c = Inr ([], LNum [c])"
    using c by (auto simp: lex_start_def isDigit_def)
  have nc: "\<forall>x \<in> set ds. isNumChar x" using ds by (simp add: isNumChar_def)
  have d: "\<not> isNumChar 44" by (simp add: isNumChar_def isDigit_def)
  have "lex_run LStart (NumberToString t @ 44 # rest) = lex_run (LNum [c]) (ds @ 44 # rest)"
    by (simp add: n st)
  also have "\<dots> = bindE (number_token (c # ds)) (\<lambda>t.
           bindE (lex_start 44) (\<lambda>(toks, st).
           bindE (lex_run st rest) (\<lambda>ts. Inr (t # toks @ ts))))"
    using lex_run_number [OF nc d, of "[c]" rest] by simp
  also have "\<dots> = bindE (lex_run LStart rest) (\<lambda>ts. Inr (TVal (JNum t 0) # TComma # ts))"
    using number_token_NumberToString [of t] by (simp add: n lex_start_def)
  finally show ?thesis .
qed

lemma JSON_parse_stringify:
  assumes "\<forall>c \<in> set y. 32 \<le> c \<and> c \<noteq> 34 \<and> c \<noteq> 92"
    and "\<forall>c \<in> set q. 32 \<le> c \<and> c \<noteq> 34 \<and> c \<noteq> 92"
    and "\<forall>c \<in> set m. 32 \<le> c \<and> c \<noteq> 34 \<and> c \<noteq> 92"
  shows "JSON_parse (JSON_stringify_data y t q m)
         = Inr (JObj [(ascii ''y'', JStr y), (ascii ''t'', JNum t 0),
                      (ascii ''q'', JStr q), (ascii ''m'', JStr m)])"
proof -
  have k: "QuoteJSONString (ascii ''y'') = [34, 121, 34]"
    "QuoteJSONString (ascii ''t'') = [34, 116, 34]"
    "QuoteJSONString (ascii ''q'') = [34, 113, 34]"
    "QuoteJSONString (ascii ''m'') = [34, 109, 34]"
    by (simp_all add: QuoteJSONString_def quoteChar_def ascii_def)
  have key: "lex_run (LStr []) (k # 34 # rest)
      = bindE (lex_run LStart rest) (\<lambda>ts. Inr (TStr [k] # ts))"
    if "32 \<le> k \<and> k \<noteq> 34 \<and> k \<noteq> 92" for k rest
    using lex_run_string [of "[k]" "[]" rest] that by simp
  have l: "lex_run LStart (JSON_stringify_data y t q m)
      = Inr [TLBrace, TStr [121], TColon, TStr y, TComma,
             TStr [116], TColon, TVal (JNum t 0), TComma,
             TStr [113], TColon, TStr q, TComma,
             TStr [109], TColon, TStr m, TRBrace]"
    unfolding JSON_stringify_data_def k
      QuoteJSONString_plain [OF assms(1)] QuoteJSONString_plain [OF assms(2)]
      QuoteJSONString_plain [OF assms(3)]
    by (simp add: ascii_def lex_start_def key lex_run_string [OF assms(1)]
          lex_run_string [OF assms(2)] lex_run_string [OF assms(3)] lex_run_NumberToString)
  show ?thesis
    unfolding JSON_parse_def l by (simp add: ascii_def)
qed

subsection \<open>Share codes: the round trip\<close>

lemma yaoDigit_cases: "yaoDigit y = 54 \<or> yaoDigit y = 55 \<or> yaoDigit y = 56 \<or> yaoDigit y = 57"
  by (simp add: yaoDigit_def)

lemma yaoDigit_plain:
  "\<forall>c \<in> set (map yaoDigit ys). 32 \<le> c \<and> c \<noteq> 34 \<and> c \<noteq> 92 \<and> c < 256"
proof
  fix c
  assume "c \<in> set (map yaoDigit ys)"
  then obtain y where "c = yaoDigit y" by auto
  with yaoDigit_cases [of y] show "32 \<le> c \<and> c \<noteq> 34 \<and> c \<noteq> 92 \<and> c < 256" by auto
qed

lemma categoryString_plain:
  "\<forall>c \<in> set (categoryString q). 32 \<le> c \<and> c \<noteq> 34 \<and> c \<noteq> 92 \<and> c < 256"
  by (cases q) (simp_all add: ascii_def)

lemma methodString_plain:
  "\<forall>c \<in> set (methodString m). 32 \<le> c \<and> c \<noteq> 34 \<and> c \<noteq> 92 \<and> c < 256"
  by (cases m) (simp_all add: ascii_def)

lemma categoryString_inj: "inj categoryString"
  by (rule injI) (rename_tac a b, case_tac a; case_tac b; simp add: ascii_def)

lemma methodString_inj: "inj methodString"
  by (rule injI) (rename_tac a b, case_tac a; case_tac b; simp add: ascii_def)

lemma NumberToString_bytes: "\<forall>c \<in> set (NumberToString t). c < 256"
proof -
  obtain c ds where n: "NumberToString t = c # ds" and c: "c = 45 \<or> isDigit c"
    and ds: "\<forall>x \<in> set ds. isDigit x"
    using NumberToString_chars by blast
  show ?thesis unfolding n using c ds by (auto simp: isDigit_def)
qed

lemma JSON_stringify_data_bytes:
  assumes "\<forall>c \<in> set y. 32 \<le> c \<and> c \<noteq> 34 \<and> c \<noteq> 92 \<and> c < 256"
    and "\<forall>c \<in> set q. 32 \<le> c \<and> c \<noteq> 34 \<and> c \<noteq> 92 \<and> c < 256"
    and "\<forall>c \<in> set m. 32 \<le> c \<and> c \<noteq> 34 \<and> c \<noteq> 92 \<and> c < 256"
  shows "\<forall>c \<in> set (JSON_stringify_data y t q m). c < 256"
proof -
  have p: "\<forall>c \<in> set y. 32 \<le> c \<and> c \<noteq> 34 \<and> c \<noteq> 92" "\<forall>c \<in> set q. 32 \<le> c \<and> c \<noteq> 34 \<and> c \<noteq> 92"
    "\<forall>c \<in> set m. 32 \<le> c \<and> c \<noteq> 34 \<and> c \<noteq> 92"
    using assms by auto
  have k: "QuoteJSONString (ascii ''y'') = [34, 121, 34]"
    "QuoteJSONString (ascii ''t'') = [34, 116, 34]"
    "QuoteJSONString (ascii ''q'') = [34, 113, 34]"
    "QuoteJSONString (ascii ''m'') = [34, 109, 34]"
    by (simp_all add: QuoteJSONString_def quoteChar_def ascii_def)
  show ?thesis
    unfolding JSON_stringify_data_def k QuoteJSONString_plain [OF p(1)]
      QuoteJSONString_plain [OF p(2)] QuoteJSONString_plain [OF p(3)]
    using assms NumberToString_bytes [of t] by (auto simp: ascii_def)
qed

lemma decodeYao_yaoDigit:
  "decodeYao (yaoDigit y) =
     \<lparr>dy_yinYang = (if ytype y = young_yang \<or> ytype y = old_yang then Yang else Yin),
      dy_isMoving = (ytype y = old_yin \<or> ytype y = old_yang),
      dy_type = ytype y,
      dy_coinResult = Some (case ytype y of old_yin \<Rightarrow> 6 | young_yang \<Rightarrow> 7
                            | young_yin \<Rightarrow> 8 | old_yang \<Rightarrow> 9)\<rparr>"
  by (cases "ytype y") (simp_all add: decodeYao_def yaoDigit_def parseInt1_def isDigit_def)

lemma categoryString_nonempty: "categoryString q \<noteq> []"
  by (cases q) (simp_all add: ascii_def)

lemma methodString_nonempty: "methodString m \<noteq> []"
  by (cases m) (simp_all add: ascii_def)

lemma deserializeResult_of_data:
  assumes "atob code = Inr (JSON_stringify_data y t q m)"
    and "\<forall>c \<in> set y. 32 \<le> c \<and> c \<noteq> 34 \<and> c \<noteq> 92"
    and "\<forall>c \<in> set q. 32 \<le> c \<and> c \<noteq> 34 \<and> c \<noteq> 92"
    and "\<forall>c \<in> set m. 32 \<le> c \<and> c \<noteq> 34 \<and> c \<noteq> 92"
    and "q \<noteq> []" and "m \<noteq> []"
  shows "deserializeResult tz env code
         = Some \<lparr>d_method = JStr m, d_yaoStates = map decodeYao y,
                 d_time = timeClip tz env t, d_questionCategory = JStr q\<rparr>"
  using assms(5,6)
  by (simp add: deserializeResult_def deserializeResult_try_def assms(1)
        JSON_parse_stringify [OF assms(2,3,4)] ascii_def orElse_def)

text \<open>
  C7. A result whose timestamp is a valid date (within \<open>8.64 * 10 ^ 15\<close> milliseconds of
  the epoch) is encoded by \<^verbatim>\<open>serializeResult\<close> without an exception, and
  \<^verbatim>\<open>deserializeResult\<close> decodes that code to a casting input with as many lines, each
  line with the type of the original line and the draw value of that type (6 old yin,
  7 young yang, 8 young yin, 9 old yang), the polarity and the active flag that the
  type implies; with the name of the original category and of the original method,
  which name no other; and with the original timestamp, around which the casting time
  is built anew.
\<close>

theorem serializeResult_round_trip:
  assumes "\<bar>gregorian (time (input r))\<bar> \<le> 8640000000000000"
  shows "\<exists>code d. serializeResult r = Inr code \<and> deserializeResult tz env code = Some d
    \<and> length (d_yaoStates d) = length (yaoStates (input r))
    \<and> map dy_type (d_yaoStates d) = map ytype (yaoStates (input r))
    \<and> map dy_coinResult (d_yaoStates d)
        = map (\<lambda>y. Some (case ytype y of old_yin \<Rightarrow> 6 | young_yang \<Rightarrow> 7
                          | young_yin \<Rightarrow> 8 | old_yang \<Rightarrow> 9)) (yaoStates (input r))
    \<and> map dy_isMoving (d_yaoStates d)
        = map (\<lambda>y. ytype y = old_yin \<or> ytype y = old_yang) (yaoStates (input r))
    \<and> map dy_yinYang (d_yaoStates d)
        = map (\<lambda>y. if ytype y = young_yang \<or> ytype y = old_yang then Yang else Yin)
            (yaoStates (input r))
    \<and> d_questionCategory d = JStr (categoryString (questionCategory (input r)))
    \<and> d_method d = JStr (methodString (method' (input r)))
    \<and> inj categoryString \<and> inj methodString
    \<and> d_time d = AtDate (createCastingTime tz env (gregorian (time (input r))))
    \<and> (\<exists>ct. d_time d = AtDate ct \<and> gregorian ct = gregorian (time (input r)))"
proof -
  let ?y = "map yaoDigit (yaoStates (input r))"
  let ?t = "gregorian (time (input r))"
  let ?q = "categoryString (questionCategory (input r))"
  let ?m = "methodString (method' (input r))"
  have bytes: "\<forall>c \<in> set (JSON_stringify_data ?y ?t ?q ?m). c < 256"
    by (rule JSON_stringify_data_bytes [OF yaoDigit_plain categoryString_plain methodString_plain])
  from atob_btoa [OF bytes] obtain code where
    enc: "btoa (JSON_stringify_data ?y ?t ?q ?m) = Inr code"
    and dec: "atob code = Inr (JSON_stringify_data ?y ?t ?q ?m)"
    by blast
  have s: "serializeResult r = Inr code" using enc by (simp add: serializeResult_def)
  have py: "\<forall>c \<in> set ?y. 32 \<le> c \<and> c \<noteq> 34 \<and> c \<noteq> 92" using yaoDigit_plain by blast
  have pq: "\<forall>c \<in> set ?q. 32 \<le> c \<and> c \<noteq> 34 \<and> c \<noteq> 92" using categoryString_plain by blast
  have pm: "\<forall>c \<in> set ?m. 32 \<le> c \<and> c \<noteq> 34 \<and> c \<noteq> 92" using methodString_plain by blast
  have d: "deserializeResult tz env code
      = Some \<lparr>d_method = JStr ?m, d_yaoStates = map decodeYao ?y,
              d_time = timeClip tz env ?t, d_questionCategory = JStr ?q\<rparr>"
    by (rule deserializeResult_of_data
          [OF dec py pq pm categoryString_nonempty methodString_nonempty])
  have t: "timeClip tz env ?t = AtDate (createCastingTime tz env ?t)"
    using assms by (simp add: timeClip_def)
  show ?thesis
    using s categoryString_inj methodString_inj
    by (simp add: d t comp_def decodeYao_yaoDigit createCastingTime_def)
qed

theorem serializeResult_round_trip_witness:
  "\<exists>r. castHexagram 480 testEnv testCase3 = Inr r
     \<and> \<bar>gregorian (time (input r))\<bar> \<le> 8640000000000000
     \<and> (\<exists>code d. serializeResult r = Inr code \<and> deserializeResult 480 testEnv code = Some d
          \<and> map dy_type (d_yaoStates d)
              = [old_yin, young_yin, young_yin, young_yang, young_yang, young_yang]
          \<and> map dy_coinResult (d_yaoStates d)
              = [Some 6, Some 8, Some 8, Some 7, Some 7, Some 7]
          \<and> d_questionCategory d = JStr (ascii ''love'')
          \<and> d_method d = JStr (ascii ''coin'')
          \<and> d_time d = AtDate (createCastingTime 480 testEnv 1718949600000))"
proof -
  obtain r where r: "castHexagram 480 testEnv testCase3 = Inr r"
    using castHexagram_total [of testCase3 480 testEnv] by (auto simp: testCase3_lines)
  have i: "input r = testCase3" using castHexagram_InrD [OF r] by blast
  have t: "gregorian (time testCase3) = 1718949600000"
    by code_simp
  have v: "\<bar>gregorian (time (input r))\<bar> \<le> 8640000000000000" unfolding i t by simp
  have f: "map ytype (yaoStates testCase3)
        = [old_yin, young_yin, young_yin, young_yang, young_yang, young_yang]"
    "categoryString (questionCategory testCase3) = ascii ''love''"
    "methodString (method' testCase3) = ascii ''coin''"
    by (simp_all add: testCase3_def testCase3_yaoStates_def)
  from serializeResult_round_trip [OF v, of 480 testEnv] obtain code d where
    s: "serializeResult r = Inr code" and d: "deserializeResult 480 testEnv code = Some d"
    and ty: "map dy_type (d_yaoStates d) = map ytype (yaoStates (input r))"
    and co: "map dy_coinResult (d_yaoStates d)
        = map (\<lambda>y. Some (case ytype y of old_yin \<Rightarrow> 6 | young_yang \<Rightarrow> 7
                          | young_yin \<Rightarrow> 8 | old_yang \<Rightarrow> 9)) (yaoStates (input r))"
    and q: "d_questionCategory d = JStr (categoryString (questionCategory (input r)))"
    and m: "d_method d = JStr (methodString (method' (input r)))"
    and tm: "d_time d = AtDate (createCastingTime 480 testEnv (gregorian (time (input r))))"
    by blast
  have co': "map dy_coinResult (d_yaoStates d)
        = map (\<lambda>ty. Some (case ty of old_yin \<Rightarrow> 6 | young_yang \<Rightarrow> 7
                          | young_yin \<Rightarrow> 8 | old_yang \<Rightarrow> 9)) (map ytype (yaoStates (input r)))"
    unfolding co by (simp add: comp_def)
  have "map dy_type (d_yaoStates d)
          = [old_yin, young_yin, young_yin, young_yang, young_yang, young_yang]"
    using ty unfolding i f(1) .
  moreover have "map dy_coinResult (d_yaoStates d)
          = [Some 6, Some 8, Some 8, Some 7, Some 7, Some 7]"
    unfolding co' i f(1) by simp
  moreover have "d_questionCategory d = JStr (ascii ''love'')" using q unfolding i f(2) .
  moreover have "d_method d = JStr (ascii ''coin'')" using m unfolding i f(3) .
  moreover have "d_time d = AtDate (createCastingTime 480 testEnv 1718949600000)"
    using tm unfolding i t .
  ultimately have "serializeResult r = Inr code \<and> deserializeResult 480 testEnv code = Some d
          \<and> map dy_type (d_yaoStates d)
              = [old_yin, young_yin, young_yin, young_yang, young_yang, young_yang]
          \<and> map dy_coinResult (d_yaoStates d)
              = [Some 6, Some 8, Some 8, Some 7, Some 7, Some 7]
          \<and> d_questionCategory d = JStr (ascii ''love'')
          \<and> d_method d = JStr (ascii ''coin'')
          \<and> d_time d = AtDate (createCastingTime 480 testEnv 1718949600000)"
    using s d by simp
  then have "\<exists>code d. serializeResult r = Inr code
          \<and> deserializeResult 480 testEnv code = Some d
          \<and> map dy_type (d_yaoStates d)
              = [old_yin, young_yin, young_yin, young_yang, young_yang, young_yang]
          \<and> map dy_coinResult (d_yaoStates d)
              = [Some 6, Some 8, Some 8, Some 7, Some 7, Some 7]
          \<and> d_questionCategory d = JStr (ascii ''love'')
          \<and> d_method d = JStr (ascii ''coin'')
          \<and> d_time d = AtDate (createCastingTime 480 testEnv 1718949600000)"
    by (rule exI [where x = d, THEN exI [where x = code]])
  with r v show ?thesis by (intro exI [where x = r] conjI)
qed




end
